theory Spec2Isabelle
  imports Complex_Main "HOL-Library.Signed_Division"
begin

section \<open>A shallow embedding of the N-body vortex simulator (main.c)\<close>

text \<open>
  Conventions of the embedding.
  \<^item> The C type \<open>double\<close> is modelled by \<open>real\<close>: the theorems are about the formulas the
    code evaluates, not about rounding.
  \<^item> The C types \<open>int\<close> and \<open>long\<close> are modelled by \<open>int\<close>. Indices reach the index
    calculators from \<open>int\<close>-typed fields and loop counters; \<open>index_fits_long\<close> below shows
    that for such arguments no intermediate value of the triangular index leaves the
    range of a 64-bit \<open>long\<close>, so no wrap-around is lost.
  \<^item> The C operator \<open>/\<close> on integers truncates towards zero; it is \<open>sdiv\<close>.
  \<^item> A \<open>double *\<close> buffer is a \<open>real list\<close> as long as the allocation; the global
    variables and the constants of \<open>constants.h\<close> (not part of the sources at hand) are
    explicit parameters.
\<close>

subsection \<open>Index calculators\<close>

definition calculateVortexRadiiIndex :: "int \<Rightarrow> int \<Rightarrow> int" where
  "calculateVortexRadiiIndex vortIndex1 vortIndex2 =
     (if vortIndex1 < vortIndex2
      then ((vortIndex2 - 1) * vortIndex2 sdiv 2 + vortIndex1) * 3
      else ((vortIndex1 - 1) * vortIndex1 sdiv 2 + vortIndex2) * 3)"

text \<open>\<open>numDriverVorts\<close> is a global variable of the program; here it is the first argument.\<close>

definition calculateTracerRadiiIndex :: "int \<Rightarrow> int \<Rightarrow> int \<Rightarrow> int" where
  "calculateTracerRadiiIndex numDriverVorts tracerIndex vortIndex =
     (tracerIndex * numDriverVorts + vortIndex) * 3"


subsection \<open>Data\<close>

text \<open>
  The structs of \<open>main.h\<close>, with the fields \<open>main.c\<close> uses. \<open>position\<close> and \<open>velocity\<close>
  point to two doubles each (\<open>[0]\<close> is the first component, \<open>[1]\<close> the second); every
  body owns its two buffers, so they are inlined as pairs.
\<close>

record Body =
  position :: "real \<times> real"
  velocity :: "real \<times> real"

record Vortex = Body +
  vID :: int
  vIndex :: int
  intensity :: real
  initStep :: int

record Tracer = Body +
  tIndex :: int

text \<open>The constants of \<open>constants.h\<close> that the modelled functions read.\<close>

record Constants =
  DOMAIN_SIZE_X :: real
  DOMAIN_SIZE_Y :: real
  TEST_CASE :: int
  NUM_TRACERS :: int
  THREADCOUNT :: int
  VORTEX_MERGE_RADIUS :: real
  VORTEX_INTENSITY_SIGMA :: real

text \<open>
  The loop \<open>for (int i = 0; i < n; i++) xs[i] = f(xs[i]);\<close>, which occurs several times.
\<close>

definition update_each :: "nat \<Rightarrow> ('a \<Rightarrow> 'a) \<Rightarrow> 'a list \<Rightarrow> 'a list" where
  "update_each n f xs = fold (\<lambda>i ys. ys[i := f (ys ! i)]) [0..<n] xs"

subsection \<open>Domain wrap\<close>

text \<open>
  \<open>fmod\<close> of the C library: \<open>x - n * y\<close>, where \<open>n\<close> is \<open>x / y\<close> with its fractional part
  cut off, so that the result has the sign of \<open>x\<close>.
\<close>

definition trunc :: "real \<Rightarrow> int" where
  "trunc r = (if 0 \<le> r then \<lfloor>r\<rfloor> else \<lceil>r\<rceil>)"

definition fmod :: "real \<Rightarrow> real \<Rightarrow> real" where
  "fmod x y = x - of_int (trunc (x / y)) * y"

text \<open>The body of both loops of \<open>wrapPositions\<close>: first the x coordinate, then y.\<close>

definition wrap_body :: "Constants \<Rightarrow> 'a Body_scheme \<Rightarrow> 'a Body_scheme" where
  "wrap_body K b =
     (let b1 = (if fst (position b) < 0
                then b\<lparr>position := (DOMAIN_SIZE_X K + fmod (fst (position b)) (DOMAIN_SIZE_X K),
                                   snd (position b))\<rparr>
                else if fst (position b) > DOMAIN_SIZE_X K
                then b\<lparr>position := (fmod (fst (position b)) (DOMAIN_SIZE_X K), snd (position b))\<rparr>
                else b)
      in (if snd (position b1) < 0
          then b1\<lparr>position := (fst (position b1),
                               DOMAIN_SIZE_Y K + fmod (snd (position b1)) (DOMAIN_SIZE_Y K))\<rparr>
          else if snd (position b1) > DOMAIN_SIZE_Y K
          then b1\<lparr>position := (fst (position b1), fmod (snd (position b1)) (DOMAIN_SIZE_Y K))\<rparr>
          else b1))"

definition wrapPositions ::
  "Constants \<Rightarrow> int \<Rightarrow> Vortex list \<Rightarrow> Tracer list \<Rightarrow> int \<Rightarrow> Vortex list \<times> Tracer list" where
  "wrapPositions K numDriverVorts vorts tracers numTracers =
     (update_each (nat numDriverVorts) (wrap_body K) vorts,
      update_each (nat numTracers) (wrap_body K) tracers)"

text \<open>What \<open>wrap_body\<close> does to one coordinate, for the domain size \<open>D\<close>.\<close>

definition wrap1 :: "real \<Rightarrow> real \<Rightarrow> real" where
  "wrap1 D x = (if x < 0 then D + fmod x D else if x > D then fmod x D else x)"

subsection \<open>Recomputing the distance tables\<close>

text \<open>
  An entry of a distance table is three consecutive doubles: the magnitude at \<open>index\<close>,
  the x component at \<open>index + 1\<close>, the y component at \<open>index + 2\<close>. The three
  assignments that fill an entry (the magnitude is computed from the two components read
  back from the array):
\<close>

definition store_entry :: "real list \<Rightarrow> int \<Rightarrow> real \<Rightarrow> real \<Rightarrow> real list" where
  "store_entry rads index dx dy =
     (let r1 = rads[nat (index + 1) := dx];
          r2 = r1[nat (index + 2) := dy]
      in r2[nat index := sqrt ((r2 ! nat (index + 1))\<^sup>2 + (r2 ! nat (index + 2))\<^sup>2)])"

text \<open>The bodies of the inner loops of \<open>updateRadii_pythagorean\<close>.\<close>

definition vortex_radius_body :: "Vortex list \<Rightarrow> nat \<Rightarrow> nat \<Rightarrow> real list \<Rightarrow> real list" where
  "vortex_radius_body vortices i j vortexRadii =
     store_entry vortexRadii
       (calculateVortexRadiiIndex (vIndex (vortices ! i)) (vIndex (vortices ! j)))
       (fst (position (vortices ! i)) - fst (position (vortices ! j)))
       (snd (position (vortices ! i)) - snd (position (vortices ! j)))"

definition tracer_radius_body ::
  "int \<Rightarrow> Vortex list \<Rightarrow> Tracer list \<Rightarrow> nat \<Rightarrow> nat \<Rightarrow> real list \<Rightarrow> real list" where
  "tracer_radius_body numDriverVorts vortices tracers tracerIndex vortIndex tracerRadii =
     store_entry tracerRadii
       (calculateTracerRadiiIndex numDriverVorts (int tracerIndex) (int vortIndex))
       (fst (position (vortices ! vortIndex)) - fst (position (tracers ! tracerIndex)))
       (snd (position (vortices ! vortIndex)) - snd (position (tracers ! tracerIndex)))"

definition updateRadii_pythagorean ::
  "int \<Rightarrow> real list \<Rightarrow> Vortex list \<Rightarrow> real list \<Rightarrow> Tracer list \<Rightarrow> int \<Rightarrow> real list \<times> real list" where
  "updateRadii_pythagorean numDriverVorts vortexRadii vortices tracerRadii tracers numTracers =
     (fold (\<lambda>i. fold (vortex_radius_body vortices i) [0..<i]) [0..<nat numDriverVorts] vortexRadii,
      fold (\<lambda>tracerIndex. fold (tracer_radius_body numDriverVorts vortices tracers tracerIndex)
                             [0..<nat numDriverVorts])
           [0..<nat numTracers] tracerRadii)"

text \<open>
  For the statements below: the triangular number (the entry number of the pair \<open>a < b\<close> is
  \<open>tri b + a\<close>), an entry of a table read as a triple, and the triple that belongs to the
  vector from point \<open>p\<close> to point \<open>q\<close>.
\<close>

definition tri :: "nat \<Rightarrow> nat" where
  "tri n = n * (n - 1) div 2"

definition entry :: "real list \<Rightarrow> nat \<Rightarrow> real \<times> real \<times> real" where
  "entry rads e = (rads ! (3 * e), rads ! (3 * e + 1), rads ! (3 * e + 2))"

definition pythagorean :: "real \<times> real \<Rightarrow> real \<times> real \<Rightarrow> real \<times> real \<times> real" where
  "pythagorean p q =
     (sqrt ((fst q - fst p)\<^sup>2 + (snd q - snd p)\<^sup>2), fst q - fst p, snd q - snd p)"

subsection \<open>The force evaluator\<close>

definition velocityFunc :: "real \<Rightarrow> real \<Rightarrow> real" where
  "velocityFunc vortex2Intensity radius = vortex2Intensity / (2 * pi * radius)"

text \<open>\<open>const char domains = 8\<close>: the loops run over the domains \<open>0, \<dots>, domains\<close>.\<close>

definition domains :: nat where
  "domains = 8"

text \<open>
  The \<open>switch (domain)\<close> of both evaluators, with the numbering
  \<^verbatim>\<open>1 2 3 / 4 0 5 / 6 7 8\<close> of the source.
\<close>

definition domain_shift :: "Constants \<Rightarrow> nat \<Rightarrow> real \<times> real \<Rightarrow> real \<times> real" where
  "domain_shift K domain r =
     (if domain = 1 then (fst r - DOMAIN_SIZE_X K, snd r + DOMAIN_SIZE_Y K)
      else if domain = 2 then (fst r, snd r + DOMAIN_SIZE_Y K)
      else if domain = 3 then (fst r + DOMAIN_SIZE_X K, snd r + DOMAIN_SIZE_Y K)
      else if domain = 4 then (fst r - DOMAIN_SIZE_X K, snd r)
      else if domain = 5 then (fst r + DOMAIN_SIZE_X K, snd r)
      else if domain = 6 then (fst r - DOMAIN_SIZE_X K, snd r - DOMAIN_SIZE_Y K)
      else if domain = 7 then (fst r, snd r - DOMAIN_SIZE_Y K)
      else if domain = 8 then (fst r + DOMAIN_SIZE_X K, snd r - DOMAIN_SIZE_Y K)
      else r)"

text \<open>
  The body of the loop over the domains in \<open>calculateVel_vortex\<close>, for the source vortex at
  array position \<open>j\<close>; \<open>vel\<close> holds what \<open>xVel\<close> and \<open>yVel\<close> point to. Division is the
  total division of HOL: where the code divides by a zero radius, the model yields \<open>0\<close>.
\<close>

definition vortex_domain_body ::
  "Constants \<Rightarrow> Vortex \<Rightarrow> Vortex list \<Rightarrow> real list \<Rightarrow> nat \<Rightarrow> nat \<Rightarrow> real \<times> real \<Rightarrow> real \<times> real" where
  "vortex_domain_body K vort vortices rads j domain vel =
     (let radiiIndex = calculateVortexRadiiIndex (vIndex vort) (vIndex (vortices ! j));
          xRad = (if vIndex vort < vIndex (vortices ! j)
                  then rads ! nat (radiiIndex + 1) else - (rads ! nat (radiiIndex + 1)));
          yRad = (if vIndex vort < vIndex (vortices ! j)
                  then rads ! nat (radiiIndex + 2) else - (rads ! nat (radiiIndex + 2)));
          shifted = (if domain \<noteq> 0 then domain_shift K domain (xRad, yRad) else (xRad, yRad));
          rad = (if domain \<noteq> 0 then sqrt ((fst shifted)\<^sup>2 + (snd shifted)\<^sup>2)
                 else rads ! nat radiiIndex)
      in if rad > DOMAIN_SIZE_X K then vel
         else let vmag = velocityFunc (intensity (vortices ! j)) rad
              in (fst vel + (snd shifted / rad) * vmag, snd vel + (- fst shifted / rad) * vmag))"

definition calculateVel_vortex ::
  "Constants \<Rightarrow> int \<Rightarrow> real \<times> real \<Rightarrow> Vortex \<Rightarrow> Vortex list \<Rightarrow> real list \<Rightarrow> real \<times> real" where
  "calculateVel_vortex K numDriverVorts vel vort vortices rads =
     fold (\<lambda>j acc. if vIndex vort = int j then acc
                    else fold (vortex_domain_body K vort vortices rads j) [0..<Suc domains] acc)
          [0..<nat numDriverVorts] vel"

definition tracer_domain_body ::
  "Constants \<Rightarrow> int \<Rightarrow> int \<Rightarrow> real list \<Rightarrow> Vortex list \<Rightarrow> nat \<Rightarrow> nat \<Rightarrow> real \<times> real \<Rightarrow> real \<times> real" where
  "tracer_domain_body K numDriverVorts tracerIndex rads vortices vortIndex domain vel =
     (let intRadIndex = calculateTracerRadiiIndex numDriverVorts tracerIndex (int vortIndex);
          xRad = rads ! nat (intRadIndex + 1);
          yRad = rads ! nat (intRadIndex + 2);
          shifted = (if domain \<noteq> 0 then domain_shift K domain (xRad, yRad) else (xRad, yRad));
          rad = (if domain \<noteq> 0 then sqrt ((fst shifted)\<^sup>2 + (snd shifted)\<^sup>2)
                 else rads ! nat intRadIndex)
      in if rad > DOMAIN_SIZE_X K \<or> (TEST_CASE K = 6 \<and> rad < 1 / 10) then vel
         else let vmag = velocityFunc (intensity (vortices ! vortIndex)) rad
              in (fst vel + (snd shifted / rad) * vmag, snd vel + (- fst shifted / rad) * vmag))"

definition calculateVel_tracer ::
  "Constants \<Rightarrow> int \<Rightarrow> real \<times> real \<Rightarrow> int \<Rightarrow> real list \<Rightarrow> Vortex list \<Rightarrow> real \<times> real" where
  "calculateVel_tracer K numDriverVorts vel tracerIndex rads vortices =
     fold (\<lambda>vortIndex.
             fold (tracer_domain_body K numDriverVorts tracerIndex rads vortices vortIndex)
                  [0..<Suc domains])
          [0..<nat numDriverVorts] vel"

text \<open>
  The evaluator in the words of the specification: the nine image offsets, the
  contribution of one image of a source of strength \<open>gamma\<close> whose stored separation is
  \<open>sep = (r, dx, dy)\<close> (\<open>degenerate\<close> switches the additional skip below \<open>0.1\<close> on), and
  the separation a body reads from its table.
\<close>

definition image_offset :: "Constants \<Rightarrow> nat \<Rightarrow> real \<times> real" where
  "image_offset K d =
     ((if d \<in> {1, 4, 6} then - DOMAIN_SIZE_X K else if d \<in> {3, 5, 8} then DOMAIN_SIZE_X K else 0),
      (if d \<in> {1, 2, 3} then DOMAIN_SIZE_Y K else if d \<in> {6, 7, 8} then - DOMAIN_SIZE_Y K else 0))"

definition image_contribution ::
  "Constants \<Rightarrow> bool \<Rightarrow> real \<times> real \<times> real \<Rightarrow> real \<Rightarrow> nat \<Rightarrow> real \<times> real" where
  "image_contribution K degenerate sep gamma d =
     (let dx = fst (snd sep) + fst (image_offset K d);
          dy = snd (snd sep) + snd (image_offset K d);
          r = (if d = 0 then fst sep else sqrt (dx\<^sup>2 + dy\<^sup>2))
      in if r > DOMAIN_SIZE_X K \<or> (degenerate \<and> r < 1 / 10) then (0, 0)
         else ((dy / r) * (gamma / (2 * pi * r)), (- dx / r) * (gamma / (2 * pi * r))))"

definition vortex_separation :: "Vortex \<Rightarrow> Vortex \<Rightarrow> real list \<Rightarrow> real \<times> real \<times> real" where
  "vortex_separation vort src rads =
     (let k = calculateVortexRadiiIndex (vIndex vort) (vIndex src)
      in if vIndex vort < vIndex src
         then (rads ! nat k, rads ! nat (k + 1), rads ! nat (k + 2))
         else (rads ! nat k, - (rads ! nat (k + 1)), - (rads ! nat (k + 2))))"

definition tracer_separation :: "int \<Rightarrow> int \<Rightarrow> nat \<Rightarrow> real list \<Rightarrow> real \<times> real \<times> real" where
  "tracer_separation numDriverVorts tracerIndex vortIndex rads =
     (let k = calculateTracerRadiiIndex numDriverVorts tracerIndex (int vortIndex)
      in (rads ! nat k, rads ! nat (k + 1), rads ! nat (k + 2)))"

subsection \<open>The Runge-Kutta integrator\<close>

text \<open>
  \<open>memcpy (dest, src, n)\<close> for \<open>n\<close> doubles, as a function of the two buffers.
\<close>

definition memcpy :: "real list \<Rightarrow> real list \<Rightarrow> nat \<Rightarrow> real list" where
  "memcpy dest src n = take n src @ drop n dest"

text \<open>
  The memory \<open>stepForward_RK4\<close> works on: the four arrays it is passed and the three
  buffers it allocates. The tasks of the thread pool get pointers into these arrays; here
  they transform the whole state, one task after the other, in the order in which they are
  submitted.
\<close>

record RKState =
  rk_vortices :: "Vortex list"
  rk_vortRadii :: "real list"
  rk_tracerRadii :: "real list"
  rk_tracers :: "Tracer list"
  rk_workingRadii :: "real list"
  rk_intermediateRadii :: "real list"
  rk_intermediateTracerRads :: "real list"

text \<open>
  The \<open>switch (RKStep)\<close> of both tasks stores the velocity in the sample of the step and
  halves the velocity in steps 1 and 2; the other samples are 0. \<open>rk_weighted\<close> is the value
  of \<open>(k1 + k2 * 2 + k3 * 2 + k4) / 6\<close> after the switch and \<open>rk_displacement\<close> the velocity
  after it, for one component \<open>v\<close> of the velocity before it.
\<close>

definition rk_weighted :: "int \<Rightarrow> real \<Rightarrow> real" where
  "rk_weighted RKStep v =
     (let k1 = (if RKStep = 1 then v else 0);
          k2 = (if RKStep = 2 then v else 0);
          k3 = (if RKStep = 3 then v else 0);
          k4 = (if RKStep = 4 then v else 0)
      in (k1 + k2 * 2 + k3 * 2 + k4) / 6)"

definition rk_displacement :: "int \<Rightarrow> real \<Rightarrow> real" where
  "rk_displacement RKStep v = (if RKStep = 1 \<or> RKStep = 2 then v / 2 else v)"

text \<open>
  \<open>stepForwardTracerRK4\<close>. The task gets pointers to its piece of the tracer array and of
  the two tracer tables: \<open>tracerBase\<close> is the array position of the first tracer of the
  piece and \<open>radBase\<close> the offset of the piece in the tables.
\<close>

definition tracer_displace_body ::
  "int \<Rightarrow> real \<Rightarrow> int \<Rightarrow> real list \<Rightarrow> int \<Rightarrow> real \<Rightarrow> real \<Rightarrow> nat \<Rightarrow> real list \<Rightarrow> real list" where
  "tracer_displace_body numDriverVorts timestep radBase tracerRadii offsetTracerIndex xVel yVel
       vortexIndex rads =
     (let radIndex = radBase + calculateTracerRadiiIndex numDriverVorts offsetTracerIndex (int vortexIndex);
          r1 = rads[nat (radIndex + 1) := tracerRadii ! nat (radIndex + 1) - xVel * timestep];
          r2 = r1[nat (radIndex + 2) := tracerRadii ! nat (radIndex + 2) - yVel * timestep]
      in r2[nat radIndex := sqrt ((r2 ! nat (radIndex + 1))\<^sup>2 + (r2 ! nat (radIndex + 2))\<^sup>2)])"

definition tracer_task_body ::
  "Constants \<Rightarrow> int \<Rightarrow> real \<Rightarrow> int \<Rightarrow> nat \<Rightarrow> int \<Rightarrow> nat \<Rightarrow> RKState \<Rightarrow> RKState" where
  "tracer_task_body K numDriverVorts timestep RKStep tracerBase radBase tracerIndex s =
     (let tracer = rk_tracers s ! (tracerBase + tracerIndex);
          offsetTracerIndex = tIndex tracer - tIndex (rk_tracers s ! tracerBase);
          vel = calculateVel_tracer K numDriverVorts (0, 0) offsetTracerIndex
                  (drop (nat radBase) (rk_intermediateTracerRads s)) (rk_vortices s);
          xVel = rk_displacement RKStep (fst vel);
          yVel = rk_displacement RKStep (snd vel);
          rads = fold (tracer_displace_body numDriverVorts timestep radBase (rk_tracerRadii s)
                         offsetTracerIndex xVel yVel)
                      [0..<nat numDriverVorts] (rk_intermediateTracerRads s)
      in s\<lparr>rk_intermediateTracerRads := rads,
            rk_tracers := (rk_tracers s)[tracerBase + tracerIndex :=
               tracer\<lparr>velocity := (fst (velocity tracer) + rk_weighted RKStep (fst vel),
                                   snd (velocity tracer) + rk_weighted RKStep (snd vel))\<rparr>]\<rparr>)"

definition stepForwardTracerRK4 ::
  "Constants \<Rightarrow> int \<Rightarrow> real \<Rightarrow> int \<Rightarrow> nat \<Rightarrow> int \<Rightarrow> int \<Rightarrow> RKState \<Rightarrow> RKState" where
  "stepForwardTracerRK4 K numDriverVorts timestep RKStep tracerBase numTracers radBase s =
     fold (tracer_task_body K numDriverVorts timestep RKStep tracerBase radBase)
          [0..<nat numTracers] s"

text \<open>
  \<open>stepForwardVortexRK4\<close>. The compare-and-swap loops on \<open>workingRadii\<close> are atomic
  read-modify-write operations; the body below is their effect when no other task
  interferes. The y component is displaced by \<open>xVel * timestep\<close>, as in the source. The
  optional recording of intermediate positions (\<open>SAVE_RK_STEPS\<close>) writes to a cache of its
  own and is left out.
\<close>

definition vortex_displace_body ::
  "real \<Rightarrow> Vortex list \<Rightarrow> nat \<Rightarrow> real \<Rightarrow> real \<Rightarrow> nat \<Rightarrow> real list \<Rightarrow> real list" where
  "vortex_displace_body timestep vorts originVortIndex xVel yVel j rads =
     (if originVortIndex = j then rads
      else let vort = vorts ! originVortIndex;
               radiiIndex = calculateVortexRadiiIndex (vIndex vort) (vIndex (vorts ! j));
               addVals = (vIndex vort > vIndex (vorts ! j));
               r1 = rads[nat (radiiIndex + 1) :=
                      (if addVals then rads ! nat (radiiIndex + 1) + xVel * timestep
                       else rads ! nat (radiiIndex + 1) - xVel * timestep)];
               r2 = r1[nat (radiiIndex + 2) :=
                      (if addVals then r1 ! nat (radiiIndex + 2) + xVel * timestep
                       else r1 ! nat (radiiIndex + 2) - xVel * timestep)]
           in r2[nat radiiIndex :=
                   sqrt ((r2 ! nat (radiiIndex + 1))\<^sup>2 + (r2 ! nat (radiiIndex + 2))\<^sup>2)])"

definition vortex_tracer_body ::
  "int \<Rightarrow> real \<Rightarrow> nat \<Rightarrow> real \<Rightarrow> real \<Rightarrow> nat \<Rightarrow> real list \<Rightarrow> real list" where
  "vortex_tracer_body numDriverVorts timestep originVortIndex xVel yVel tracerI rads =
     (let index = calculateTracerRadiiIndex numDriverVorts (int tracerI) (int originVortIndex);
          r1 = rads[nat (index + 1) := rads ! nat (index + 1) + xVel * timestep];
          r2 = r1[nat (index + 2) := r1 ! nat (index + 2) + yVel * timestep]
      in r2[nat index := sqrt ((r2 ! nat (index + 1))\<^sup>2 + (r2 ! nat (index + 2))\<^sup>2)])"

definition stepForwardVortexRK4 ::
  "Constants \<Rightarrow> int \<Rightarrow> real \<Rightarrow> int \<Rightarrow> int \<Rightarrow> nat \<Rightarrow> RKState \<Rightarrow> RKState" where
  "stepForwardVortexRK4 K numDriverVorts timestep RKStep numTracers originVortIndex s =
     (let vort = rk_vortices s ! originVortIndex;
          vel = calculateVel_vortex K numDriverVorts (0, 0) vort (rk_vortices s) (rk_intermediateRadii s);
          xVel = rk_displacement RKStep (fst vel);
          yVel = rk_displacement RKStep (snd vel);
          working = fold (vortex_displace_body timestep (rk_vortices s) originVortIndex xVel yVel)
                         [0..<nat numDriverVorts] (rk_workingRadii s);
          rads = fold (vortex_tracer_body numDriverVorts timestep originVortIndex xVel yVel)
                      [0..<nat numTracers] (rk_intermediateTracerRads s)
      in s\<lparr>rk_workingRadii := working,
            rk_intermediateTracerRads := rads,
            rk_vortices := (rk_vortices s)[originVortIndex :=
               vort\<lparr>velocity := (fst (velocity vort) + rk_weighted RKStep (fst vel),
                                 snd (velocity vort) + rk_weighted RKStep (snd vel))\<rparr>]\<rparr>)"

text \<open>
  One pass of the loop over \<open>RKStep\<close> in \<open>stepForward_RK4\<close>: the tracer tasks (one per
  thread, or a single call if there is at most one thread), the vortex tasks, and the two
  copies.
\<close>

definition tracer_thread_body ::
  "Constants \<Rightarrow> int \<Rightarrow> real \<Rightarrow> int \<Rightarrow> nat \<Rightarrow> RKState \<Rightarrow> RKState" where
  "tracer_thread_body K numDriverVorts timestep RKStep thread s =
     (let tracersPerThread = NUM_TRACERS K sdiv THREADCOUNT K;
          tracerBase = nat (int thread * tracersPerThread);
          radPieceStartIndex =
            calculateTracerRadiiIndex numDriverVorts (tIndex (rk_tracers s ! tracerBase)) 0;
          numTracers = (if int thread = THREADCOUNT K - 1
                        then tracersPerThread + NUM_TRACERS K smod THREADCOUNT K
                        else tracersPerThread)
      in stepForwardTracerRK4 K numDriverVorts timestep RKStep tracerBase numTracers
           radPieceStartIndex s)"

definition rk_stage :: "Constants \<Rightarrow> int \<Rightarrow> real \<Rightarrow> int \<Rightarrow> RKState \<Rightarrow> RKState" where
  "rk_stage K numDriverVorts timestep RKStep s =
     (let vortRadLen = (numDriverVorts * numDriverVorts - numDriverVorts) sdiv 2;
          s1 = (if THREADCOUNT K > 1
                then fold (tracer_thread_body K numDriverVorts timestep RKStep)
                       [0..<nat (THREADCOUNT K)] s
                else stepForwardTracerRK4 K numDriverVorts timestep RKStep 0
                       (NUM_TRACERS K sdiv THREADCOUNT K) 0 s);
          s2 = fold (stepForwardVortexRK4 K numDriverVorts timestep RKStep (NUM_TRACERS K))
                 [0..<nat numDriverVorts] s1;
          s3 = s2\<lparr>rk_intermediateRadii :=
                   memcpy (rk_intermediateRadii s2) (rk_workingRadii s2) (nat (3 * vortRadLen))\<rparr>
      in s3\<lparr>rk_workingRadii := memcpy (rk_workingRadii s3) (rk_vortRadii s3) (nat (3 * vortRadLen))\<rparr>)"

text \<open>
  \<open>stepForward_RK4\<close>: allocation and zeroing, the four stages, and the commit.
\<close>

definition zero_velocity :: "'a Body_scheme \<Rightarrow> 'a Body_scheme" where
  "zero_velocity b = b\<lparr>velocity := (0, 0)\<rparr>"

definition advance :: "real \<Rightarrow> 'a Body_scheme \<Rightarrow> 'a Body_scheme" where
  "advance timestep b =
     b\<lparr>position := (fst (position b) + fst (velocity b) * timestep,
                    snd (position b) + snd (velocity b) * timestep)\<rparr>"

definition rk_init ::
  "int \<Rightarrow> Vortex list \<Rightarrow> real list \<Rightarrow> real list \<Rightarrow> Tracer list \<Rightarrow> int \<Rightarrow> RKState" where
  "rk_init numDriverVorts vorts vortRads tracerRads trs numTracers =
     (let vortRadLen = (numDriverVorts * numDriverVorts - numDriverVorts) sdiv 2;
          tracerRadLen = numDriverVorts * numTracers
      in \<lparr>rk_vortices = update_each (nat numDriverVorts) zero_velocity vorts,
          rk_vortRadii = vortRads,
          rk_tracerRadii = tracerRads,
          rk_tracers = update_each (nat numTracers) zero_velocity trs,
          rk_workingRadii = take (nat (3 * vortRadLen)) vortRads,
          rk_intermediateRadii = take (nat (3 * vortRadLen)) vortRads,
          rk_intermediateTracerRads = take (nat (3 * tracerRadLen)) tracerRads\<rparr>)"

definition rk_commit :: "int \<Rightarrow> real \<Rightarrow> int \<Rightarrow> RKState \<Rightarrow> RKState" where
  "rk_commit numDriverVorts timestep numTracers s =
     s\<lparr>rk_vortices := update_each (nat numDriverVorts) (advance timestep) (rk_vortices s),
       rk_tracers := update_each (nat numTracers) (advance timestep) (rk_tracers s),
       rk_tracerRadii := memcpy (rk_tracerRadii s) (rk_intermediateTracerRads s)
                        (nat (3 * (numDriverVorts * numTracers)))\<rparr>"

definition stepForward_RK4 ::
  "Constants \<Rightarrow> int \<Rightarrow> real \<Rightarrow> Vortex list \<Rightarrow> real list \<Rightarrow> real list \<Rightarrow> Tracer list \<Rightarrow> int
     \<Rightarrow> RKState" where
  "stepForward_RK4 K numDriverVorts timestep vorts vortRads tracerRads trs numTracers =
     rk_commit numDriverVorts timestep numTracers
       (fold (rk_stage K numDriverVorts timestep) [1, 2, 3, 4]
          (rk_init numDriverVorts vorts vortRads tracerRads trs numTracers))"

subsection \<open>Deleting a vortex\<close>

text \<open>
  \<open>memmove\<close> inside one array: \<open>n\<close> elements from position \<open>src\<close> are copied to position
  \<open>dest\<close>; the source is read before anything is written.
\<close>

definition memmove :: "'a list \<Rightarrow> nat \<Rightarrow> nat \<Rightarrow> nat \<Rightarrow> 'a list" where
  "memmove xs dest src n = take dest xs @ take n (drop src xs) @ drop (dest + n) xs"

text \<open>
  The body of the first loop of \<open>deleteVortex\<close>. The \<open>if\<close> of the source has no braces: it
  guards the assignment to \<open>destPtr\<close> only.
\<close>

definition delete_row_body :: "int \<Rightarrow> int \<Rightarrow> nat \<Rightarrow> real list \<Rightarrow> real list" where
  "delete_row_body numDriverVorts deletionIndex rowIndex vortexRads =
     (let destPtr = calculateVortexRadiiIndex 0 (int rowIndex);
          sourcePtr = calculateVortexRadiiIndex 0 (int rowIndex + 1);
          r1 = memmove vortexRads (nat destPtr) (nat sourcePtr) (nat (deletionIndex * 3));
          destPtr' = (if int rowIndex = numDriverVorts - 2
                      then calculateVortexRadiiIndex deletionIndex (int rowIndex) else destPtr);
          sourcePtr' = calculateVortexRadiiIndex (deletionIndex + 1) (int rowIndex + 1)
      in memmove r1 (nat destPtr') (nat sourcePtr') (nat ((int rowIndex - deletionIndex) * 3)))"

text \<open>The body of the loop over the tracers; the source is \<open>&tracerRads[tRadDelIndex+1]\<close>.\<close>

definition delete_tracer_body :: "int \<Rightarrow> int \<Rightarrow> nat \<Rightarrow> real list \<Rightarrow> real list" where
  "delete_tracer_body numDriverVorts deletionIndex tracerI tracerRads =
     (let tRadDelIndex = calculateTracerRadiiIndex numDriverVorts (int tracerI) deletionIndex
      in memmove tracerRads (nat tRadDelIndex) (nat (tRadDelIndex + 1))
           (nat ((numDriverVorts - deletionIndex) * 3)))"

definition decrement_vIndex :: "Vortex \<Rightarrow> Vortex" where
  "decrement_vIndex v = v\<lparr>vIndex := vIndex v - 1\<rparr>"

text \<open>
  \<open>deleteVortex\<close> returns the new value of the global \<open>numDriverVorts\<close> and the three arrays.
\<close>

definition deleteVortex ::
  "Constants \<Rightarrow> int \<Rightarrow> Vortex \<Rightarrow> real list \<Rightarrow> Vortex list \<Rightarrow> real list
     \<Rightarrow> int \<times> real list \<times> Vortex list \<times> real list" where
  "deleteVortex K numDriverVorts vort vortexRads vorts tracerRads =
     (let deletionIndex = vIndex vort;
          vortexRads' = fold (delete_row_body numDriverVorts deletionIndex)
                          [nat deletionIndex..<nat (numDriverVorts - 1)] vortexRads;
          tracerRads' = fold (delete_tracer_body numDriverVorts deletionIndex)
                          [0..<nat (NUM_TRACERS K)] tracerRads;
          vorts1 = memmove vorts (nat deletionIndex) (nat (deletionIndex + 1))
                     (nat (numDriverVorts - deletionIndex - 1));
          numDriverVorts' = numDriverVorts - 1;
          vorts' = fold (\<lambda>i vs. vs[i := decrement_vIndex (vs ! i)])
                     [nat deletionIndex..<nat numDriverVorts'] vorts1
      in (numDriverVorts', vortexRads', vorts', tracerRads'))"

subsection \<open>The vortex population\<close>

text \<open>
  The random number generator (\<open>RNG.h\<close>) is a collaborator: its two functions and its state
  (the global \<open>lastX\<close>, of some type \<open>'g\<close>) are parameters.
\<close>

record 'g RNG =
  generateUniformRandInRange :: "real \<Rightarrow> real \<Rightarrow> 'g \<Rightarrow> real \<times> 'g"
  generateNormalRand :: "real \<Rightarrow> 'g \<Rightarrow> real \<times> 'g"

text \<open>
  The global variables \<open>numDriverVorts\<close>, \<open>nextVortID\<close>, \<open>currentTimestep\<close> and the state of
  the generator, and the arrays of \<open>main\<close> with the number of vortices allocated. A pointer
  to a vortex is its position in \<open>w_vorts\<close>.
\<close>

record 'g World =
  w_numDriverVorts :: int
  w_nextVortID :: int
  w_currentTimestep :: int
  w_lastX :: 'g
  w_vorts :: "Vortex list"
  w_vortexRadii :: "real list"
  w_tracerRads :: "real list"
  w_tracers :: "Tracer list"
  w_vortsAllocated :: int

text \<open>
  \<open>realloc\<close> may fail, and the cells it adds hold arbitrary values: both are parameters.
\<close>

record Allocator =
  realloc_fails :: bool
  junk_vortex :: Vortex
  junk_double :: real

datatype error = Exit int

text \<open>
  \<open>randomizeVortex\<close>. The \<open>do \<dots> while\<close> loop draws until the absolute value of the intensity
  is not below \<open>minIntensity\<close>; it need not return.
\<close>

definition minIntensity :: real where
  "minIntensity = 1 / 1000"

partial_function (option) resample_intensity ::
  "(real \<Rightarrow> 'g \<Rightarrow> real \<times> 'g) \<Rightarrow> real \<Rightarrow> 'g \<Rightarrow> (real \<times> 'g) option" where
  "resample_intensity normal sigma g =
     (case normal sigma g of (x, g') \<Rightarrow>
        if \<bar>x\<bar> < minIntensity then resample_intensity normal sigma g' else Some (x, g'))"

definition randomizeVortex :: "Constants \<Rightarrow> 'g RNG \<Rightarrow> nat \<Rightarrow> 'g World \<Rightarrow> 'g World option" where
  "randomizeVortex K R vort w =
     (case generateUniformRandInRange R 0 (DOMAIN_SIZE_X K) (w_lastX w) of (x, g1) \<Rightarrow>
      case generateUniformRandInRange R 0 (DOMAIN_SIZE_Y K) g1 of (y, g2) \<Rightarrow>
      case generateNormalRand R (VORTEX_INTENSITY_SIGMA K) g2 of (first, g3) \<Rightarrow>
      case resample_intensity (generateNormalRand R) (VORTEX_INTENSITY_SIGMA K) g3 of
        None \<Rightarrow> None
      | Some (gamma, g4) \<Rightarrow>
          Some (w\<lparr>w_nextVortID := w_nextVortID w + 1,
                  w_lastX := g4,
                  w_vorts := (w_vorts w)[vort := (w_vorts w ! vort)
                     \<lparr>position := (x, y), velocity := (0, 0), vID := w_nextVortID w,
                      intensity := gamma, initStep := w_currentTimestep w\<rparr>]\<rparr>))"

text \<open>
  \<open>mergeIntensities\<close>; the conversion of a double to \<open>char\<close> cuts off the fractional part.
\<close>

definition mergeIntensities :: "real \<Rightarrow> real \<Rightarrow> real" where
  "mergeIntensities int1 int2 =
     (let sign1 = of_int (trunc (int1 / \<bar>int1\<bar>));
          sign2 = of_int (trunc (int2 / \<bar>int2\<bar>));
          newInt = sqrt \<bar>sign1 * int1\<^sup>2 + sign2 * int2\<^sup>2\<bar>
      in if int1 + int2 > 0 then newInt else - newInt)"

text \<open>\<open>spawnVortex\<close> and the loop \<open>while (spawnsLeft--)\<close> of \<open>spawnVorts\<close>.\<close>

definition spawnVortex :: "Constants \<Rightarrow> 'g RNG \<Rightarrow> 'g World \<Rightarrow> 'g World option" where
  "spawnVortex K R w =
     (let spawnIndex = w_numDriverVorts w;
          w1 = w\<lparr>w_numDriverVorts := w_numDriverVorts w + 1,
                 w_vorts := (w_vorts w)[nat spawnIndex :=
                    (w_vorts w ! nat spawnIndex)\<lparr>vIndex := spawnIndex\<rparr>]\<rparr>
      in randomizeVortex K R (nat spawnIndex) w1)"

partial_function (option) spawn_loop ::
  "Constants \<Rightarrow> 'g RNG \<Rightarrow> int \<Rightarrow> 'g World \<Rightarrow> 'g World option" where
  "spawn_loop K R spawnsLeft w =
     (if spawnsLeft \<noteq> 0
      then (case spawnVortex K R w of None \<Rightarrow> None
            | Some w' \<Rightarrow> spawn_loop K R (spawnsLeft - 1) w')
      else Some w)"

text \<open>
  \<open>spawnVorts\<close>. The result is \<open>None\<close> if the function does not return, \<open>Some (Inl (Exit 1))\<close>
  if it ends the program, and \<open>Some (Inr w)\<close> if it returns with the memory \<open>w\<close>.
\<close>

definition realloc :: "'a list \<Rightarrow> int \<Rightarrow> 'a \<Rightarrow> 'a list" where
  "realloc xs n junk = take (nat n) xs @ replicate (nat n - length xs) junk"

definition spawnVorts ::
  "Constants \<Rightarrow> 'g RNG \<Rightarrow> Allocator \<Rightarrow> int \<Rightarrow> 'g World \<Rightarrow> (error + 'g World) option" where
  "spawnVorts K R A numVortsToSpawn w =
     (let spawnsLeft = numVortsToSpawn
      in if w_numDriverVorts w + spawnsLeft \<ge> w_vortsAllocated w
         then (let vortsAllocated = trunc (real_of_int (w_numDriverVorts w + spawnsLeft) * (3 / 2));
                   newVortRadiiLen = (vortsAllocated * (vortsAllocated - 1)) sdiv 2;
                   newTracerRadiiLen = vortsAllocated * NUM_TRACERS K
               in if realloc_fails A then Some (Inl (Exit 1))
                  else map_option Inr
                    (spawn_loop K R spawnsLeft
                       (w\<lparr>w_vortsAllocated := vortsAllocated,
                          w_vorts := realloc (w_vorts w) vortsAllocated (junk_vortex A),
                          w_vortexRadii := realloc (w_vortexRadii w) (newVortRadiiLen * 3) (junk_double A),
                          w_tracerRads := realloc (w_tracerRads w) (newTracerRadiiLen * 3) (junk_double A)\<rparr>)))
         else map_option Inr (spawn_loop K R spawnsLeft w))"

text \<open>
  \<open>mergeVorts\<close>. Its state is the memory, \<open>spawnsLeft\<close> and the counter behind the pointer
  \<open>totalMerges\<close> (\<open>None\<close> for a null pointer). \<open>merge_pair\<close> is the body of the \<open>if\<close> that finds
  a pair below the merge radius, \<open>merge_row\<close> the inner loop (left by \<open>break\<close> after a
  merge), \<open>merge_rows\<close> the outer loop and \<open>merge_sweeps\<close> the \<open>do \<dots> while\<close> loop.
\<close>

type_synonym 'g merge_state = "'g World \<times> int \<times> int option"

definition merge_pair ::
  "Constants \<Rightarrow> 'g RNG \<Rightarrow> nat \<Rightarrow> nat \<Rightarrow> 'g merge_state \<Rightarrow> 'g merge_state option" where
  "merge_pair K R vortIndex1 vortIndex2 st =
     (case st of (w, spawnsLeft, totalMerges) \<Rightarrow>
      let vort1 = w_vorts w ! vortIndex1;
          vort2 = w_vorts w ! vortIndex2;
          totalMerges' = map_option (\<lambda>n. n + 1) totalMerges;
          absInt1 = \<bar>intensity vort1\<bar>;
          absInt2 = \<bar>intensity vort2\<bar>;
          newXPos = (fst (position vort1) * absInt1 + fst (position vort2) * absInt2)
                      / (absInt1 + absInt2);
          newYPos = (snd (position vort1) * absInt1 + snd (position vort2) * absInt2)
                      / (absInt1 + absInt2);
          newIntensity = mergeIntensities (intensity vort1) (intensity vort2);
          w1 = w\<lparr>w_vorts := (w_vorts w)[vortIndex1 :=
                   vort1\<lparr>position := (newXPos, newYPos), intensity := newIntensity\<rparr>]\<rparr>;
          r = (if spawnsLeft \<noteq> 0
               then map_option (\<lambda>w'. (w', spawnsLeft - 1)) (randomizeVortex K R vortIndex2 w1)
               else (case deleteVortex K (w_numDriverVorts w1) (w_vorts w1 ! vortIndex2)
                            (w_vortexRadii w1) (w_vorts w1) (w_tracerRads w1) of
                       (n, vortexRads, vorts, tracerRads) \<Rightarrow>
                         Some (w1\<lparr>w_numDriverVorts := n, w_vortexRadii := vortexRads,
                                   w_vorts := vorts, w_tracerRads := tracerRads\<rparr>, spawnsLeft)))
      in case r of None \<Rightarrow> None
         | Some (w2, spawnsLeft') \<Rightarrow>
             (case updateRadii_pythagorean (w_numDriverVorts w2) (w_vortexRadii w2) (w_vorts w2)
                     (w_tracerRads w2) (w_tracers w2) (NUM_TRACERS K) of
                (vortexRads, tracerRads) \<Rightarrow>
                  Some (w2\<lparr>w_vortexRadii := vortexRads, w_tracerRads := tracerRads\<rparr>,
                        spawnsLeft', totalMerges')))"

fun merge_row ::
  "Constants \<Rightarrow> 'g RNG \<Rightarrow> nat \<Rightarrow> nat list \<Rightarrow> 'g merge_state \<Rightarrow> int
     \<Rightarrow> ('g merge_state \<times> int) option" where
  "merge_row K R vortIndex2 [] st merges = Some (st, merges)"
| "merge_row K R vortIndex2 (vortIndex1 # rest) st merges =
     (let radIndex = calculateVortexRadiiIndex (int vortIndex1) (int vortIndex2)
      in if w_vortexRadii (fst st) ! nat radIndex < VORTEX_MERGE_RADIUS K
         then map_option (\<lambda>st'. (st', merges + 1)) (merge_pair K R vortIndex1 vortIndex2 st)
         else merge_row K R vortIndex2 rest st merges)"

partial_function (option) merge_rows ::
  "Constants \<Rightarrow> 'g RNG \<Rightarrow> nat \<Rightarrow> 'g merge_state \<Rightarrow> int \<Rightarrow> ('g merge_state \<times> int) option" where
  "merge_rows K R vortIndex2 st merges =
     (if int vortIndex2 < w_numDriverVorts (fst st)
      then (case merge_row K R vortIndex2 [0..<vortIndex2] st merges of None \<Rightarrow> None
            | Some (st', merges') \<Rightarrow> merge_rows K R (vortIndex2 + 1) st' merges')
      else Some (st, merges))"

partial_function (option) merge_sweeps ::
  "Constants \<Rightarrow> 'g RNG \<Rightarrow> 'g merge_state \<Rightarrow> 'g merge_state option" where
  "merge_sweeps K R st =
     (case merge_rows K R 1 st 0 of None \<Rightarrow> None
      | Some (st', merges) \<Rightarrow> if merges > 0 then merge_sweeps K R st' else Some st')"

definition mergeVorts ::
  "Constants \<Rightarrow> 'g RNG \<Rightarrow> int \<Rightarrow> int option \<Rightarrow> 'g World \<Rightarrow> 'g merge_state option" where
  "mergeVorts K R spawnsLeft totalMerges w = merge_sweeps K R (w, spawnsLeft, totalMerges)"

text \<open>
  A generator is productive for \<open>sigma\<close> if from every state some draw of the normal
  distribution is not below \<open>minIntensity\<close> in absolute value.
\<close>

definition productive :: "'g RNG \<Rightarrow> real \<Rightarrow> bool" where
  "productive R sigma \<longleftrightarrow>
     (\<forall>g. \<exists>n. \<not> \<bar>fst (generateNormalRand R sigma
                 (((\<lambda>g. snd (generateNormalRand R sigma g)) ^^ n) g))\<bar> < minIntensity)"

subsection \<open>Reading one Runge-Kutta step\<close>

text \<open>
  For the statements about \<open>stepForward_RK4\<close>: the state after the first \<open>n\<close> stages; the
  velocity sample of a stage, which is the value of the force evaluator on the intermediate
  table for vortex number \<open>i\<close> and for tracer number \<open>t\<close> in the state the stage starts from
  (\<open>calculateVel_vortex\<close>, line 398, and \<open>calculateVel_tracer\<close>, lines 293 to 298, are
  called on a zeroed pair); and the accumulation of a sample into the velocity of a body
  (lines 370 to 371 and 537 to 538).
\<close>

definition rk_stages :: "Constants \<Rightarrow> int \<Rightarrow> real \<Rightarrow> nat \<Rightarrow> RKState \<Rightarrow> RKState" where
  "rk_stages K numDriverVorts timestep n s =
     fold (rk_stage K numDriverVorts timestep) (map int [1..<Suc n]) s"

definition vortex_sample :: "Constants \<Rightarrow> int \<Rightarrow> RKState \<Rightarrow> nat \<Rightarrow> real \<times> real" where
  "vortex_sample K numDriverVorts s i =
     calculateVel_vortex K numDriverVorts (0, 0) (rk_vortices s ! i) (rk_vortices s)
       (rk_intermediateRadii s)"

definition tracer_sample :: "Constants \<Rightarrow> int \<Rightarrow> RKState \<Rightarrow> nat \<Rightarrow> real \<times> real" where
  "tracer_sample K numDriverVorts s t =
     calculateVel_tracer K numDriverVorts (0, 0) (int t) (rk_intermediateTracerRads s)
       (rk_vortices s)"

definition accumulate :: "int \<Rightarrow> real \<times> real \<Rightarrow> 'a Body_scheme \<Rightarrow> 'a Body_scheme" where
  "accumulate RKStep k b =
     b\<lparr>velocity := (fst (velocity b) + rk_weighted RKStep (fst k),
                      snd (velocity b) + rk_weighted RKStep (snd k))\<rparr>"

text \<open>
  One tracer task with the bases of the first thread (\<open>tracerBase = 0\<close>, \<open>radBase = 0\<close>), and
  the invariant the tracer pass relies on: tracer number \<open>t\<close> carries \<open>tIndex = t\<close>, and the
  intermediate tracer table has room for the entries of the first \<open>m\<close> tracers.
\<close>

definition tracer_step :: "Constants \<Rightarrow> nat \<Rightarrow> real \<Rightarrow> int \<Rightarrow> nat \<Rightarrow> RKState \<Rightarrow> RKState" where
  "tracer_step K n dt step = tracer_task_body K (int n) dt step 0 0"

definition tracers_indexed :: "nat \<Rightarrow> nat \<Rightarrow> RKState \<Rightarrow> bool" where
  "tracers_indexed m len s \<longleftrightarrow>
     m \<le> length (rk_tracers s) \<and> (\<forall>t < m. tIndex (rk_tracers s ! t) = int t)
     \<and> len \<le> length (rk_intermediateTracerRads s)"

text \<open>
  Two bodies that differ in position and velocity at most, and two states that differ in the
  tracers and the intermediate tracer table at most (the tracer pass), or in the vortices,
  the working table and the intermediate tracer table at most (the vortex pass).
\<close>

definition body_frame :: "'a Body_scheme \<Rightarrow> 'a Body_scheme \<Rightarrow> bool" where
  "body_frame b b' \<longleftrightarrow> b' = b\<lparr>position := position b', velocity := velocity b'\<rparr>"

definition rk_fixed :: "RKState \<Rightarrow> RKState \<Rightarrow> bool" where
  "rk_fixed s t \<longleftrightarrow> rk_vortices t = rk_vortices s \<and> rk_vortRadii t = rk_vortRadii s
     \<and> rk_tracerRadii t = rk_tracerRadii s \<and> rk_workingRadii t = rk_workingRadii s
     \<and> rk_intermediateRadii t = rk_intermediateRadii s"

definition rk_fixed' :: "RKState \<Rightarrow> RKState \<Rightarrow> bool" where
  "rk_fixed' s t \<longleftrightarrow> rk_tracers t = rk_tracers s \<and> rk_vortRadii t = rk_vortRadii s
     \<and> rk_tracerRadii t = rk_tracerRadii s \<and> rk_intermediateRadii t = rk_intermediateRadii s"

subsection \<open>Concrete inputs\<close>

definition example_constants :: Constants where
  "example_constants =
     \<lparr>DOMAIN_SIZE_X = 10, DOMAIN_SIZE_Y = 10, TEST_CASE = 0, NUM_TRACERS = 1, THREADCOUNT = 1,
      VORTEX_MERGE_RADIUS = 1, VORTEX_INTENSITY_SIGMA = 1\<rparr>"

definition vortex_at :: "int \<Rightarrow> real \<times> real \<Rightarrow> real \<Rightarrow> Vortex" where
  "vortex_at i p g =
     \<lparr>position = p, velocity = (0, 0), vID = i, vIndex = i, intensity = g, initStep = 0\<rparr>"

definition tracer_at :: "int \<Rightarrow> real \<times> real \<Rightarrow> Tracer" where
  "tracer_at i p = \<lparr>position = p, velocity = (0, 0), tIndex = i\<rparr>"

definition example_vortices :: "Vortex list" where
  "example_vortices = [vortex_at 0 (1, 1) 1, vortex_at 1 (4, 5) (- 1)]"

definition example_tracers :: "Tracer list" where
  "example_tracers = [tracer_at 0 (2, 2)]"

definition degenerate_constants :: Constants where
  "degenerate_constants =
     \<lparr>DOMAIN_SIZE_X = 1, DOMAIN_SIZE_Y = 100, TEST_CASE = 6, NUM_TRACERS = 1, THREADCOUNT = 1,
      VORTEX_MERGE_RADIUS = 0, VORTEX_INTENSITY_SIGMA = 1\<rparr>"

definition close_vortices :: "Vortex list" where
  "close_vortices = [vortex_at 0 (0, 0) 1, vortex_at 1 (0, 1 / 20) 1]"

definition close_state :: RKState where
  "close_state =
     \<lparr>rk_vortices = close_vortices, rk_vortRadii = [1 / 20, 0, 1 / 20],
      rk_tracerRadii = [1, 1, 0, 1, 1, 0], rk_tracers = [tracer_at 0 (- 1, 0)],
      rk_workingRadii = [1 / 20, 0, 1 / 20], rk_intermediateRadii = [1 / 20, 0, 1 / 20],
      rk_intermediateTracerRads = [1, 1, 0, 1, 1, 0]\<rparr>"

definition line_vortices :: "Vortex list" where
  "line_vortices = [vortex_at 0 (0, 0) 1, vortex_at 1 (1, 0) 1, vortex_at 2 (3, 0) 1,
                    vortex_at 3 (7, 0) 1, vortex_at 4 (15, 0) 1, vortex_at 0 (0, 0) 1]"

definition line_vortexRadii :: "real list" where
  "line_vortexRadii = [1, 1, 0,  3, 3, 0,  2, 2, 0,  7, 7, 0,  6, 6, 0,  4, 4, 0,
                       15, 15, 0,  14, 14, 0,  12, 12, 0,  8, 8, 0,  0, 0, 0,  0, 0, 0,  0, 0, 0,
                       0, 0, 0,  0, 0, 0]"

definition line_tracerRadii :: "real list" where
  "line_tracerRadii = [1, 1, 0,  2, 2, 0,  4, 4, 0,  8, 8, 0,  16, 16, 0,  0, 0, 0]"

definition constant_rng :: "nat RNG" where
  "constant_rng =
     \<lparr>generateUniformRandInRange = (\<lambda>lo hi g. ((lo + hi) / 2, Suc g)),
      generateNormalRand = (\<lambda>sigma g. (sigma, Suc g))\<rparr>"

definition example_world :: "nat World" where
  "example_world =
     \<lparr>w_numDriverVorts = 2, w_nextVortID = 2, w_currentTimestep = 7, w_lastX = 0,
      w_vorts = example_vortices @ [vortex_at 0 (0, 0) 0, vortex_at 0 (0, 0) 0, vortex_at 0 (0, 0) 0],
      w_vortexRadii = replicate 30 0, w_tracerRads = replicate 15 0,
      w_tracers = example_tracers, w_vortsAllocated = 5\<rparr>"

definition example_allocator :: Allocator where
  "example_allocator = \<lparr>realloc_fails = False, junk_vortex = vortex_at 0 (0, 0) 0, junk_double = 0\<rparr>"

definition merge_world :: "nat World" where
  "merge_world =
     \<lparr>w_numDriverVorts = 2, w_nextVortID = 2, w_currentTimestep = 7, w_lastX = 0,
      w_vorts = [vortex_at 0 (1, 1) 3, vortex_at 1 (4, 5) 4, vortex_at 0 (0, 0) 0],
      w_vortexRadii = [5, 3, 4, 0, 0, 0, 0, 0, 0], w_tracerRads = replicate 9 0,
      w_tracers = example_tracers, w_vortsAllocated = 3\<rparr>"

text \<open>
  One Runge-Kutta step of \<open>example_vortices\<close> and \<open>example_tracers\<close> with their distance tables:
  the state after \<open>n\<close> stages, the state returned, and the stage samples of vortex 1 and of
  tracer 0.
\<close>

definition example_vortexRadii :: "real list" where
  "example_vortexRadii = [5, 3, 4]"

definition example_tracerRadii :: "real list" where
  "example_tracerRadii = [sqrt 2, - 1, - 1, sqrt 13, 2, 3]"

definition rk_example_after :: "nat \<Rightarrow> RKState" where
  "rk_example_after n =
     rk_stages example_constants 2 (1 / 10) n
       (rk_init 2 example_vortices example_vortexRadii example_tracerRadii example_tracers 1)"

definition rk_example_final :: RKState where
  "rk_example_final =
     stepForward_RK4 example_constants 2 (1 / 10) example_vortices example_vortexRadii
       example_tracerRadii example_tracers 1"

definition example_k :: "nat \<Rightarrow> real \<times> real" where
  "example_k j = vortex_sample example_constants 2 (rk_example_after j) 1"

definition example_q :: "nat \<Rightarrow> real \<times> real" where
  "example_q j = tracer_sample example_constants 2 (rk_example_after j) 0"

text \<open>
  The example constants with no tracers.
\<close>

definition tracerless_constants :: Constants where
  "tracerless_constants = example_constants\<lparr>NUM_TRACERS := 0\<rparr>"

section \<open>The triangular index\<close>

lemma sdiv_nonneg_2: "0 \<le> k \<Longrightarrow> k sdiv 2 = k div (2::int)"
  by (simp add: signed_divide_int_def sgn_if)

lemma pred_mult_nonneg: "0 \<le> (b::int) \<Longrightarrow> 0 \<le> (b - 1) * b"
proof -
  assume b: "0 \<le> b"
  show ?thesis
  proof (cases "b = 0")
    case True
    then show ?thesis by simp
  next
    case False
    with b have "0 \<le> b - 1" by simp
    with b show ?thesis by simp
  qed
qed

lemma index_lt:
  "0 \<le> a \<Longrightarrow> a < b \<Longrightarrow> calculateVortexRadiiIndex a b = 3 * ((b - 1) * b div 2 + a)"
  by (simp add: calculateVortexRadiiIndex_def sdiv_nonneg_2 pred_mult_nonneg)

lemma index_gt:
  "0 \<le> b \<Longrightarrow> b < a \<Longrightarrow> calculateVortexRadiiIndex a b = 3 * ((a - 1) * a div 2 + b)"
  by (simp add: calculateVortexRadiiIndex_def sdiv_nonneg_2 pred_mult_nonneg)

lemma tri_step: "(b::int) * (b + 1) div 2 = (b - 1) * b div 2 + b"
proof -
  have "b * (b + 1) = (b - 1) * b + b * 2" by (simp add: algebra_simps)
  then show ?thesis by (metis div_mult_self1 zero_neq_numeral add.commute mult.commute)
qed

lemma tri_mono_step:
  assumes "b < d" and "0 \<le> (b::int)"
  shows "(b - 1) * b div 2 + b \<le> (d - 1) * d div 2"
  using assms
proof (induction d rule: int_gr_induct)
  case base
  show ?case using tri_step [of b] by (simp add: mult.commute)
next
  case (step i)
  have "(i + 1 - 1) * (i + 1) div 2 = (i - 1) * i div 2 + i"
    using tri_step [of i] by simp
  with step show ?case by simp
qed

lemma tri_index_inj:
  assumes "0 \<le> a" "a < b" "0 \<le> c" "c < d"
    and eq: "(b - 1) * b div 2 + a = (d - 1) * d div 2 + (c::int)"
  shows "a = c \<and> b = d"
proof -
  have "\<not> b < d"
    using tri_mono_step [of b d] assms by linarith
  moreover have "\<not> d < b"
    using tri_mono_step [of d b] assms by linarith
  ultimately have "b = d" by simp
  with eq show ?thesis by simp
qed

lemma tri_index_bound:
  assumes "0 \<le> a" "a < b" "b < N"
  shows "(b - 1) * b div 2 + a < (N - 1) * N div (2::int)"
proof -
  have "(b - 1) * b div 2 + a < (b - 1) * b div 2 + b" using assms by simp
  also have "\<dots> \<le> (N - 1) * N div 2" using tri_mono_step [of b N] assms by simp
  finally show ?thesis .
qed

lemma even_pred_mult: "even ((N - 1) * (N::int))"
  by simp

lemma three_tri: "3 * N * (N - 1) div 2 = 3 * ((N - 1) * N div (2::int))"
proof -
  from even_pred_mult [of N] obtain k where k: "(N - 1) * N = 2 * k" by (rule evenE)
  have "3 * N * (N - 1) = 2 * (3 * k)" using k by (simp add: algebra_simps)
  then have "3 * N * (N - 1) div 2 = 3 * k" by simp
  moreover have "(N - 1) * N div 2 = k" using k by simp
  ultimately show ?thesis by simp
qed

text \<open>
  No wrap-around: the arguments come from \<open>int\<close> values (below \<open>2^31\<close>), and then every
  intermediate value of the computation is a non-negative number below \<open>2^63\<close>.
\<close>

lemma index_fits_long:
  assumes "0 \<le> a" "a < b" "b < 2 ^ 31"
  shows "0 \<le> (b - 1) * b \<and> (b - 1) * b < 2 ^ 63
       \<and> (b - 1) * b div 2 + a < 2 ^ 63
       \<and> 0 \<le> calculateVortexRadiiIndex a b \<and> calculateVortexRadiiIndex a b < (2::int) ^ 63"
proof -
  have b0: "0 \<le> b - 1" and b1: "b - 1 < 2 ^ 31" using assms by simp_all
  have nn: "0 \<le> (b - 1) * b" using assms by (simp add: pred_mult_nonneg)
  have "(b - 1) * b \<le> (2 ^ 31) * (2 ^ 31 :: int)"
    using assms b0 b1 by (intro mult_mono) simp_all
  then have ub: "(b - 1) * b \<le> 2 ^ 62" by simp
  have dv: "(b - 1) * b div 2 \<le> 2 ^ 61" using ub by simp
  have "calculateVortexRadiiIndex a b = 3 * ((b - 1) * b div 2 + a)"
    using assms by (simp add: index_lt)
  moreover have "0 \<le> (b - 1) * b div 2" using nn by simp
  ultimately show ?thesis using nn ub dv assms by simp
qed

text \<open>
  Claim C1. For vortex indices \<open>a\<close>, \<open>b\<close> with \<open>0 \<le> a, b < N\<close> and \<open>a \<noteq> b\<close>, the index is
  \<open>3 * (max a b * (max a b - 1) / 2 + min a b)\<close>; it is symmetric, it lies in
  \<open>[0, 3 * N * (N - 1) / 2)\<close>, and two pairs in range have the same index only if they
  are the same unordered pair.
\<close>

theorem vortex_index_bijective:
  assumes "0 \<le> a" "a < N" "0 \<le> b" "b < N" "a \<noteq> b"
    and "0 \<le> c" "c < N" "0 \<le> d" "d < N" "c \<noteq> d"
  shows "calculateVortexRadiiIndex a b = 3 * (max a b * (max a b - 1) div 2 + min a b)
       \<and> calculateVortexRadiiIndex a b = calculateVortexRadiiIndex b a
       \<and> 0 \<le> calculateVortexRadiiIndex a b
       \<and> calculateVortexRadiiIndex a b < 3 * N * (N - 1) div 2
       \<and> (calculateVortexRadiiIndex a b = calculateVortexRadiiIndex c d \<longleftrightarrow> {a, b} = {c, d})"
proof -
  define lo hi where "lo = min a b" and "hi = max a b"
  define lo' hi' where "lo' = min c d" and "hi' = max c d"
  have ord: "0 \<le> lo" "lo < hi" "hi < N" and ord': "0 \<le> lo'" "lo' < hi'" "hi' < N"
    using assms by (auto simp: lo_def hi_def lo'_def hi'_def)
  have form: "calculateVortexRadiiIndex a b = 3 * ((hi - 1) * hi div 2 + lo)"
    using assms index_lt [of a b] index_gt [of b a] by (cases "a < b") (auto simp: lo_def hi_def)
  have form_sym: "calculateVortexRadiiIndex b a = 3 * ((hi - 1) * hi div 2 + lo)"
    using assms index_lt [of b a] index_gt [of a b] by (cases "a < b") (auto simp: lo_def hi_def)
  have form': "calculateVortexRadiiIndex c d = 3 * ((hi' - 1) * hi' div 2 + lo')"
    using assms index_lt [of c d] index_gt [of d c] by (cases "c < d") (auto simp: lo'_def hi'_def)
  have sets: "{a, b} = {lo, hi}" "{c, d} = {lo', hi'}"
    by (auto simp: lo_def hi_def lo'_def hi'_def)
  have c1: "calculateVortexRadiiIndex a b = 3 * (max a b * (max a b - 1) div 2 + min a b)"
    using form by (simp add: lo_def hi_def mult.commute)
  have c2: "calculateVortexRadiiIndex a b = calculateVortexRadiiIndex b a"
    using form form_sym by simp
  have "0 \<le> (hi - 1) * hi div 2" using ord by (simp add: pred_mult_nonneg)
  then have c3: "0 \<le> calculateVortexRadiiIndex a b" using form ord by simp
  have c4: "calculateVortexRadiiIndex a b < 3 * N * (N - 1) div 2"
    using tri_index_bound [OF ord] form by (simp add: three_tri)
  have c5: "calculateVortexRadiiIndex a b = calculateVortexRadiiIndex c d \<longleftrightarrow> {a, b} = {c, d}"
  proof
    assume "calculateVortexRadiiIndex a b = calculateVortexRadiiIndex c d"
    then have "(hi - 1) * hi div 2 + lo = (hi' - 1) * hi' div 2 + lo'"
      using form form' by simp
    then have "lo = lo' \<and> hi = hi'"
      using tri_index_inj [of lo hi lo' hi'] ord ord' by simp
    then show "{a, b} = {c, d}" using sets by simp
  next
    assume "{a, b} = {c, d}"
    then have "{lo, hi} = {lo', hi'}" using sets by simp
    then have "lo = lo' \<and> hi = hi'" using ord ord' by (auto simp: doubleton_eq_iff)
    then show "calculateVortexRadiiIndex a b = calculateVortexRadiiIndex c d"
      using form form' by simp
  qed
  from c1 c2 c3 c4 c5 show ?thesis by blast
qed

theorem vortex_index_bijective_witness:
  "calculateVortexRadiiIndex 3 1 = 3 * (max 3 1 * (max 3 1 - 1) div 2 + min 3 1)
   \<and> calculateVortexRadiiIndex 3 1 = calculateVortexRadiiIndex 1 3
   \<and> 0 \<le> calculateVortexRadiiIndex 3 1
   \<and> calculateVortexRadiiIndex 3 1 < 3 * 4 * (4 - 1) div 2
   \<and> (calculateVortexRadiiIndex 3 1 = calculateVortexRadiiIndex 0 2 \<longleftrightarrow> {3, 1} = {0, 2::int})"
  using vortex_index_bijective [of 3 4 1 0 2]
  by (simp add: calculateVortexRadiiIndex_def signed_divide_int_def doubleton_eq_iff)

section \<open>Loops over an array\<close>

lemma length_update_each [simp]: "length (update_each n f xs) = length xs"
  unfolding update_each_def by (induction n) simp_all

lemma update_each_Suc:
  "update_each (Suc n) f xs = (update_each n f xs)[n := f (update_each n f xs ! n)]"
  by (simp add: update_each_def)

lemma update_each_nth:
  "i < length xs \<Longrightarrow> update_each n f xs ! i = (if i < n then f (xs ! i) else xs ! i)"
proof (induction n)
  case 0
  then show ?case by (simp add: update_each_def)
next
  case (Suc n)
  then show ?case by (auto simp: update_each_Suc nth_list_update less_Suc_eq)
qed

section \<open>Domain wrap\<close>

lemma fmod_pos_range:
  assumes "0 < D" "0 \<le> x"
  shows "0 \<le> fmod x D \<and> fmod x D < D"
proof -
  have q: "0 \<le> x / D" using assms by simp
  have l: "of_int \<lfloor>x / D\<rfloor> \<le> x / D" by simp
  have u: "x / D < of_int \<lfloor>x / D\<rfloor> + 1" by simp
  have "of_int \<lfloor>x / D\<rfloor> * D \<le> x" using l assms by (simp only: pos_le_divide_eq)
  moreover have "x < (of_int \<lfloor>x / D\<rfloor> + 1) * D"
    using u assms by (simp only: pos_divide_less_eq)
  ultimately show ?thesis using q by (simp add: fmod_def trunc_def algebra_simps)
qed

lemma fmod_neg_range:
  assumes "0 < D" "x < 0"
  shows "- D < fmod x D \<and> fmod x D \<le> 0"
proof -
  have q: "\<not> 0 \<le> x / D" using assms by (simp add: divide_less_0_iff not_le)
  have l: "x / D \<le> of_int \<lceil>x / D\<rceil>" by simp
  have u: "of_int \<lceil>x / D\<rceil> - 1 < x / D" by linarith
  have "x \<le> of_int \<lceil>x / D\<rceil> * D" using l assms by (simp only: pos_divide_le_eq)
  moreover have "(of_int \<lceil>x / D\<rceil> - 1) * D < x"
    using u assms by (simp only: pos_less_divide_eq)
  ultimately show ?thesis using q by (simp add: fmod_def trunc_def algebra_simps)
qed

lemma wrap_body_position:
  "position (wrap_body K b) =
     (wrap1 (DOMAIN_SIZE_X K) (fst (position b)), wrap1 (DOMAIN_SIZE_Y K) (snd (position b)))"
  by (simp add: wrap_body_def wrap1_def Let_def)

lemma wrap1_range: "0 < D \<Longrightarrow> 0 \<le> wrap1 D x \<and> wrap1 D x \<le> D"
  using fmod_pos_range [of D x] fmod_neg_range [of D x] by (auto simp: wrap1_def)

lemma wrap_body_noop:
  "0 \<le> fst (position b) \<Longrightarrow> fst (position b) \<le> DOMAIN_SIZE_X K \<Longrightarrow>
   0 \<le> snd (position b) \<Longrightarrow> snd (position b) \<le> DOMAIN_SIZE_Y K \<Longrightarrow> wrap_body K b = b"
  by (simp add: wrap_body_def)

lemma wrap_body_range:
  assumes "0 < DOMAIN_SIZE_X K" "0 < DOMAIN_SIZE_Y K"
  shows "0 \<le> fst (position (wrap_body K b)) \<and> fst (position (wrap_body K b)) \<le> DOMAIN_SIZE_X K
       \<and> 0 \<le> snd (position (wrap_body K b)) \<and> snd (position (wrap_body K b)) \<le> DOMAIN_SIZE_Y K"
  using assms wrap1_range [of "DOMAIN_SIZE_X K"] wrap1_range [of "DOMAIN_SIZE_Y K"]
  by (simp add: wrap_body_position)

lemma wrapPositions_nth:
  "i < nat numDriverVorts \<Longrightarrow> nat numDriverVorts \<le> length vorts \<Longrightarrow>
   fst (wrapPositions K numDriverVorts vorts tracers numTracers) ! i = wrap_body K (vorts ! i)"
  "j < nat numTracers \<Longrightarrow> nat numTracers \<le> length tracers \<Longrightarrow>
   snd (wrapPositions K numDriverVorts vorts tracers numTracers) ! j = wrap_body K (tracers ! j)"
  by (simp_all add: wrapPositions_def update_each_nth)

text \<open>
  Claim C9, as the code has it. With positive domain sizes, one application of
  \<open>wrapPositions\<close> leaves every vortex with an x coordinate in the closed interval
  \<open>[0, DOMAIN_SIZE_X]\<close> and a y coordinate in \<open>[0, DOMAIN_SIZE_Y]\<close>, and a vortex whose
  coordinates are already in these intervals is left as it is; and the same holds of every
  tracer. The two parts do not depend on each other: each holds whatever the number of the
  other bodies is, zero included.
\<close>

theorem wrapPositions_closed_range:
  assumes "0 < DOMAIN_SIZE_X K" "0 < DOMAIN_SIZE_Y K"
    and "nat numDriverVorts \<le> length vorts" "nat numTracers \<le> length tracers"
  shows "(\<forall>i < nat numDriverVorts.
            0 \<le> fst (position (fst (wrapPositions K numDriverVorts vorts tracers numTracers) ! i))
          \<and> fst (position (fst (wrapPositions K numDriverVorts vorts tracers numTracers) ! i))
              \<le> DOMAIN_SIZE_X K
          \<and> 0 \<le> snd (position (fst (wrapPositions K numDriverVorts vorts tracers numTracers) ! i))
          \<and> snd (position (fst (wrapPositions K numDriverVorts vorts tracers numTracers) ! i))
              \<le> DOMAIN_SIZE_Y K
          \<and> (0 \<le> fst (position (vorts ! i)) \<and> fst (position (vorts ! i)) \<le> DOMAIN_SIZE_X K
             \<and> 0 \<le> snd (position (vorts ! i)) \<and> snd (position (vorts ! i)) \<le> DOMAIN_SIZE_Y K
             \<longrightarrow> fst (wrapPositions K numDriverVorts vorts tracers numTracers) ! i = vorts ! i))
       \<and> (\<forall>j < nat numTracers.
            0 \<le> fst (position (snd (wrapPositions K numDriverVorts vorts tracers numTracers) ! j))
          \<and> fst (position (snd (wrapPositions K numDriverVorts vorts tracers numTracers) ! j))
              \<le> DOMAIN_SIZE_X K
          \<and> 0 \<le> snd (position (snd (wrapPositions K numDriverVorts vorts tracers numTracers) ! j))
          \<and> snd (position (snd (wrapPositions K numDriverVorts vorts tracers numTracers) ! j))
              \<le> DOMAIN_SIZE_Y K
          \<and> (0 \<le> fst (position (tracers ! j)) \<and> fst (position (tracers ! j)) \<le> DOMAIN_SIZE_X K
             \<and> 0 \<le> snd (position (tracers ! j)) \<and> snd (position (tracers ! j)) \<le> DOMAIN_SIZE_Y K
             \<longrightarrow> snd (wrapPositions K numDriverVorts vorts tracers numTracers) ! j = tracers ! j))"
proof (intro conjI allI impI)
  fix i assume i: "i < nat numDriverVorts"
  note v = wrapPositions_nth(1) [OF i assms(3), of K tracers numTracers]
  note r = wrap_body_range [OF assms(1,2), of "vorts ! i"]
  show "0 \<le> fst (position (fst (wrapPositions K numDriverVorts vorts tracers numTracers) ! i))"
    "fst (position (fst (wrapPositions K numDriverVorts vorts tracers numTracers) ! i))
       \<le> DOMAIN_SIZE_X K"
    "0 \<le> snd (position (fst (wrapPositions K numDriverVorts vorts tracers numTracers) ! i))"
    "snd (position (fst (wrapPositions K numDriverVorts vorts tracers numTracers) ! i))
       \<le> DOMAIN_SIZE_Y K"
    unfolding v using r by simp_all
  assume "0 \<le> fst (position (vorts ! i)) \<and> fst (position (vorts ! i)) \<le> DOMAIN_SIZE_X K
        \<and> 0 \<le> snd (position (vorts ! i)) \<and> snd (position (vorts ! i)) \<le> DOMAIN_SIZE_Y K"
  then show "fst (wrapPositions K numDriverVorts vorts tracers numTracers) ! i = vorts ! i"
    unfolding v by (simp add: wrap_body_noop)
next
  fix j assume j: "j < nat numTracers"
  note t = wrapPositions_nth(2) [OF j assms(4), of K numDriverVorts vorts]
  note r = wrap_body_range [OF assms(1,2), of "tracers ! j"]
  show "0 \<le> fst (position (snd (wrapPositions K numDriverVorts vorts tracers numTracers) ! j))"
    "fst (position (snd (wrapPositions K numDriverVorts vorts tracers numTracers) ! j))
       \<le> DOMAIN_SIZE_X K"
    "0 \<le> snd (position (snd (wrapPositions K numDriverVorts vorts tracers numTracers) ! j))"
    "snd (position (snd (wrapPositions K numDriverVorts vorts tracers numTracers) ! j))
       \<le> DOMAIN_SIZE_Y K"
    unfolding t using r by simp_all
  assume "0 \<le> fst (position (tracers ! j)) \<and> fst (position (tracers ! j)) \<le> DOMAIN_SIZE_X K
        \<and> 0 \<le> snd (position (tracers ! j)) \<and> snd (position (tracers ! j)) \<le> DOMAIN_SIZE_Y K"
  then show "snd (wrapPositions K numDriverVorts vorts tracers numTracers) ! j = tracers ! j"
    unfolding t by (simp add: wrap_body_noop)
qed

text \<open>
  Two vortices and a tracer, and the lone vortex at \<open>x = DOMAIN_SIZE_X\<close> with no tracer at
  all: it is in the closed range and is left where it is.
\<close>

theorem wrapPositions_closed_range_witness:
  "0 < DOMAIN_SIZE_X example_constants \<and> 0 < DOMAIN_SIZE_Y example_constants
   \<and> position (fst (wrapPositions example_constants 2
        [vortex_at 0 (- 3, 25) 1, vortex_at 1 (4, 5) 1] [tracer_at 0 (31, - 10)] 1) ! 0) = (7, 5)
   \<and> fst (wrapPositions example_constants 2
        [vortex_at 0 (- 3, 25) 1, vortex_at 1 (4, 5) 1] [tracer_at 0 (31, - 10)] 1) ! 1
       = vortex_at 1 (4, 5) 1
   \<and> position (snd (wrapPositions example_constants 2
        [vortex_at 0 (- 3, 25) 1, vortex_at 1 (4, 5) 1] [tracer_at 0 (31, - 10)] 1) ! 0) = (1, 10)
   \<and> fst (wrapPositions example_constants 1 [vortex_at 0 (10, 0) 1] [] 0) ! 0
       = vortex_at 0 (10, 0) 1
   \<and> fst (position (fst (wrapPositions example_constants 1 [vortex_at 0 (10, 0) 1] [] 0) ! 0))
       \<le> DOMAIN_SIZE_X example_constants"
proof -
  have K: "0 < DOMAIN_SIZE_X example_constants" "0 < DOMAIN_SIZE_Y example_constants"
    by (simp_all add: example_constants_def)
  note two = wrapPositions_closed_range [OF K, of 2
      "[vortex_at 0 (- 3, 25) 1, vortex_at 1 (4, 5) 1]" 1 "[tracer_at 0 (31, - 10)]"]
  note lone = wrapPositions_closed_range [OF K, of 1 "[vortex_at 0 (10, 0) 1]" 0 "[]",
      THEN conjunct1, rule_format, of 0]
  have stays: "fst (wrapPositions example_constants 1 [vortex_at 0 (10, 0) 1] [] 0) ! 0
       = vortex_at 0 (10, 0) 1"
    using lone by (simp add: example_constants_def vortex_at_def)
  have le: "fst (position (fst (wrapPositions example_constants 1 [vortex_at 0 (10, 0) 1] [] 0) ! 0))
       \<le> DOMAIN_SIZE_X example_constants"
    using lone by simp
  have "position (fst (wrapPositions example_constants 2
        [vortex_at 0 (- 3, 25) 1, vortex_at 1 (4, 5) 1] [tracer_at 0 (31, - 10)] 1) ! 0) = (7, 5)
   \<and> fst (wrapPositions example_constants 2
        [vortex_at 0 (- 3, 25) 1, vortex_at 1 (4, 5) 1] [tracer_at 0 (31, - 10)] 1) ! 1
       = vortex_at 1 (4, 5) 1
   \<and> position (snd (wrapPositions example_constants 2
        [vortex_at 0 (- 3, 25) 1, vortex_at 1 (4, 5) 1] [tracer_at 0 (31, - 10)] 1) ! 0) = (1, 10)"
    using two
    by (simp add: example_constants_def vortex_at_def tracer_at_def wrapPositions_def
        update_each_def wrap_body_def fmod_def trunc_def numeral_2_eq_2)
  with K stays le show ?thesis by blast
qed

text \<open>
  The half-open interval of the claim is not reached: a vortex at \<open>x = DOMAIN_SIZE_X\<close>
  stays there.
\<close>

theorem wrapPositions_half_open_counterexample:
  "\<not> fst (position (fst (wrapPositions example_constants 1 [vortex_at 0 (10, 0) 1] [] 0) ! 0))
       < DOMAIN_SIZE_X example_constants"
  by (simp add: example_constants_def vortex_at_def wrapPositions_def update_each_def
      wrap_body_def)

section \<open>Recomputing the distance tables\<close>

lemma tri_Suc: "tri (Suc n) = tri n + n"
proof -
  have "Suc n * (Suc n - 1) = n * (n - 1) + n * 2" by (cases n) (simp_all add: algebra_simps)
  then have "tri (Suc n) = (n * (n - 1) + n * 2) div 2" unfolding tri_def by (rule arg_cong)
  also have "\<dots> = n * (n - 1) div 2 + n" by simp
  finally show ?thesis by (simp only: tri_def)
qed

lemma tri_mono: "b < d \<Longrightarrow> tri b + b \<le> tri d"
proof (induction d)
  case 0
  then show ?case by simp
next
  case (Suc d)
  then show ?case by (cases "b = d") (auto simp: tri_Suc)
qed

lemma tri_inj: "a < b \<Longrightarrow> c < d \<Longrightarrow> tri b + a = tri d + c \<Longrightarrow> a = c \<and> b = d"
  using tri_mono [of b d] tri_mono [of d b] by (cases b d rule: linorder_cases) auto

lemma int_tri: "int (tri n) = (int n - 1) * int n div 2"
proof (cases n)
  case 0
  then show ?thesis by (simp add: tri_def)
next
  case (Suc k)
  have "int (tri n) = int (n * (n - 1)) div 2"
    unfolding tri_def by (simp only: zdiv_int of_nat_numeral)
  also have "int (n * (n - 1)) = (int n - 1) * int n"
    unfolding Suc by (simp add: algebra_simps)
  finally show ?thesis .
qed

lemma index_nat: "a < b \<Longrightarrow> calculateVortexRadiiIndex (int b) (int a) = int (3 * (tri b + a))"
proof -
  assume ab: "a < b"
  then have "calculateVortexRadiiIndex (int b) (int a) = 3 * ((int b - 1) * int b div 2 + int a)"
    using index_gt [of "int a" "int b"] by simp
  also have "\<dots> = 3 * (int (tri b) + int a)" by (simp only: int_tri)
  finally show ?thesis by simp
qed

lemma index_nat': "a < b \<Longrightarrow> calculateVortexRadiiIndex (int a) (int b) = int (3 * (tri b + a))"
proof -
  assume ab: "a < b"
  then have "calculateVortexRadiiIndex (int a) (int b) = 3 * ((int b - 1) * int b div 2 + int a)"
    using index_lt [of "int a" "int b"] by simp
  also have "\<dots> = 3 * (int (tri b) + int a)" by (simp only: int_tri)
  finally show ?thesis by simp
qed

lemma length_store_entry [simp]: "length (store_entry rads index dx dy) = length rads"
  by (simp add: store_entry_def Let_def)

lemma store_entry_frame:
  "index = int (3 * e) \<Longrightarrow> p div 3 \<noteq> e \<Longrightarrow> store_entry rads index dx dy ! p = rads ! p"
  by (auto simp: store_entry_def Let_def nat_add_distrib nat_mult_distrib)

lemma store_entry_effect:
  "index = int (3 * e) \<Longrightarrow> 3 * e + 2 < length rads \<Longrightarrow>
   entry (store_entry rads index dx dy) e = (sqrt (dx\<^sup>2 + dy\<^sup>2), dx, dy)"
  by (simp add: store_entry_def Let_def entry_def nat_add_distrib nat_mult_distrib)

lemma entry_cong: "(\<And>p. p div 3 = e \<Longrightarrow> r' ! p = r ! p) \<Longrightarrow> entry r' e = entry r e"
  by (simp add: entry_def)

subsection \<open>The vortex table\<close>

lemma length_vortex_body [simp]: "length (vortex_radius_body vortices i j r) = length r"
  by (simp add: vortex_radius_body_def)

lemma vortex_body_frame:
  assumes "vIndex (vortices ! i) = int i" "vIndex (vortices ! j) = int j" "j < i"
    and "p div 3 \<noteq> tri i + j"
  shows "vortex_radius_body vortices i j r ! p = r ! p"
  unfolding vortex_radius_body_def
  using assms index_nat [of j i] by (intro store_entry_frame [of _ "tri i + j"]) simp_all

lemma vortex_body_effect:
  assumes "vIndex (vortices ! i) = int i" "vIndex (vortices ! j) = int j" "j < i"
    and "3 * (tri i + j) + 2 < length r"
  shows "entry (vortex_radius_body vortices i j r) (tri i + j)
           = pythagorean (position (vortices ! j)) (position (vortices ! i))"
  unfolding vortex_radius_body_def pythagorean_def
  using assms index_nat [of j i] by (intro store_entry_effect) simp_all

lemma length_vortex_row [simp]:
  "length (fold (vortex_radius_body vortices i) [0..<m] r) = length r"
  by (induction m) simp_all

lemma length_vortex_table [simp]:
  "length (fold (\<lambda>i. fold (vortex_radius_body vortices i) [0..<i]) [0..<n] r) = length r"
  by (induction n) simp_all

lemma vortex_row_frame:
  assumes inv: "\<forall>k \<le> i. vIndex (vortices ! k) = int k"
    and "m \<le> i" "\<forall>j < m. p div 3 \<noteq> tri i + j"
  shows "fold (vortex_radius_body vortices i) [0..<m] r ! p = r ! p"
  using assms(2,3)
proof (induction m)
  case 0
  then show ?case by simp
next
  case (Suc m)
  then show ?case using inv by (simp add: vortex_body_frame)
qed

lemma vortex_row_effect:
  assumes inv: "\<forall>k \<le> i. vIndex (vortices ! k) = int k"
    and "m \<le> i" "j < m" "3 * (tri i + i) \<le> length r"
  shows "entry (fold (vortex_radius_body vortices i) [0..<m] r) (tri i + j)
           = pythagorean (position (vortices ! j)) (position (vortices ! i))"
  using assms(2,3)
proof (induction m)
  case 0
  then show ?case by simp
next
  case (Suc m)
  show ?case
  proof (cases "j = m")
    case True
    have "3 * (tri i + m) + 2 < length (fold (vortex_radius_body vortices i) [0..<m] r)"
      using Suc.prems assms(4) by simp
    then show ?thesis
      using Suc.prems inv True by (simp add: vortex_body_effect)
  next
    case False
    then have "j < m" using Suc.prems by simp
    then have IH: "entry (fold (vortex_radius_body vortices i) [0..<m] r) (tri i + j)
           = pythagorean (position (vortices ! j)) (position (vortices ! i))"
      using Suc by simp
    have "entry (fold (vortex_radius_body vortices i) [0..<Suc m] r) (tri i + j)
        = entry (fold (vortex_radius_body vortices i) [0..<m] r) (tri i + j)"
      using Suc.prems inv False by (intro entry_cong) (simp add: vortex_body_frame)
    then show ?thesis using IH by simp
  qed
qed

lemma vortex_table_effect:
  assumes inv: "\<forall>k < n. vIndex (vortices ! k) = int k"
    and "a < b" "b < n" "3 * tri n \<le> length r"
  shows "entry (fold (\<lambda>i. fold (vortex_radius_body vortices i) [0..<i]) [0..<n] r) (tri b + a)
           = pythagorean (position (vortices ! a)) (position (vortices ! b))"
  using assms
proof (induction n)
  case 0
  then show ?case by simp
next
  case (Suc n)
  let ?prev = "fold (\<lambda>i. fold (vortex_radius_body vortices i) [0..<i]) [0..<n] r"
  have inv': "\<forall>k \<le> n. vIndex (vortices ! k) = int k" using Suc.prems by (simp add: less_Suc_eq_le)
  show ?case
  proof (cases "b = n")
    case True
    have "3 * (tri n + n) \<le> length ?prev" using Suc.prems by (simp add: tri_Suc)
    then show ?thesis
      using vortex_row_effect [OF inv', of n a ?prev] Suc.prems True by simp
  next
    case False
    then have bn: "b < n" using Suc.prems by simp
    have "3 * tri n \<le> length r" using Suc.prems by (simp add: tri_Suc)
    then have IH: "entry ?prev (tri b + a)
        = pythagorean (position (vortices ! a)) (position (vortices ! b))"
      using Suc bn by simp
    have "entry (fold (vortex_radius_body vortices n) [0..<n] ?prev) (tri b + a)
            = entry ?prev (tri b + a)"
    proof (rule entry_cong)
      fix p assume p: "p div 3 = tri b + a"
      have "\<forall>j < n. p div 3 \<noteq> tri n + j"
        using tri_inj [of a b _ n] Suc.prems bn p by auto
      then show "fold (vortex_radius_body vortices n) [0..<n] ?prev ! p = ?prev ! p"
        using vortex_row_frame [OF inv', of n p ?prev] by simp
    qed
    then show ?thesis using IH by simp
  qed
qed


subsection \<open>The tracer table\<close>

lemma tracer_index_nat:
  "calculateTracerRadiiIndex (int n) (int t) (int v) = int (3 * (t * n + v))"
  by (simp add: calculateTracerRadiiIndex_def)

lemma rect_inj: "v < n \<Longrightarrow> v' < n \<Longrightarrow> t * n + v = t' * n + v' \<Longrightarrow> t = t' \<and> v = (v'::nat)"
proof -
  assume v: "v < n" and v': "v' < n" and eq: "t * n + v = t' * n + v'"
  have "(t * n + v) div n = t" "(t' * n + v') div n = t'" using v v' by simp_all
  then have "t = t'" using eq by simp
  then show ?thesis using eq by simp
qed

lemma length_tracer_body [simp]:
  "length (tracer_radius_body N vortices tracers t v r) = length r"
  by (simp add: tracer_radius_body_def)

lemma tracer_body_frame:
  assumes "p div 3 \<noteq> t * n + v"
  shows "tracer_radius_body (int n) vortices tracers t v r ! p = r ! p"
  unfolding tracer_radius_body_def
  using assms tracer_index_nat [of n t v] by (intro store_entry_frame [of _ "t * n + v"]) simp_all

lemma tracer_body_effect:
  assumes "3 * (t * n + v) + 2 < length r"
  shows "entry (tracer_radius_body (int n) vortices tracers t v r) (t * n + v)
           = pythagorean (position (tracers ! t)) (position (vortices ! v))"
  unfolding tracer_radius_body_def pythagorean_def
  using assms tracer_index_nat [of n t v] by (intro store_entry_effect) simp_all

lemma length_tracer_row [simp]:
  "length (fold (tracer_radius_body N vortices tracers t) [0..<m] r) = length r"
  by (induction m) simp_all

lemma length_tracer_table [simp]:
  "length (fold (\<lambda>t. fold (tracer_radius_body N vortices tracers t) [0..<m]) [0..<k] r)
     = length r"
  by (induction k) simp_all

lemma tracer_row_frame:
  assumes "\<forall>v < m. p div 3 \<noteq> t * n + v"
  shows "fold (tracer_radius_body (int n) vortices tracers t) [0..<m] r ! p = r ! p"
  using assms by (induction m) (simp_all add: tracer_body_frame)

lemma tracer_row_effect:
  assumes "m \<le> n" "v < m" "3 * (t * n + n) \<le> length r"
  shows "entry (fold (tracer_radius_body (int n) vortices tracers t) [0..<m] r) (t * n + v)
           = pythagorean (position (tracers ! t)) (position (vortices ! v))"
  using assms(1,2)
proof (induction m)
  case 0
  then show ?case by simp
next
  case (Suc m)
  let ?prev = "fold (tracer_radius_body (int n) vortices tracers t) [0..<m] r"
  show ?case
  proof (cases "v = m")
    case True
    have "3 * (t * n + m) + 2 < length ?prev" using Suc.prems assms(3) by simp
    then show ?thesis using True by (simp add: tracer_body_effect)
  next
    case False
    then have IH: "entry ?prev (t * n + v)
        = pythagorean (position (tracers ! t)) (position (vortices ! v))"
      using Suc by simp
    have "entry (tracer_radius_body (int n) vortices tracers t m ?prev) (t * n + v)
            = entry ?prev (t * n + v)"
      using False by (intro entry_cong) (simp add: tracer_body_frame)
    then show ?thesis using IH by simp
  qed
qed

lemma tracer_table_effect:
  assumes "t < k" "v < n" "3 * (k * n) \<le> length r"
  shows "entry (fold (\<lambda>t. fold (tracer_radius_body (int n) vortices tracers t) [0..<n]) [0..<k] r)
               (t * n + v)
           = pythagorean (position (tracers ! t)) (position (vortices ! v))"
  using assms(1,3)
proof (induction k)
  case 0
  then show ?case by simp
next
  case (Suc k)
  let ?prev = "fold (\<lambda>t. fold (tracer_radius_body (int n) vortices tracers t) [0..<n]) [0..<k] r"
  show ?case
  proof (cases "t = k")
    case True
    have "3 * (k * n + n) \<le> length ?prev" using Suc.prems by (simp add: algebra_simps)
    then show ?thesis
      using tracer_row_effect [of n n v k ?prev vortices tracers] assms(2) True by simp
  next
    case False
    then have tk: "t < k" using Suc.prems by simp
    have "3 * (k * n) \<le> length r" using Suc.prems by simp
    then have IH: "entry ?prev (t * n + v)
        = pythagorean (position (tracers ! t)) (position (vortices ! v))"
      using Suc tk by simp
    have "entry (fold (tracer_radius_body (int n) vortices tracers k) [0..<n] ?prev) (t * n + v)
            = entry ?prev (t * n + v)"
    proof (rule entry_cong)
      fix p assume p: "p div 3 = t * n + v"
      have "\<forall>v' < n. p div 3 \<noteq> k * n + v'"
        using rect_inj [of v n _ t k] assms(2) tk p by auto
      then show "fold (tracer_radius_body (int n) vortices tracers k) [0..<n] ?prev ! p = ?prev ! p"
        by (rule tracer_row_frame)
    qed
    then show ?thesis using IH by simp
  qed
qed

lemma vortex_entries_at:
  assumes "0 \<le> numDriverVorts"
    and "\<forall>k < nat numDriverVorts. vIndex (vortices ! k) = int k"
    and "3 * (numDriverVorts * (numDriverVorts - 1) div 2) \<le> int (length vortexRadii)"
    and "a < b" "b < nat numDriverVorts"
    and "vr = fst (updateRadii_pythagorean numDriverVorts vortexRadii vortices tracerRadii tracers numTracers)"
    and "i = nat (calculateVortexRadiiIndex (int a) (int b))"
  shows "vr ! (i + 1) = fst (position (vortices ! b)) - fst (position (vortices ! a))
       \<and> vr ! (i + 2) = snd (position (vortices ! b)) - snd (position (vortices ! a))
       \<and> vr ! i = sqrt ((vr ! (i + 1))\<^sup>2 + (vr ! (i + 2))\<^sup>2)"
proof -
  define n where "n = nat numDriverVorts"
  have N: "numDriverVorts = int n" using assms(1) by (simp add: n_def)
  have "int (3 * tri n) = 3 * (numDriverVorts * (numDriverVorts - 1) div 2)"
    using int_tri [of n] by (simp add: N mult.commute)
  then have len_v: "3 * tri n \<le> length vortexRadii" using assms(3) by linarith
  have "calculateVortexRadiiIndex (int a) (int b) = int (3 * (tri b + a))"
    using assms(4) by (rule index_nat')
  then have i: "i = 3 * (tri b + a)"
    unfolding assms(7) by (simp only: nat_int)
  have vr: "vr = fold (\<lambda>i. fold (vortex_radius_body vortices i) [0..<i]) [0..<n] vortexRadii"
    unfolding assms(6) updateRadii_pythagorean_def fst_conv n_def ..
  have inv: "\<forall>k < n. vIndex (vortices ! k) = int k" using assms(2) by (simp add: n_def)
  have bn: "b < n" using assms(5) by (simp add: n_def)
  have ev: "entry vr (tri b + a) = pythagorean (position (vortices ! a)) (position (vortices ! b))"
    unfolding vr using inv assms(4) bn len_v by (rule vortex_table_effect)
  from ev have v0: "vr ! i = sqrt ((fst (position (vortices ! b)) - fst (position (vortices ! a)))\<^sup>2
                    + (snd (position (vortices ! b)) - snd (position (vortices ! a)))\<^sup>2)"
    and v1: "vr ! (i + 1) = fst (position (vortices ! b)) - fst (position (vortices ! a))"
    and v2: "vr ! (i + 2) = snd (position (vortices ! b)) - snd (position (vortices ! a))"
    unfolding entry_def pythagorean_def i by simp_all
  have v3: "vr ! i = sqrt ((vr ! (i + 1))\<^sup>2 + (vr ! (i + 2))\<^sup>2)"
    unfolding v1 v2 by (fact v0)
  from v1 v2 v3 show ?thesis by blast
qed

lemma tracer_entries_at:
  assumes "0 \<le> numDriverVorts" "0 \<le> numTracers"
    and "3 * (numTracers * numDriverVorts) \<le> int (length tracerRadii)"
    and "t < nat numTracers" "v < nat numDriverVorts"
    and "tr = snd (updateRadii_pythagorean numDriverVorts vortexRadii vortices tracerRadii tracers numTracers)"
    and "k = nat (calculateTracerRadiiIndex numDriverVorts (int t) (int v))"
  shows "tr ! (k + 1) = fst (position (vortices ! v)) - fst (position (tracers ! t))
       \<and> tr ! (k + 2) = snd (position (vortices ! v)) - snd (position (tracers ! t))
       \<and> tr ! k = sqrt ((tr ! (k + 1))\<^sup>2 + (tr ! (k + 2))\<^sup>2)"
proof -
  define n where "n = nat numDriverVorts"
  define m where "m = nat numTracers"
  have N: "numDriverVorts = int n" and M: "numTracers = int m"
    using assms(1,2) by (simp_all add: n_def m_def)
  have "int (3 * (m * n)) = 3 * (numTracers * numDriverVorts)" by (simp add: N M)
  then have len_t: "3 * (m * n) \<le> length tracerRadii" using assms(3) by linarith
  have "calculateTracerRadiiIndex numDriverVorts (int t) (int v) = int (3 * (t * n + v))"
    unfolding N by (rule tracer_index_nat)
  then have k: "k = 3 * (t * n + v)"
    unfolding assms(7) by (simp only: nat_int)
  have tr: "tr = fold (\<lambda>t. fold (tracer_radius_body (int n) vortices tracers t) [0..<n])
                   [0..<m] tracerRadii"
    unfolding assms(6) updateRadii_pythagorean_def snd_conv n_def m_def using assms(1) by simp
  have tm: "t < m" and vn: "v < n" using assms(4,5) by (simp_all add: n_def m_def)
  have et: "entry tr (t * n + v) = pythagorean (position (tracers ! t)) (position (vortices ! v))"
    unfolding tr using tm vn len_t by (rule tracer_table_effect)
  from et have t0: "tr ! k = sqrt ((fst (position (vortices ! v)) - fst (position (tracers ! t)))\<^sup>2
                    + (snd (position (vortices ! v)) - snd (position (tracers ! t)))\<^sup>2)"
    and t1: "tr ! (k + 1) = fst (position (vortices ! v)) - fst (position (tracers ! t))"
    and t2: "tr ! (k + 2) = snd (position (vortices ! v)) - snd (position (tracers ! t))"
    unfolding entry_def pythagorean_def k by simp_all
  have t3: "tr ! k = sqrt ((tr ! (k + 1))\<^sup>2 + (tr ! (k + 2))\<^sup>2)"
    unfolding t1 t2 by (fact t0)
  from t1 t2 t3 show ?thesis by blast
qed

text \<open>
  Claim C4. After \<open>updateRadii_pythagorean\<close>, for every pair of vortices at array positions
  \<open>a < b\<close> (which are their \<open>vIndex\<close> values) the entry of the pair holds the components
  \<open>position b - position a\<close> and the magnitude \<open>sqrt (dx\<^sup>2 + dy\<^sup>2)\<close>; and for every tracer \<open>t\<close>
  and every vortex \<open>v\<close> the entry holds \<open>position v - position t\<close> and its magnitude. The two
  parts do not depend on each other: the first holds with no tracer, the second with a single
  vortex. Here \<open>vr\<close> and \<open>tr\<close> are the two tables returned.
\<close>

theorem updateRadii_pythagorean_entries:
  assumes "0 \<le> numDriverVorts" "nat numDriverVorts \<le> length vortices"
    and "0 \<le> numTracers" "nat numTracers \<le> length tracers"
    and "\<forall>k < nat numDriverVorts. vIndex (vortices ! k) = int k"
    and "3 * (numDriverVorts * (numDriverVorts - 1) div 2) \<le> int (length vortexRadii)"
    and "3 * (numTracers * numDriverVorts) \<le> int (length tracerRadii)"
    and "vr = fst (updateRadii_pythagorean numDriverVorts vortexRadii vortices tracerRadii tracers numTracers)"
    and "tr = snd (updateRadii_pythagorean numDriverVorts vortexRadii vortices tracerRadii tracers numTracers)"
  shows "(\<forall>a b. a < b \<and> b < nat numDriverVorts \<longrightarrow>
            (let i = nat (calculateVortexRadiiIndex (int a) (int b))
             in vr ! (i + 1) = fst (position (vortices ! b)) - fst (position (vortices ! a))
              \<and> vr ! (i + 2) = snd (position (vortices ! b)) - snd (position (vortices ! a))
              \<and> vr ! i = sqrt ((vr ! (i + 1))\<^sup>2 + (vr ! (i + 2))\<^sup>2)))
       \<and> (\<forall>t v. t < nat numTracers \<and> v < nat numDriverVorts \<longrightarrow>
            (let k = nat (calculateTracerRadiiIndex numDriverVorts (int t) (int v))
             in tr ! (k + 1) = fst (position (vortices ! v)) - fst (position (tracers ! t))
              \<and> tr ! (k + 2) = snd (position (vortices ! v)) - snd (position (tracers ! t))
              \<and> tr ! k = sqrt ((tr ! (k + 1))\<^sup>2 + (tr ! (k + 2))\<^sup>2)))"
proof (intro conjI allI impI)
  fix a b assume "a < b \<and> b < nat numDriverVorts"
  then have ab: "a < b" "b < nat numDriverVorts" by simp_all
  show "let i = nat (calculateVortexRadiiIndex (int a) (int b))
        in vr ! (i + 1) = fst (position (vortices ! b)) - fst (position (vortices ! a))
         \<and> vr ! (i + 2) = snd (position (vortices ! b)) - snd (position (vortices ! a))
         \<and> vr ! i = sqrt ((vr ! (i + 1))\<^sup>2 + (vr ! (i + 2))\<^sup>2)"
    unfolding Let_def by (rule vortex_entries_at [OF assms(1,5,6) ab assms(8) refl])
next
  fix t v assume "t < nat numTracers \<and> v < nat numDriverVorts"
  then have tv: "t < nat numTracers" "v < nat numDriverVorts" by simp_all
  show "let k = nat (calculateTracerRadiiIndex numDriverVorts (int t) (int v))
        in tr ! (k + 1) = fst (position (vortices ! v)) - fst (position (tracers ! t))
         \<and> tr ! (k + 2) = snd (position (vortices ! v)) - snd (position (tracers ! t))
         \<and> tr ! k = sqrt ((tr ! (k + 1))\<^sup>2 + (tr ! (k + 2))\<^sup>2)"
    unfolding Let_def by (rule tracer_entries_at [OF assms(1,3,7) tv assms(9) refl])
qed

text \<open>
  The two example vortices with the example tracer; and the second example vortex alone
  with the tracer, where there is no pair of vortices and the tracer table is filled all the
  same.
\<close>

theorem updateRadii_pythagorean_entries_witness:
  "fst (updateRadii_pythagorean 2 [0, 0, 0] example_vortices [0, 0, 0, 0, 0, 0] example_tracers 1) ! 1 = 3
   \<and> fst (updateRadii_pythagorean 2 [0, 0, 0] example_vortices [0, 0, 0, 0, 0, 0] example_tracers 1) ! 2 = 4
   \<and> fst (updateRadii_pythagorean 2 [0, 0, 0] example_vortices [0, 0, 0, 0, 0, 0] example_tracers 1) ! 0
       = sqrt (3\<^sup>2 + 4\<^sup>2)
   \<and> snd (updateRadii_pythagorean 2 [0, 0, 0] example_vortices [0, 0, 0, 0, 0, 0] example_tracers 1) ! 4 = 2
   \<and> snd (updateRadii_pythagorean 2 [0, 0, 0] example_vortices [0, 0, 0, 0, 0, 0] example_tracers 1) ! 5 = 3
   \<and> snd (updateRadii_pythagorean 2 [0, 0, 0] example_vortices [0, 0, 0, 0, 0, 0] example_tracers 1) ! 3
       = sqrt (2\<^sup>2 + 3\<^sup>2)
   \<and> snd (updateRadii_pythagorean 1 [] [vortex_at 0 (4, 5) (- 1)] [0, 0, 0] example_tracers 1) ! 1 = 2
   \<and> snd (updateRadii_pythagorean 1 [] [vortex_at 0 (4, 5) (- 1)] [0, 0, 0] example_tracers 1) ! 2 = 3
   \<and> snd (updateRadii_pythagorean 1 [] [vortex_at 0 (4, 5) (- 1)] [0, 0, 0] example_tracers 1) ! 0
       = sqrt (2\<^sup>2 + 3\<^sup>2)"
proof -
  note two = updateRadii_pythagorean_entries [where numDriverVorts = 2
      and vortices = example_vortices and numTracers = 1 and tracers = example_tracers
      and vortexRadii = "[0, 0, 0]" and tracerRadii = "[0, 0, 0, 0, 0, 0]",
      OF _ _ _ _ _ _ _ refl refl]
  have h: "0 \<le> (2::int)" "nat 2 \<le> length example_vortices" "0 \<le> (1::int)"
    "nat 1 \<le> length example_tracers" "\<forall>k < nat 2. vIndex (example_vortices ! k) = int k"
    "3 * (2 * (2 - 1) div 2) \<le> int (length [0::real, 0, 0])"
    "3 * (1 * 2) \<le> int (length [0::real, 0, 0, 0, 0, 0])"
    by (simp_all add: example_vortices_def example_tracers_def vortex_at_def
        numeral_2_eq_2 less_Suc_eq)
  note pair = two [OF h, THEN conjunct1, rule_format, of 0 1]
  note tv = two [OF h, THEN conjunct2, rule_format, of 0 1]
  have g: "0 \<le> (1::int)" "nat 1 \<le> length [vortex_at 0 (4, 5) (- 1)]" "0 \<le> (1::int)"
    "nat 1 \<le> length example_tracers"
    "\<forall>k < nat 1. vIndex ([vortex_at 0 (4, 5) (- 1)] ! k) = int k"
    "3 * (1 * (1 - 1) div 2) \<le> int (length ([]::real list))"
    "3 * (1 * 1) \<le> int (length [0::real, 0, 0])"
    by (simp_all add: example_tracers_def vortex_at_def)
  note lone = updateRadii_pythagorean_entries [where numDriverVorts = 1
      and vortices = "[vortex_at 0 (4, 5) (- 1)]" and numTracers = 1 and tracers = example_tracers
      and vortexRadii = "[]" and tracerRadii = "[0, 0, 0]",
      OF g refl refl, THEN conjunct2, rule_format, of 0 0]
  show ?thesis
    using pair tv lone
    by (simp add: example_vortices_def example_tracers_def vortex_at_def tracer_at_def
        calculateVortexRadiiIndex_def calculateTracerRadiiIndex_def signed_divide_int_def Let_def
        numeral_2_eq_2)
qed

section \<open>The force evaluator\<close>

lemma fold_add_pairs:
  "fold (\<lambda>k v. (fst v + f k, snd v + g k)) [0..<n] v0
     = (fst v0 + (\<Sum>k<n. f k), snd v0 + (\<Sum>k<n. g k))"
  by (induction n) (simp_all add: add.assoc)

lemma domain_shift_offset:
  "d \<le> 8 \<Longrightarrow> domain_shift K d r = (fst r + fst (image_offset K d), snd r + snd (image_offset K d))"
  by (auto simp: domain_shift_def image_offset_def)


lemma vortex_domain_body_eq:
  assumes "d \<le> 8"
  shows "vortex_domain_body K vort vortices rads j d vel =
     (fst vel + fst (image_contribution K False (vortex_separation vort (vortices ! j) rads)
                       (intensity (vortices ! j)) d),
      snd vel + snd (image_contribution K False (vortex_separation vort (vortices ! j) rads)
                       (intensity (vortices ! j)) d))"
proof (cases "d = 0")
  case True
  then show ?thesis
    by (simp add: vortex_domain_body_def image_contribution_def vortex_separation_def
        velocityFunc_def image_offset_def Let_def)
next
  case False
  then show ?thesis
    using assms
    by (simp add: vortex_domain_body_def image_contribution_def vortex_separation_def
        velocityFunc_def domain_shift_offset Let_def)
qed

lemma tracer_domain_body_eq:
  assumes "d \<le> 8"
  shows "tracer_domain_body K N tracerIndex rads vortices v d vel =
     (fst vel + fst (image_contribution K (TEST_CASE K = 6) (tracer_separation N tracerIndex v rads)
                       (intensity (vortices ! v)) d),
      snd vel + snd (image_contribution K (TEST_CASE K = 6) (tracer_separation N tracerIndex v rads)
                       (intensity (vortices ! v)) d))"
proof (cases "d = 0")
  case True
  then show ?thesis
    by (simp add: tracer_domain_body_def image_contribution_def tracer_separation_def
        velocityFunc_def image_offset_def Let_def)
next
  case False
  then show ?thesis
    using assms
    by (simp add: tracer_domain_body_def image_contribution_def tracer_separation_def
        velocityFunc_def domain_shift_offset Let_def)
qed

lemma fold_images:
  assumes "\<And>d vel. d \<le> 8 \<Longrightarrow> body d vel = (fst vel + f d, snd vel + g d)"
  shows "fold body [0..<Suc domains] vel = (fst vel + (\<Sum>d<9. f d), snd vel + (\<Sum>d<9. g d))"
proof -
  have nine: "Suc domains = 9" by (simp add: domains_def)
  have "fold body [0..<9] vel = fold (\<lambda>d v. (fst v + f d, snd v + g d)) [0..<9] vel"
  proof (rule fold_cong [OF refl refl])
    fix d :: nat
    assume "d \<in> set [0..<9]"
    then have "d \<le> 8" by simp
    then show "body d = (\<lambda>v. (fst v + f d, snd v + g d))" by (intro ext assms)
  qed
  then show ?thesis by (simp only: nine fold_add_pairs)
qed

lemma calculateVel_vortex_sum:
  "calculateVel_vortex K numDriverVorts vel vort vortices rads =
     (fst vel + (\<Sum>j<nat numDriverVorts. if vIndex vort = int j then 0 else
                  \<Sum>d<9. fst (image_contribution K False
                     (vortex_separation vort (vortices ! j) rads) (intensity (vortices ! j)) d)),
      snd vel + (\<Sum>j<nat numDriverVorts. if vIndex vort = int j then 0 else
                  \<Sum>d<9. snd (image_contribution K False
                     (vortex_separation vort (vortices ! j) rads) (intensity (vortices ! j)) d)))"
proof -
  let ?fx = "\<lambda>j d. fst (image_contribution K False
                     (vortex_separation vort (vortices ! j) rads) (intensity (vortices ! j)) d)"
  let ?fy = "\<lambda>j d. snd (image_contribution K False
                     (vortex_separation vort (vortices ! j) rads) (intensity (vortices ! j)) d)"
  have inner: "fold (vortex_domain_body K vort vortices rads j) [0..<Suc domains] acc
          = (fst acc + (\<Sum>d<9. ?fx j d), snd acc + (\<Sum>d<9. ?fy j d))" for j acc
    by (rule fold_images) (rule vortex_domain_body_eq)
  have "calculateVel_vortex K numDriverVorts vel vort vortices rads =
      fold (\<lambda>j v. (fst v + (if vIndex vort = int j then 0 else \<Sum>d<9. ?fx j d),
                     snd v + (if vIndex vort = int j then 0 else \<Sum>d<9. ?fy j d)))
           [0..<nat numDriverVorts] vel"
    unfolding calculateVel_vortex_def
  proof (rule fold_cong [OF refl refl])
    fix j :: nat
    show "(\<lambda>acc. if vIndex vort = int j then acc
                 else fold (vortex_domain_body K vort vortices rads j) [0..<Suc domains] acc)
        = (\<lambda>v. (fst v + (if vIndex vort = int j then 0 else \<Sum>d<9. ?fx j d),
                  snd v + (if vIndex vort = int j then 0 else \<Sum>d<9. ?fy j d)))"
      by (rule ext) (simp add: inner del: upt_Suc)
  qed
  then show ?thesis
    by (simp only: fold_add_pairs)
qed

lemma calculateVel_tracer_sum:
  "calculateVel_tracer K numDriverVorts vel tracerIndex rads vortices =
     (fst vel + (\<Sum>j<nat numDriverVorts.
                  \<Sum>d<9. fst (image_contribution K (TEST_CASE K = 6)
                     (tracer_separation numDriverVorts tracerIndex j rads) (intensity (vortices ! j)) d)),
      snd vel + (\<Sum>j<nat numDriverVorts.
                  \<Sum>d<9. snd (image_contribution K (TEST_CASE K = 6)
                     (tracer_separation numDriverVorts tracerIndex j rads) (intensity (vortices ! j)) d)))"
proof -
  let ?gx = "\<lambda>j d. fst (image_contribution K (TEST_CASE K = 6)
                     (tracer_separation numDriverVorts tracerIndex j rads) (intensity (vortices ! j)) d)"
  let ?gy = "\<lambda>j d. snd (image_contribution K (TEST_CASE K = 6)
                     (tracer_separation numDriverVorts tracerIndex j rads) (intensity (vortices ! j)) d)"
  have inner: "fold (tracer_domain_body K numDriverVorts tracerIndex rads vortices j)
                 [0..<Suc domains] acc
          = (fst acc + (\<Sum>d<9. ?gx j d), snd acc + (\<Sum>d<9. ?gy j d))" for j acc
    by (rule fold_images) (rule tracer_domain_body_eq)
  have "calculateVel_tracer K numDriverVorts vel tracerIndex rads vortices =
      fold (\<lambda>j v. (fst v + (\<Sum>d<9. ?gx j d), snd v + (\<Sum>d<9. ?gy j d)))
           [0..<nat numDriverVorts] vel"
    unfolding calculateVel_tracer_def
  proof (rule fold_cong [OF refl refl])
    fix j :: nat
    show "fold (tracer_domain_body K numDriverVorts tracerIndex rads vortices j) [0..<Suc domains]
        = (\<lambda>v. (fst v + (\<Sum>d<9. ?gx j d), snd v + (\<Sum>d<9. ?gy j d)))"
      by (rule ext) (simp add: inner del: upt_Suc)
  qed
  then show ?thesis
    by (simp only: fold_add_pairs)

qed

text \<open>
  Claim C5, as the code has it. The velocity of a vortex is the start value plus, for
  every source vortex other than the vortex itself and each of the nine images, the
  contribution of the image: nothing if \<open>r\<close> exceeds \<open>DOMAIN_SIZE_X\<close>, and
  \<open>((dy / r) * vmag, (- dx / r) * vmag)\<close> with \<open>vmag = intensity / (2 * pi * r)\<close> otherwise.
  The velocity of a tracer is the same sum over all source vortices, where in test case 6
  an image with \<open>r < 0.1\<close> is skipped as well. The additional skip is the tracer
  evaluator's only.
\<close>

theorem force_evaluator_sum:
  "calculateVel_vortex K numDriverVorts vel vort vortices rads =
     (fst vel + (\<Sum>j<nat numDriverVorts. if vIndex vort = int j then 0 else
                  \<Sum>d<9. fst (image_contribution K False
                     (vortex_separation vort (vortices ! j) rads) (intensity (vortices ! j)) d)),
      snd vel + (\<Sum>j<nat numDriverVorts. if vIndex vort = int j then 0 else
                  \<Sum>d<9. snd (image_contribution K False
                     (vortex_separation vort (vortices ! j) rads) (intensity (vortices ! j)) d)))
   \<and> calculateVel_tracer K numDriverVorts vel tracerIndex rads' vortices =
     (fst vel + (\<Sum>j<nat numDriverVorts.
                  \<Sum>d<9. fst (image_contribution K (TEST_CASE K = 6)
                     (tracer_separation numDriverVorts tracerIndex j rads') (intensity (vortices ! j)) d)),
      snd vel + (\<Sum>j<nat numDriverVorts.
                  \<Sum>d<9. snd (image_contribution K (TEST_CASE K = 6)
                     (tracer_separation numDriverVorts tracerIndex j rads') (intensity (vortices ! j)) d)))"
  using calculateVel_vortex_sum calculateVel_tracer_sum by (rule conjI)

text \<open>
  In test case 6 the vortex evaluator keeps the primary image of a source at distance
  \<open>0.05\<close>, which the additional skip would drop.
\<close>

lemma close_images:
  "vortex_domain_body degenerate_constants (vortex_at 0 (0, 0) 1) close_vortices [1 / 20, 0, 1 / 20] (Suc 0) d vel
    = (if d = 0 then (fst vel + 10 / pi, snd vel) else vel)" if "d \<le> 8"
proof -
  from that consider "d = 0" | "d = 1" | "d = 2" | "d = 3" | "d = 4" | "d = 5" | "d = 6" | "d = 7" | "d = 8"
    by linarith
  then show ?thesis
    by cases (simp_all add: vortex_domain_body_def degenerate_constants_def close_vortices_def
        vortex_at_def calculateVortexRadiiIndex_def signed_divide_int_def domain_shift_def
        velocityFunc_def Let_def power2_eq_square)
qed

lemma close_vortex_velocity:
  "calculateVel_vortex degenerate_constants 2 (0, 0) (close_vortices ! 0) close_vortices
     [1 / 20, 0, 1 / 20] = (10 / pi, 0)"
proof -
  have two: "[0..<2::nat] = [0, Suc 0]" by (simp add: numeral_2_eq_2)
  have "fold (vortex_domain_body degenerate_constants (vortex_at 0 (0, 0) 1) close_vortices
               [1 / 20, 0, 1 / 20] 1) [0..<Suc domains] (0, 0) = (10 / pi, 0)"
    by (simp add: domains_def close_images upt_rec [of _ "numeral _"])
  then show ?thesis
    by (simp add: calculateVel_vortex_def close_vortices_def vortex_at_def two del: upt_Suc)
qed

theorem vortex_near_field_counterexample:
  "TEST_CASE degenerate_constants = 6
   \<and> fst (vortex_separation (close_vortices ! 0) (close_vortices ! 1) [1 / 20, 0, 1 / 20]) < 1 / 10
   \<and> image_contribution degenerate_constants (TEST_CASE degenerate_constants = 6)
         (vortex_separation (close_vortices ! 0) (close_vortices ! 1) [1 / 20, 0, 1 / 20]) 1 0 = (0, 0)
   \<and> calculateVel_vortex degenerate_constants 2 (0, 0) (close_vortices ! 0) close_vortices
         [1 / 20, 0, 1 / 20] = (10 / pi, 0)
   \<and> 10 / pi \<noteq> 0"
  using close_vortex_velocity
  by (simp add: degenerate_constants_def close_vortices_def vortex_at_def vortex_separation_def
      image_contribution_def calculateVortexRadiiIndex_def signed_divide_int_def Let_def)

section \<open>The displacement of the working table\<close>

text \<open>
  Claim C2 says that the task of a vortex displaces the y component of each of its entries
  by \<open>yVel * timestep\<close>. The task of vortex 0 in stage 3, with time step 1: the stage
  velocity is \<open>(10 / pi, 0)\<close>, and the y component of the entry of the pair \<open>(0, 1)\<close> is
  displaced by \<open>10 / pi\<close>, the x velocity, instead of by 0.
\<close>

theorem vortex_task_displaces_y_by_x_velocity:
  "calculateVel_vortex degenerate_constants 2 (0, 0) (rk_vortices close_state ! 0)
      (rk_vortices close_state) (rk_intermediateRadii close_state) = (10 / pi, 0)
   \<and> rk_workingRadii close_state ! 2 = 1 / 20
   \<and> rk_workingRadii (stepForwardVortexRK4 degenerate_constants 2 1 3 1 0 close_state) ! 1
       = 0 - 10 / pi * 1
   \<and> rk_workingRadii (stepForwardVortexRK4 degenerate_constants 2 1 3 1 0 close_state) ! 2
       = 1 / 20 - 10 / pi * 1
   \<and> rk_workingRadii (stepForwardVortexRK4 degenerate_constants 2 1 3 1 0 close_state) ! 2
       \<noteq> 1 / 20 - 0 * 1"
proof -
  have two: "[0..<2::nat] = [0, Suc 0]" by (simp add: numeral_2_eq_2)
  have vel: "calculateVel_vortex degenerate_constants 2 (0, 0) (rk_vortices close_state ! 0)
      (rk_vortices close_state) (rk_intermediateRadii close_state) = (10 / pi, 0)"
    using close_vortex_velocity by (simp add: close_state_def)
  have "rk_workingRadii (stepForwardVortexRK4 degenerate_constants 2 1 3 1 0 close_state)
      = fold (vortex_displace_body 1 close_vortices 0 (10 / pi) 0) [0, Suc 0] [1 / 20, 0, 1 / 20]"
    using vel by (simp add: stepForwardVortexRK4_def Let_def rk_displacement_def two close_state_def)
  then have "rk_workingRadii (stepForwardVortexRK4 degenerate_constants 2 1 3 1 0 close_state)
      = [sqrt ((- (10 / pi))\<^sup>2 + (1 / 20 - 10 / pi)\<^sup>2), - (10 / pi), 1 / 20 - 10 / pi]"
    by (simp add: vortex_displace_body_def close_vortices_def vortex_at_def Let_def
        calculateVortexRadiiIndex_def signed_divide_int_def)
  then show ?thesis using vel by (simp add: close_state_def)
qed

section \<open>Deleting a vortex\<close>

lemma delete_line_vortexRadii:
  "fst (snd (deleteVortex example_constants 5 (line_vortices ! 1) line_vortexRadii line_vortices
          line_tracerRadii))
     = [3, 3, 0,  4, 4, 0,  2, 2, 0,  15, 15, 0,  12, 12, 0,  8, 8, 0,
        15, 15, 0,  14, 14, 0,  12, 12, 0,  8, 8, 0,  0, 0, 0,  0, 0, 0,  0, 0, 0,
        0, 0, 0,  0, 0, 0]"
  by (simp add: deleteVortex_def Let_def line_vortices_def vortex_at_def delete_row_body_def
      calculateVortexRadiiIndex_def signed_divide_int_def memmove_def line_vortexRadii_def
      upt_rec [of _ "numeral _"])

lemma delete_line_tracerRadii:
  "snd (snd (snd (deleteVortex example_constants 5 (line_vortices ! 1) line_vortexRadii
          line_vortices line_tracerRadii)))
     = [1, 1, 0,  2, 0, 4,  4, 0, 8,  8, 0, 16,  16, 0, 0,  0, 0, 0]"
  by (simp add: deleteVortex_def Let_def line_vortices_def vortex_at_def delete_tracer_body_def
      calculateTracerRadiiIndex_def memmove_def line_tracerRadii_def example_constants_def)

lemma delete_line_vortices:
  "fst (deleteVortex example_constants 5 (line_vortices ! 1) line_vortexRadii
          line_vortices line_tracerRadii) = 4
   \<and> fst (snd (snd (deleteVortex example_constants 5 (line_vortices ! 1) line_vortexRadii
          line_vortices line_tracerRadii)))
     = [vortex_at 0 (0, 0) 1, (vortex_at 2 (3, 0) 1)\<lparr>vIndex := 1\<rparr>,
        (vortex_at 3 (7, 0) 1)\<lparr>vIndex := 2\<rparr>, (vortex_at 4 (15, 0) 1)\<lparr>vIndex := 3\<rparr>,
        vortex_at 4 (15, 0) 1, vortex_at 0 (0, 0) 1]"
  by (simp add: deleteVortex_def Let_def line_vortices_def vortex_at_def memmove_def
      decrement_vIndex_def upt_rec [of _ "numeral _"])


text \<open>
  Claim C3 says that after \<open>deleteVortex\<close> every surviving pair has the entry it had before.
  Five vortices on a line and one tracer, vortex 1 deleted: the vortices at the new
  positions 0 and 2 are the old vortices 0 and 3, whose entry was \<open>(7, 7, 0)\<close>; the table
  now holds \<open>(4, 4, 0)\<close> for them, the old entry of the pair \<open>(2, 3)\<close>. In the tracer table
  the entry of the tracer and the vortex at the new position 1 (the old vortex 2, entry
  \<open>(4, 4, 0)\<close>) is \<open>(2, 0, 4)\<close>: the row was moved by one double, not by one entry.
\<close>

theorem deleteVortex_misplaces_entries:
  "entry (fst (snd (deleteVortex example_constants 5 (line_vortices ! 1) line_vortexRadii
             line_vortices line_tracerRadii))) (tri 2 + 0) = (4, 4, 0)
   \<and> entry line_vortexRadii (tri 3 + 0) = (7, 7, 0)
   \<and> entry line_vortexRadii (tri 3 + 2) = (4, 4, 0)
   \<and> entry (snd (snd (snd (deleteVortex example_constants 5 (line_vortices ! 1) line_vortexRadii
             line_vortices line_tracerRadii)))) 1 = (2, 0, 4)
   \<and> entry line_tracerRadii 2 = (4, 4, 0)"
  unfolding delete_line_vortexRadii delete_line_tracerRadii
  by (simp add: entry_def tri_def line_vortexRadii_def line_tracerRadii_def)

section \<open>The vortex population\<close>

lemma resample_returns:
  assumes "\<not> \<bar>fst (normal sigma (((\<lambda>g. snd (normal sigma g)) ^^ n) g))\<bar> < minIntensity"
  shows "\<exists>x g'. resample_intensity normal sigma g = Some (x, g') \<and> \<not> \<bar>x\<bar> < minIntensity"
  using assms
proof (induction n arbitrary: g)
  case 0
  then show ?case
    by (subst resample_intensity.simps) (auto split: prod.splits)
next
  case (Suc n)
  obtain x g' where d: "normal sigma g = (x, g')" by (cases "normal sigma g")
  show ?case
  proof (cases "\<bar>x\<bar> < minIntensity")
    case True
    have "\<not> \<bar>fst (normal sigma (((\<lambda>g. snd (normal sigma g)) ^^ n) g'))\<bar> < minIntensity"
      using Suc.prems d by (simp add: funpow_Suc_right del: funpow.simps)
    from Suc.IH [OF this] obtain y h where
      "resample_intensity normal sigma g' = Some (y, h)" "\<not> \<bar>y\<bar> < minIntensity" by blast
    then show ?thesis using d True by (subst resample_intensity.simps) simp
  next
    case False
    then show ?thesis using d by (subst resample_intensity.simps) simp
  qed
qed

lemma productive_resample:
  "productive R sigma \<Longrightarrow>
   \<exists>x g'. resample_intensity (generateNormalRand R) sigma g = Some (x, g') \<and> \<not> \<bar>x\<bar> < minIntensity"
  unfolding productive_def using resample_returns [of "generateNormalRand R" sigma _ g] by blast

lemma randomizeVortex_returns:
  assumes "productive R (VORTEX_INTENSITY_SIGMA K)"
  shows "\<exists>p gamma g. randomizeVortex K R i w =
           Some (w\<lparr>w_nextVortID := w_nextVortID w + 1, w_lastX := g,
                   w_vorts := (w_vorts w)[i := (w_vorts w ! i)
                      \<lparr>position := p, velocity := (0, 0), vID := w_nextVortID w,
                       intensity := gamma, initStep := w_currentTimestep w\<rparr>]\<rparr>)
         \<and> \<not> \<bar>gamma\<bar> < minIntensity"
proof -
  obtain x g1 where d1: "generateUniformRandInRange R 0 (DOMAIN_SIZE_X K) (w_lastX w) = (x, g1)"
    by (cases "generateUniformRandInRange R 0 (DOMAIN_SIZE_X K) (w_lastX w)")
  obtain y g2 where d2: "generateUniformRandInRange R 0 (DOMAIN_SIZE_Y K) g1 = (y, g2)"
    by (cases "generateUniformRandInRange R 0 (DOMAIN_SIZE_Y K) g1")
  obtain z g3 where d3: "generateNormalRand R (VORTEX_INTENSITY_SIGMA K) g2 = (z, g3)"
    by (cases "generateNormalRand R (VORTEX_INTENSITY_SIGMA K) g2")
  from productive_resample [OF assms, of g3] obtain gamma g4 where
    d4: "resample_intensity (generateNormalRand R) (VORTEX_INTENSITY_SIGMA K) g3 = Some (gamma, g4)"
    and ok: "\<not> \<bar>gamma\<bar> < minIntensity" by blast
  have "randomizeVortex K R i w =
           Some (w\<lparr>w_nextVortID := w_nextVortID w + 1, w_lastX := g4,
                   w_vorts := (w_vorts w)[i := (w_vorts w ! i)
                      \<lparr>position := (x, y), velocity := (0, 0), vID := w_nextVortID w,
                       intensity := gamma, initStep := w_currentTimestep w\<rparr>]\<rparr>)"
    by (simp add: randomizeVortex_def d1 d2 d3 d4)
  with ok show ?thesis by blast
qed

lemma spawnVortex_returns:
  assumes "productive R (VORTEX_INTENSITY_SIGMA K)"
  shows "\<exists>p gamma g. spawnVortex K R w =
           Some (w\<lparr>w_numDriverVorts := w_numDriverVorts w + 1,
                   w_nextVortID := w_nextVortID w + 1, w_lastX := g,
                   w_vorts := (w_vorts w)[nat (w_numDriverVorts w) :=
                      (w_vorts w ! nat (w_numDriverVorts w))
                      \<lparr>vIndex := w_numDriverVorts w, position := p, velocity := (0, 0),
                       vID := w_nextVortID w, intensity := gamma,
                       initStep := w_currentTimestep w\<rparr>]\<rparr>)
         \<and> \<not> \<bar>gamma\<bar> < minIntensity"
proof -
  let ?n = "nat (w_numDriverVorts w)"
  let ?w1 = "w\<lparr>w_numDriverVorts := w_numDriverVorts w + 1,
                 w_vorts := (w_vorts w)[?n := (w_vorts w ! ?n)\<lparr>vIndex := w_numDriverVorts w\<rparr>]\<rparr>"
  from randomizeVortex_returns [OF assms, of ?n ?w1] obtain p gamma g where
    r: "randomizeVortex K R ?n ?w1 =
           Some (?w1\<lparr>w_nextVortID := w_nextVortID ?w1 + 1, w_lastX := g,
                   w_vorts := (w_vorts ?w1)[?n := (w_vorts ?w1 ! ?n)
                      \<lparr>position := p, velocity := (0, 0), vID := w_nextVortID ?w1,
                       intensity := gamma, initStep := w_currentTimestep ?w1\<rparr>]\<rparr>)"
    and ok: "\<not> \<bar>gamma\<bar> < minIntensity" by blast
  have "spawnVortex K R w =
           Some (w\<lparr>w_numDriverVorts := w_numDriverVorts w + 1,
                   w_nextVortID := w_nextVortID w + 1, w_lastX := g,
                   w_vorts := (w_vorts w)[?n := (w_vorts w ! ?n)
                      \<lparr>vIndex := w_numDriverVorts w, position := p, velocity := (0, 0),
                       vID := w_nextVortID w, intensity := gamma,
                       initStep := w_currentTimestep w\<rparr>]\<rparr>)"
  proof (cases "?n < length (w_vorts w)")
    case True
    then show ?thesis unfolding spawnVortex_def Let_def r by simp
  next
    case False
    then show ?thesis unfolding spawnVortex_def Let_def r by (simp add: list_update_beyond)
  qed
  with ok show ?thesis by blast
qed

lemma spawn_loop_returns:
  assumes "productive R (VORTEX_INTENSITY_SIGMA K)"
    and "0 \<le> w_numDriverVorts w" "nat (w_numDriverVorts w) + k \<le> length (w_vorts w)"
  shows "\<exists>w'. spawn_loop K R (int k) w = Some w'
         \<and> w_numDriverVorts w' = w_numDriverVorts w + int k
         \<and> w_nextVortID w' = w_nextVortID w + int k
         \<and> length (w_vorts w') = length (w_vorts w)
         \<and> (\<forall>i < nat (w_numDriverVorts w). w_vorts w' ! i = w_vorts w ! i)
         \<and> (\<forall>j < k. vIndex (w_vorts w' ! (nat (w_numDriverVorts w) + j)) = w_numDriverVorts w + int j
                   \<and> vID (w_vorts w' ! (nat (w_numDriverVorts w) + j)) = w_nextVortID w + int j
                   \<and> \<not> \<bar>intensity (w_vorts w' ! (nat (w_numDriverVorts w) + j))\<bar> < minIntensity)"
  using assms(2,3)
proof (induction k arbitrary: w)
  case 0
  then show ?case by (subst spawn_loop.simps) simp
next
  case (Suc k)
  let ?n = "nat (w_numDriverVorts w)"
  from spawnVortex_returns [OF assms(1), of w] obtain p gamma g where
    sp: "spawnVortex K R w =
           Some (w\<lparr>w_numDriverVorts := w_numDriverVorts w + 1,
                   w_nextVortID := w_nextVortID w + 1, w_lastX := g,
                   w_vorts := (w_vorts w)[?n := (w_vorts w ! ?n)
                      \<lparr>vIndex := w_numDriverVorts w, position := p, velocity := (0, 0),
                       vID := w_nextVortID w, intensity := gamma,
                       initStep := w_currentTimestep w\<rparr>]\<rparr>)" (is "_ = Some ?w1")
    and ok: "\<not> \<bar>gamma\<bar> < minIntensity" by blast
  have n1: "nat (w_numDriverVorts ?w1) = Suc ?n" using Suc.prems by simp
  have "0 \<le> w_numDriverVorts ?w1" "nat (w_numDriverVorts ?w1) + k \<le> length (w_vorts ?w1)"
    using Suc.prems by simp_all
  from Suc.IH [OF this] obtain w' where
    loop: "spawn_loop K R (int k) ?w1 = Some w'"
    and cnt: "w_numDriverVorts w' = w_numDriverVorts ?w1 + int k"
    and ids: "w_nextVortID w' = w_nextVortID ?w1 + int k"
    and len: "length (w_vorts w') = length (w_vorts ?w1)"
    and old: "\<forall>i < nat (w_numDriverVorts ?w1). w_vorts w' ! i = w_vorts ?w1 ! i"
    and new: "\<forall>j < k. vIndex (w_vorts w' ! (nat (w_numDriverVorts ?w1) + j)) = w_numDriverVorts ?w1 + int j
                   \<and> vID (w_vorts w' ! (nat (w_numDriverVorts ?w1) + j)) = w_nextVortID ?w1 + int j
                   \<and> \<not> \<bar>intensity (w_vorts w' ! (nat (w_numDriverVorts ?w1) + j))\<bar> < minIntensity"
    by blast
  have run: "spawn_loop K R (int (Suc k)) w = Some w'"
    using sp loop by (subst spawn_loop.simps) simp
  have first: "w_vorts w' ! ?n = w_vorts ?w1 ! ?n" using old n1 by simp
  have inrange: "?n < length (w_vorts w)" using Suc.prems by simp
  have slot: "\<forall>j < Suc k. vIndex (w_vorts w' ! (?n + j)) = w_numDriverVorts w + int j
                   \<and> vID (w_vorts w' ! (?n + j)) = w_nextVortID w + int j
                   \<and> \<not> \<bar>intensity (w_vorts w' ! (?n + j))\<bar> < minIntensity"
  proof (intro allI impI)
    fix j assume j: "j < Suc k"
    show "vIndex (w_vorts w' ! (?n + j)) = w_numDriverVorts w + int j
                   \<and> vID (w_vorts w' ! (?n + j)) = w_nextVortID w + int j
                   \<and> \<not> \<bar>intensity (w_vorts w' ! (?n + j))\<bar> < minIntensity"
    proof (cases j)
      case 0
      then show ?thesis using first inrange ok by simp
    next
      case (Suc j')
      then have "j' < k" using j by simp
      with new n1 Suc show ?thesis by simp
    qed
  qed
  have keep: "\<forall>i < ?n. w_vorts w' ! i = w_vorts w ! i"
    using old n1 by simp
  show ?case using run cnt ids len keep slot by simp
qed

lemma productive_constant_rng: "productive constant_rng 1"
  unfolding productive_def
proof
  fix g :: nat
  have "\<not> \<bar>fst (generateNormalRand constant_rng 1
          (((\<lambda>g. snd (generateNormalRand constant_rng 1 g)) ^^ 0) g))\<bar> < minIntensity"
    by (simp add: constant_rng_def minIntensity_def)
  then show "\<exists>n. \<not> \<bar>fst (generateNormalRand constant_rng 1
          (((\<lambda>g. snd (generateNormalRand constant_rng 1 g)) ^^ n) g))\<bar> < minIntensity" ..
qed

text \<open>
  Claim C8. With a productive generator and capacity for them, spawning
  \<open>numVortsToSpawn\<close> vortices returns; the count has grown by exactly that number, the new
  vortices are at the end, every vortex up to the new count has its array position as
  \<open>vIndex\<close>, the old vortices are untouched, the new vortices have the consecutive
  identifiers from \<open>nextVortID\<close> on, and no new intensity is below \<open>minIntensity\<close> in
  absolute value or zero.
\<close>

theorem spawnVorts_population:
  assumes "productive R (VORTEX_INTENSITY_SIGMA K)"
    and "0 \<le> numVortsToSpawn" "0 \<le> w_numDriverVorts w"
    and "w_numDriverVorts w + numVortsToSpawn < w_vortsAllocated w"
    and "nat (w_vortsAllocated w) \<le> length (w_vorts w)"
    and "\<forall>i < nat (w_numDriverVorts w). vIndex (w_vorts w ! i) = int i"
  shows "\<exists>w'. spawnVorts K R A numVortsToSpawn w = Some (Inr w')
         \<and> w_numDriverVorts w' = w_numDriverVorts w + numVortsToSpawn
         \<and> w_nextVortID w' = w_nextVortID w + numVortsToSpawn
         \<and> (\<forall>i < nat (w_numDriverVorts w'). vIndex (w_vorts w' ! i) = int i)
         \<and> (\<forall>i < nat (w_numDriverVorts w). w_vorts w' ! i = w_vorts w ! i)
         \<and> (\<forall>j < nat numVortsToSpawn.
               vID (w_vorts w' ! (nat (w_numDriverVorts w) + j)) = w_nextVortID w + int j
             \<and> \<not> \<bar>intensity (w_vorts w' ! (nat (w_numDriverVorts w) + j))\<bar> < minIntensity
             \<and> intensity (w_vorts w' ! (nat (w_numDriverVorts w) + j)) \<noteq> 0)"
proof -
  define k where "k = nat numVortsToSpawn"
  define n where "n = nat (w_numDriverVorts w)"
  have k: "numVortsToSpawn = int k" and n: "w_numDriverVorts w = int n"
    using assms(2,3) by (simp_all add: k_def n_def)
  have room: "nat (w_numDriverVorts w) + k \<le> length (w_vorts w)"
    using assms(2-5) by (simp add: k_def)
  from spawn_loop_returns [OF assms(1,3) room] obtain w' where
    loop: "spawn_loop K R (int k) w = Some w'"
    and cnt: "w_numDriverVorts w' = w_numDriverVorts w + int k"
    and ids: "w_nextVortID w' = w_nextVortID w + int k"
    and old: "\<forall>i < n. w_vorts w' ! i = w_vorts w ! i"
    and new: "\<forall>j < k. vIndex (w_vorts w' ! (n + j)) = w_numDriverVorts w + int j
                   \<and> vID (w_vorts w' ! (n + j)) = w_nextVortID w + int j
                   \<and> \<not> \<bar>intensity (w_vorts w' ! (n + j))\<bar> < minIntensity"
    unfolding n_def by blast
  have run: "spawnVorts K R A numVortsToSpawn w = Some (Inr w')"
    using assms(4) loop by (simp add: spawnVorts_def k)
  have dense: "\<forall>i < nat (w_numDriverVorts w'). vIndex (w_vorts w' ! i) = int i"
  proof (intro allI impI)
    fix i assume "i < nat (w_numDriverVorts w')"
    then have i: "i < n + k" using cnt n by simp
    show "vIndex (w_vorts w' ! i) = int i"
    proof (cases "i < n")
      case True
      then show ?thesis using old assms(6) by (simp add: n_def)
    next
      case False
      then have "i - n < k" "n + (i - n) = i" using i by simp_all
      then show ?thesis using new n by (metis of_nat_add)
    qed
  qed
  have floor: "\<forall>j < k. vID (w_vorts w' ! (n + j)) = w_nextVortID w + int j
             \<and> \<not> \<bar>intensity (w_vorts w' ! (n + j))\<bar> < minIntensity
             \<and> intensity (w_vorts w' ! (n + j)) \<noteq> 0"
    using new by (auto simp: minIntensity_def)
  show ?thesis
    using run cnt ids dense old floor unfolding k n_def [symmetric] k_def [symmetric] by auto
qed

theorem spawnVorts_population_witness:
  "\<exists>w'. spawnVorts example_constants constant_rng example_allocator 2 example_world = Some (Inr w')
        \<and> w_numDriverVorts w' = 4
        \<and> w_nextVortID w' = 4
        \<and> vIndex (w_vorts w' ! 2) = 2 \<and> vIndex (w_vorts w' ! 3) = 3
        \<and> vID (w_vorts w' ! 2) = 2 \<and> vID (w_vorts w' ! 3) = 3
        \<and> \<not> \<bar>intensity (w_vorts w' ! 3)\<bar> < minIntensity"
proof -
  have p: "productive constant_rng (VORTEX_INTENSITY_SIGMA example_constants)"
    using productive_constant_rng by (simp add: example_constants_def)
  have inv: "\<forall>i < nat (w_numDriverVorts example_world). vIndex (w_vorts example_world ! i) = int i"
    by (simp add: example_world_def example_vortices_def vortex_at_def numeral_2_eq_2 less_Suc_eq)
  from spawnVorts_population [OF p _ _ _ _ inv, of 2 example_allocator]
  obtain w' where
    "spawnVorts example_constants constant_rng example_allocator 2 example_world = Some (Inr w')"
    "w_numDriverVorts w' = w_numDriverVorts example_world + 2"
    "w_nextVortID w' = w_nextVortID example_world + 2"
    "\<forall>i < nat (w_numDriverVorts w'). vIndex (w_vorts w' ! i) = int i"
    "\<forall>j < nat 2. vID (w_vorts w' ! (nat (w_numDriverVorts example_world) + j))
                 = w_nextVortID example_world + int j
       \<and> \<not> \<bar>intensity (w_vorts w' ! (nat (w_numDriverVorts example_world) + j))\<bar> < minIntensity
       \<and> intensity (w_vorts w' ! (nat (w_numDriverVorts example_world) + j)) \<noteq> 0"
    by (auto simp: example_world_def example_vortices_def)
  then show ?thesis
    by (intro exI [of _ w']) (simp add: example_world_def numeral_2_eq_2 numeral_3_eq_3)
qed

subsection \<open>The vortex array after a deletion\<close>

lemma length_memmove:
  "src + n \<le> length xs \<Longrightarrow> dest + n \<le> length xs \<Longrightarrow> length (memmove xs dest src n) = length xs"
  by (simp add: memmove_def)

lemma memmove_nth:
  assumes "src + n \<le> length xs" "dest + n \<le> length xs" "i < length xs"
  shows "memmove xs dest src n ! i
           = (if dest \<le> i \<and> i < dest + n then xs ! (src + (i - dest)) else xs ! i)"
proof -
  consider "i < dest" | "dest \<le> i" "i < dest + n" | "dest + n \<le> i" by linarith
  then show ?thesis
  proof cases
    case 1
    then show ?thesis using assms by (simp add: memmove_def nth_append)
  next
    case 2
    then have rel: "i - dest < n" by linarith
    have l1: "length (take dest xs) = dest" using assms by simp
    have l2: "length (take n (drop src xs)) = n" using assms by simp
    have "memmove xs dest src n ! i = (take n (drop src xs) @ drop (dest + n) xs) ! (i - dest)"
      unfolding memmove_def using 2 l1 by (simp add: nth_append)
    also have "\<dots> = take n (drop src xs) ! (i - dest)"
      using rel l2 by (simp add: nth_append)
    also have "\<dots> = xs ! (src + (i - dest))" using rel assms by simp
    finally show ?thesis using 2 by simp
  next
    case 3
    then have rel: "\<not> i - dest < n" by linarith
    have l1: "length (take dest xs) = dest" using assms by simp
    have l2: "length (take n (drop src xs)) = n" using assms by simp
    have "memmove xs dest src n ! i = (take n (drop src xs) @ drop (dest + n) xs) ! (i - dest)"
      unfolding memmove_def using 3 l1 by (simp add: nth_append)
    also have "\<dots> = drop (dest + n) xs ! (i - dest - n)"
      using rel l2 by (simp add: nth_append)
    also have "\<dots> = xs ! i" using 3 assms by simp
    finally show ?thesis using 3 by simp
  qed
qed

lemma length_fold_update [simp]:
  "length (fold (\<lambda>i ys. ys[i := f (ys ! i)]) is xs) = length xs"
  by (induction "is" arbitrary: xs) simp_all

lemma fold_update_range_nth:
  "i < length xs \<Longrightarrow>
   fold (\<lambda>i ys. ys[i := f (ys ! i)]) [d..<m] xs ! i = (if d \<le> i \<and> i < m then f (xs ! i) else xs ! i)"
proof (induction m)
  case 0
  then show ?case by simp
next
  case (Suc m)
  then show ?case by (cases "d \<le> m") (auto simp: nth_list_update less_Suc_eq)
qed

lemma deleteVortex_vorts:
  assumes "vIndex vort = int d" "d < nat N" "nat N \<le> length vorts"
  shows "fst (deleteVortex K N vort vr vorts tr) = N - 1"
    and "i < d \<Longrightarrow> fst (snd (snd (deleteVortex K N vort vr vorts tr))) ! i = vorts ! i"
    and "d \<le> i \<Longrightarrow> i < nat N - 1 \<Longrightarrow>
         fst (snd (snd (deleteVortex K N vort vr vorts tr))) ! i = decrement_vIndex (vorts ! (i + 1))"
    and "length (fst (snd (snd (deleteVortex K N vort vr vorts tr)))) = length vorts"
proof -
  let ?moved = "memmove vorts d (d + 1) (nat N - d - 1)"
  have eq: "fst (snd (snd (deleteVortex K N vort vr vorts tr)))
      = fold (\<lambda>i vs. vs[i := decrement_vIndex (vs ! i)]) [d..<nat N - 1] ?moved"
    using assms by (simp add: deleteVortex_def Let_def nat_diff_distrib nat_add_distrib)
  have len: "length ?moved = length vorts" using assms by (simp add: length_memmove)
  show "fst (deleteVortex K N vort vr vorts tr) = N - 1" by (simp add: deleteVortex_def Let_def)
  show "length (fst (snd (snd (deleteVortex K N vort vr vorts tr)))) = length vorts"
    unfolding eq using len by simp
  show "fst (snd (snd (deleteVortex K N vort vr vorts tr))) ! i = vorts ! i" if "i < d"
    unfolding eq using that assms len by (simp add: fold_update_range_nth memmove_nth)
  show "fst (snd (snd (deleteVortex K N vort vr vorts tr))) ! i = decrement_vIndex (vorts ! (i + 1))"
    if "d \<le> i" "i < nat N - 1"
    unfolding eq using that assms len by (simp add: fold_update_range_nth memmove_nth)
qed

subsection \<open>Merging\<close>

lemma trunc_unit: "trunc 1 = 1" "trunc (- 1) = - 1"
proof -
  show "trunc 1 = 1" by (simp add: trunc_def)
  have "\<lceil>real_of_int (- 1)\<rceil> = - 1" by (rule ceiling_of_int)
  then show "trunc (- 1) = - 1" by (simp add: trunc_def)
qed

lemma mergeIntensities_formula:
  assumes "int1 \<noteq> 0" "int2 \<noteq> 0"
  shows "mergeIntensities int1 int2
           = sgn (int1 + int2) * sqrt \<bar>sgn int1 * int1\<^sup>2 + sgn int2 * int2\<^sup>2\<bar>"
proof -
  have s1: "real_of_int (trunc (int1 / \<bar>int1\<bar>)) = sgn int1"
    using assms(1) by (cases "int1 < 0") (simp_all add: trunc_unit sgn_if)
  have s2: "real_of_int (trunc (int2 / \<bar>int2\<bar>)) = sgn int2"
    using assms(2) by (cases "int2 < 0") (simp_all add: trunc_unit sgn_if)
  consider "int1 + int2 > 0" | "int1 + int2 < 0" | "int1 + int2 = 0" by linarith
  then show ?thesis
  proof cases
    case 1
    then show ?thesis by (simp add: mergeIntensities_def Let_def s1 s2)
  next
    case 2
    then show ?thesis by (simp add: mergeIntensities_def Let_def s1 s2)
  next
    case 3
    then have "int2 = - int1" by simp
    then show ?thesis using assms
      by (cases "int1 < 0") (simp_all add: mergeIntensities_def Let_def trunc_unit)
  qed
qed

text \<open>
  Claim C7. When a merge fires on the pair at array positions \<open>vortIndex1 < vortIndex2\<close>
  (both intensities non-zero, the generator productive), it returns; the first vortex gets
  the average of the two positions weighted by the absolute intensities and the intensity
  \<open>sgn (int1 + int2) * sqrt \<bar>sgn int1 * int1\<^sup>2 + sgn int2 * int2\<^sup>2\<bar>\<close>; if spawns are left,
  one is used up and the second vortex is made a new vortex in place (same \<open>vIndex\<close>, the
  next identifier, an intensity not below the floor, velocity zero); otherwise it is
  deleted: the count decreases by one and the vortices behind it move down.
\<close>

theorem merge_pair_result:
  assumes "productive R (VORTEX_INTENSITY_SIGMA K)"
    and "vortIndex1 < vortIndex2" "vortIndex2 < nat (w_numDriverVorts w)"
    and "nat (w_numDriverVorts w) \<le> length (w_vorts w)"
    and "vIndex (w_vorts w ! vortIndex2) = int vortIndex2"
    and "intensity (w_vorts w ! vortIndex1) \<noteq> 0" "intensity (w_vorts w ! vortIndex2) \<noteq> 0"
    and "int1 = intensity (w_vorts w ! vortIndex1)" "int2 = intensity (w_vorts w ! vortIndex2)"
    and "p1 = position (w_vorts w ! vortIndex1)" "p2 = position (w_vorts w ! vortIndex2)"
  shows "\<exists>w' totalMerges'.
           merge_pair K R vortIndex1 vortIndex2 (w, spawnsLeft, totalMerges)
             = Some (w', (if spawnsLeft \<noteq> 0 then spawnsLeft - 1 else spawnsLeft), totalMerges')
         \<and> position (w_vorts w' ! vortIndex1)
             = ((fst p1 * \<bar>int1\<bar> + fst p2 * \<bar>int2\<bar>) / (\<bar>int1\<bar> + \<bar>int2\<bar>),
                (snd p1 * \<bar>int1\<bar> + snd p2 * \<bar>int2\<bar>) / (\<bar>int1\<bar> + \<bar>int2\<bar>))
         \<and> intensity (w_vorts w' ! vortIndex1)
             = sgn (int1 + int2) * sqrt \<bar>sgn int1 * int1\<^sup>2 + sgn int2 * int2\<^sup>2\<bar>
         \<and> (if spawnsLeft \<noteq> 0
            then w_numDriverVorts w' = w_numDriverVorts w
               \<and> vIndex (w_vorts w' ! vortIndex2) = int vortIndex2
               \<and> vID (w_vorts w' ! vortIndex2) = w_nextVortID w
               \<and> w_nextVortID w' = w_nextVortID w + 1
               \<and> \<not> \<bar>intensity (w_vorts w' ! vortIndex2)\<bar> < minIntensity
               \<and> velocity (w_vorts w' ! vortIndex2) = (0, 0)
               \<and> initStep (w_vorts w' ! vortIndex2) = w_currentTimestep w
            else w_numDriverVorts w' = w_numDriverVorts w - 1
               \<and> (\<forall>i. vortIndex2 \<le> i \<and> i < nat (w_numDriverVorts w) - 1 \<longrightarrow>
                      w_vorts w' ! i = decrement_vIndex (w_vorts w ! (i + 1))))"
proof -
  define newPos where "newPos = ((fst p1 * \<bar>int1\<bar> + fst p2 * \<bar>int2\<bar>) / (\<bar>int1\<bar> + \<bar>int2\<bar>),
                (snd p1 * \<bar>int1\<bar> + snd p2 * \<bar>int2\<bar>) / (\<bar>int1\<bar> + \<bar>int2\<bar>))"
  define newInt where "newInt = mergeIntensities int1 int2"
  define vort1' where "vort1' = (w_vorts w ! vortIndex1)\<lparr>position := newPos, intensity := newInt\<rparr>"
  define w1 where "w1 = w\<lparr>w_vorts := (w_vorts w)[vortIndex1 := vort1']\<rparr>"
  have newInt: "newInt = sgn (int1 + int2) * sqrt \<bar>sgn int1 * int1\<^sup>2 + sgn int2 * int2\<^sup>2\<bar>"
    unfolding newInt_def using assms(6-9) by (simp add: mergeIntensities_formula)
  have in1: "vortIndex1 < length (w_vorts w)" and in2: "vortIndex2 < length (w_vorts w)"
    using assms(2-4) by simp_all
  have v1: "w_vorts w1 ! vortIndex1 = vort1'" using in1 by (simp add: w1_def)
  have v2: "w_vorts w1 ! vortIndex2 = w_vorts w ! vortIndex2" using assms(2) by (simp add: w1_def)
  show ?thesis
  proof (cases "spawnsLeft \<noteq> 0")
    case True
    from randomizeVortex_returns [OF assms(1), of vortIndex2 w1] obtain p gamma g where
      r: "randomizeVortex K R vortIndex2 w1 =
           Some (w1\<lparr>w_nextVortID := w_nextVortID w1 + 1, w_lastX := g,
                   w_vorts := (w_vorts w1)[vortIndex2 := (w_vorts w1 ! vortIndex2)
                      \<lparr>position := p, velocity := (0, 0), vID := w_nextVortID w1,
                       intensity := gamma, initStep := w_currentTimestep w1\<rparr>]\<rparr>)" (is "_ = Some ?w2")
      and ok: "\<not> \<bar>gamma\<bar> < minIntensity" by blast
    obtain vr tr where u: "updateRadii_pythagorean (w_numDriverVorts ?w2) (w_vortexRadii ?w2)
        (w_vorts ?w2) (w_tracerRads ?w2) (w_tracers ?w2) (NUM_TRACERS K) = (vr, tr)"
      by (cases "updateRadii_pythagorean (w_numDriverVorts ?w2) (w_vortexRadii ?w2)
        (w_vorts ?w2) (w_tracerRads ?w2) (w_tracers ?w2) (NUM_TRACERS K)")
    let ?w' = "?w2\<lparr>w_vortexRadii := vr, w_tracerRads := tr\<rparr>"
    have run: "merge_pair K R vortIndex1 vortIndex2 (w, spawnsLeft, totalMerges)
        = Some (?w', spawnsLeft - 1, map_option (\<lambda>n. n + 1) totalMerges)"
      using True r u
      by (simp add: merge_pair_def Let_def assms(8-11) newPos_def newInt_def vort1'_def w1_def)
    have a: "w_vorts ?w' ! vortIndex1 = vort1'"
      using assms(2) v1 by simp
    have b: "w_vorts ?w' ! vortIndex2 = (w_vorts w ! vortIndex2)
                      \<lparr>position := p, velocity := (0, 0), vID := w_nextVortID w,
                       intensity := gamma, initStep := w_currentTimestep w\<rparr>"
      using in2 v2 by (simp add: w1_def)
    have c: "w_numDriverVorts ?w' = w_numDriverVorts w" "w_nextVortID ?w' = w_nextVortID w + 1"
      by (simp_all add: w1_def)
    have "merge_pair K R vortIndex1 vortIndex2 (w, spawnsLeft, totalMerges)
             = Some (?w', spawnsLeft - 1, map_option (\<lambda>n. n + 1) totalMerges)
         \<and> position (w_vorts ?w' ! vortIndex1) = newPos
         \<and> intensity (w_vorts ?w' ! vortIndex1) = newInt
         \<and> (w_numDriverVorts ?w' = w_numDriverVorts w
               \<and> vIndex (w_vorts ?w' ! vortIndex2) = int vortIndex2
               \<and> vID (w_vorts ?w' ! vortIndex2) = w_nextVortID w
               \<and> w_nextVortID ?w' = w_nextVortID w + 1
               \<and> \<not> \<bar>intensity (w_vorts ?w' ! vortIndex2)\<bar> < minIntensity
               \<and> velocity (w_vorts ?w' ! vortIndex2) = (0, 0)
               \<and> initStep (w_vorts ?w' ! vortIndex2) = w_currentTimestep w)"
      unfolding a b c using run ok assms(5) by (simp add: vort1'_def)
    then show ?thesis
      unfolding if_P [OF True] newPos_def [symmetric] newInt [symmetric] by blast
  next
    case False
    obtain n dvr dvs dtr where d: "deleteVortex K (w_numDriverVorts w1) (w_vorts w1 ! vortIndex2)
        (w_vortexRadii w1) (w_vorts w1) (w_tracerRads w1) = (n, dvr, dvs, dtr)"
      by (cases "deleteVortex K (w_numDriverVorts w1) (w_vorts w1 ! vortIndex2)
        (w_vortexRadii w1) (w_vorts w1) (w_tracerRads w1)") auto
    have pre: "vIndex (w_vorts w1 ! vortIndex2) = int vortIndex2"
      "vortIndex2 < nat (w_numDriverVorts w1)" "nat (w_numDriverVorts w1) \<le> length (w_vorts w1)"
      using assms(3-5) v2 by (simp_all add: w1_def)
    note dv = deleteVortex_vorts [OF pre, where K = K and vr = "w_vortexRadii w1"
        and tr = "w_tracerRads w1", unfolded d fst_conv snd_conv]
    let ?w2 = "w1\<lparr>w_numDriverVorts := n, w_vortexRadii := dvr, w_vorts := dvs, w_tracerRads := dtr\<rparr>"
    obtain vr tr where u: "updateRadii_pythagorean (w_numDriverVorts ?w2) (w_vortexRadii ?w2)
        (w_vorts ?w2) (w_tracerRads ?w2) (w_tracers ?w2) (NUM_TRACERS K) = (vr, tr)"
      by (cases "updateRadii_pythagorean (w_numDriverVorts ?w2) (w_vortexRadii ?w2)
        (w_vorts ?w2) (w_tracerRads ?w2) (w_tracers ?w2) (NUM_TRACERS K)")
    let ?w' = "?w2\<lparr>w_vortexRadii := vr, w_tracerRads := tr\<rparr>"
    have run: "merge_pair K R vortIndex1 vortIndex2 (w, spawnsLeft, totalMerges)
        = Some (?w', spawnsLeft, map_option (\<lambda>n. n + 1) totalMerges)"
      using False d u
      by (simp add: merge_pair_def Let_def assms(8-11) newPos_def newInt_def vort1'_def w1_def)
    have a: "w_vorts ?w' ! vortIndex1 = vort1'"
      using dv(2) [where i = vortIndex1] assms(2) v1 by simp
    have n: "n = w_numDriverVorts w - 1" using dv(1) by (simp add: w1_def)
    have shift: "\<forall>i. vortIndex2 \<le> i \<and> i < nat (w_numDriverVorts w) - 1 \<longrightarrow>
                      w_vorts ?w' ! i = decrement_vIndex (w_vorts w ! (i + 1))"
    proof (intro allI impI)
      fix i assume i: "vortIndex2 \<le> i \<and> i < nat (w_numDriverVorts w) - 1"
      then have "dvs ! i = decrement_vIndex (w_vorts w1 ! (i + 1))"
        using dv(3) [where i = i] by (simp add: w1_def)
      moreover have "w_vorts w1 ! (i + 1) = w_vorts w ! (i + 1)"
        using i assms(2) by (simp add: w1_def)
      ultimately show "w_vorts ?w' ! i = decrement_vIndex (w_vorts w ! (i + 1))" by simp
    qed
    have "merge_pair K R vortIndex1 vortIndex2 (w, spawnsLeft, totalMerges)
             = Some (?w', spawnsLeft, map_option (\<lambda>n. n + 1) totalMerges)
         \<and> position (w_vorts ?w' ! vortIndex1) = newPos
         \<and> intensity (w_vorts ?w' ! vortIndex1) = newInt
         \<and> (w_numDriverVorts ?w' = w_numDriverVorts w - 1
               \<and> (\<forall>i. vortIndex2 \<le> i \<and> i < nat (w_numDriverVorts w) - 1 \<longrightarrow>
                      w_vorts ?w' ! i = decrement_vIndex (w_vorts w ! (i + 1))))"
      unfolding a using run n shift by (simp add: vort1'_def)
    then show ?thesis
      unfolding if_not_P [OF False] newPos_def [symmetric] newInt [symmetric] by blast
  qed
qed

theorem merge_pair_result_witness:
  "\<exists>w' totalMerges'.
      merge_pair example_constants constant_rng 0 1 (merge_world, 1, Some 0)
        = Some (w', 0, totalMerges')
      \<and> position (w_vorts w' ! 0) = (19 / 7, 23 / 7)
      \<and> intensity (w_vorts w' ! 0) = sqrt 25
      \<and> w_numDriverVorts w' = 2
      \<and> vID (w_vorts w' ! 1) = 2
      \<and> \<not> \<bar>intensity (w_vorts w' ! 1)\<bar> < minIntensity"
proof -
  have p: "productive constant_rng (VORTEX_INTENSITY_SIGMA example_constants)"
    using productive_constant_rng by (simp add: example_constants_def)
  from merge_pair_result [of constant_rng example_constants 0 1 merge_world _ _ _ _ 1 "Some 0",
      OF p _ _ _ _ _ _ refl refl refl refl]
  obtain w' totalMerges' where
    "merge_pair example_constants constant_rng 0 1 (merge_world, 1, Some 0)
        = Some (w', 0, totalMerges')"
    "position (w_vorts w' ! 0) = (19 / 7, 23 / 7)"
    "intensity (w_vorts w' ! 0) = sqrt 25"
    "w_numDriverVorts w' = 2" "vID (w_vorts w' ! 1) = 2"
    "\<not> \<bar>intensity (w_vorts w' ! 1)\<bar> < minIntensity"
    by (auto simp: merge_world_def vortex_at_def)
  then show ?thesis by blast
qed

section \<open>The frame of a Runge-Kutta step\<close>

lemma fold_preserves: "(\<And>x s. P s \<Longrightarrow> P (f x s)) \<Longrightarrow> P s \<Longrightarrow> P (fold f xs s)"
  by (induction xs arbitrary: s) simp_all

lemma body_frame_refl [simp]: "body_frame b b"
  by (simp add: body_frame_def)

lemma body_frame_velocity [simp]: "body_frame b b' \<Longrightarrow> body_frame b (b'\<lparr>velocity := v\<rparr>)"
  by (simp add: body_frame_def) (metis (no_types) Body.surjective Body.update_convs(1,2))

lemma body_frame_iff: "body_frame b b' \<longleftrightarrow> Body.more b' = Body.more b"
proof
  assume "body_frame b b'"
  then have "b' = b\<lparr>position := position b', velocity := velocity b'\<rparr>" by (simp add: body_frame_def)
  then have "Body.more b' = Body.more (b\<lparr>position := position b', velocity := velocity b'\<rparr>)" by simp
  then show "Body.more b' = Body.more b" by simp
next
  assume "Body.more b' = Body.more b"
  then show "body_frame b b'" by (simp add: body_frame_def Body.equality)
qed

lemma body_frame_trans: "body_frame a b \<Longrightarrow> body_frame b c \<Longrightarrow> body_frame a c"
  by (simp add: body_frame_iff)

lemma body_frame_zero [simp]: "body_frame b (zero_velocity b)"
  by (simp add: body_frame_iff zero_velocity_def)

lemma body_frame_advance [simp]: "body_frame b (advance dt b)"
  by (simp add: body_frame_iff advance_def)

lemma frames_update_each:
  assumes "\<And>b. body_frame b (f b)"
  shows "list_all2 body_frame xs (update_each n f xs)"
  unfolding list_all2_conv_all_nth using assms by (simp add: update_each_nth)

lemma frames_trans:
  "list_all2 body_frame xs ys \<Longrightarrow> list_all2 body_frame ys zs \<Longrightarrow> list_all2 body_frame xs zs"
  by (rule list_all2_trans [of body_frame body_frame body_frame]) (auto intro: body_frame_trans)

lemma frames_velocity_update:
  assumes "list_all2 body_frame xs ys"
  shows "list_all2 body_frame xs (ys[i := (ys ! i)\<lparr>velocity := v\<rparr>])"
  unfolding list_all2_conv_all_nth
proof (intro conjI allI impI)
  show "length xs = length (ys[i := (ys ! i)\<lparr>velocity := v\<rparr>])"
    using assms by (simp add: list_all2_lengthD)
  fix j assume "j < length xs"
  then have "body_frame (xs ! j) (ys ! j)" using assms by (simp add: list_all2_conv_all_nth)
  then show "body_frame (xs ! j) (ys[i := (ys ! i)\<lparr>velocity := v\<rparr>] ! j)"
    by (cases "j = i"; cases "i < length ys") (simp_all add: body_frame_iff list_update_beyond)
qed

subsection \<open>What a tracer task leaves alone\<close>

lemma tracer_task_body_fields [simp]:
  "rk_vortices (tracer_task_body K N dt step base rb i s) = rk_vortices s"
  "rk_vortRadii (tracer_task_body K N dt step base rb i s) = rk_vortRadii s"
  "rk_tracerRadii (tracer_task_body K N dt step base rb i s) = rk_tracerRadii s"
  "rk_workingRadii (tracer_task_body K N dt step base rb i s) = rk_workingRadii s"
  "rk_intermediateRadii (tracer_task_body K N dt step base rb i s) = rk_intermediateRadii s"
  by (simp_all add: tracer_task_body_def Let_def)

lemma tracer_task_body_frames:
  "list_all2 body_frame xs (rk_tracers s) \<Longrightarrow>
   list_all2 body_frame xs (rk_tracers (tracer_task_body K N dt step base rb i s))"
  by (simp add: tracer_task_body_def Let_def frames_velocity_update)

lemma stepForwardTracerRK4_fixed:
  "rk_fixed s (stepForwardTracerRK4 K N dt step base n rb s)"
  unfolding stepForwardTracerRK4_def
  by (rule fold_preserves) (simp_all add: rk_fixed_def)

lemma stepForwardTracerRK4_fields [simp]:
  "rk_vortices (stepForwardTracerRK4 K N dt step base n rb s) = rk_vortices s"
  "rk_vortRadii (stepForwardTracerRK4 K N dt step base n rb s) = rk_vortRadii s"
  "rk_tracerRadii (stepForwardTracerRK4 K N dt step base n rb s) = rk_tracerRadii s"
  "rk_workingRadii (stepForwardTracerRK4 K N dt step base n rb s) = rk_workingRadii s"
  "rk_intermediateRadii (stepForwardTracerRK4 K N dt step base n rb s) = rk_intermediateRadii s"
  using stepForwardTracerRK4_fixed [of s K N dt step base n rb] by (simp_all add: rk_fixed_def)

lemma stepForwardTracerRK4_frames:
  "list_all2 body_frame xs (rk_tracers s) \<Longrightarrow>
   list_all2 body_frame xs (rk_tracers (stepForwardTracerRK4 K N dt step base n rb s))"
  unfolding stepForwardTracerRK4_def
  by (rule fold_preserves) (simp_all add: tracer_task_body_frames)

lemma tracer_thread_body_fixed: "rk_fixed s (tracer_thread_body K N dt step th s)"
  by (simp add: tracer_thread_body_def Let_def rk_fixed_def)

lemma tracer_thread_body_frames:
  "list_all2 body_frame xs (rk_tracers s) \<Longrightarrow>
   list_all2 body_frame xs (rk_tracers (tracer_thread_body K N dt step th s))"
  by (simp add: tracer_thread_body_def Let_def stepForwardTracerRK4_frames)

lemma rk_fixed_refl [simp]: "rk_fixed s s"
  by (simp add: rk_fixed_def)

lemma rk_fixed_trans: "rk_fixed s t \<Longrightarrow> rk_fixed t u \<Longrightarrow> rk_fixed s u"
  by (simp add: rk_fixed_def)

lemma tracer_threads_fixed:
  "rk_fixed s (fold (tracer_thread_body K N dt step) ths s)"
  by (rule fold_preserves) (auto intro: rk_fixed_trans tracer_thread_body_fixed)

lemma tracer_threads_frames:
  "list_all2 body_frame xs (rk_tracers s) \<Longrightarrow>
   list_all2 body_frame xs (rk_tracers (fold (tracer_thread_body K N dt step) ths s))"
  by (rule fold_preserves) (simp_all add: tracer_thread_body_frames)

subsection \<open>What a vortex task leaves alone\<close>

lemma stepForwardVortexRK4_fields [simp]:
  "rk_tracers (stepForwardVortexRK4 K N dt step n i s) = rk_tracers s"
  "rk_vortRadii (stepForwardVortexRK4 K N dt step n i s) = rk_vortRadii s"
  "rk_tracerRadii (stepForwardVortexRK4 K N dt step n i s) = rk_tracerRadii s"
  "rk_intermediateRadii (stepForwardVortexRK4 K N dt step n i s) = rk_intermediateRadii s"
  by (simp_all add: stepForwardVortexRK4_def Let_def)

lemma stepForwardVortexRK4_frames:
  "list_all2 body_frame xs (rk_vortices s) \<Longrightarrow>
   list_all2 body_frame xs (rk_vortices (stepForwardVortexRK4 K N dt step n i s))"
  by (simp add: stepForwardVortexRK4_def Let_def frames_velocity_update)

lemma vortex_tasks_fixed:
  "rk_fixed' s (fold (stepForwardVortexRK4 K N dt step n) is s)"
  by (rule fold_preserves) (simp_all add: rk_fixed'_def)

lemma vortex_tasks_frames:
  "list_all2 body_frame xs (rk_vortices s) \<Longrightarrow>
   list_all2 body_frame xs (rk_vortices (fold (stepForwardVortexRK4 K N dt step n) is s))"
  by (rule fold_preserves) (simp_all add: stepForwardVortexRK4_frames)

subsection \<open>What a stage leaves alone\<close>

lemma rk_stage_committed [simp]:
  "rk_vortRadii (rk_stage K N dt step s) = rk_vortRadii s"
  "rk_tracerRadii (rk_stage K N dt step s) = rk_tracerRadii s"
proof -
  let ?s1 = "if THREADCOUNT K > 1
             then fold (tracer_thread_body K N dt step) [0..<nat (THREADCOUNT K)] s
             else stepForwardTracerRK4 K N dt step 0 (NUM_TRACERS K sdiv THREADCOUNT K) 0 s"
  let ?s2 = "fold (stepForwardVortexRK4 K N dt step (NUM_TRACERS K)) [0..<nat N] ?s1"
  have 1: "rk_fixed s ?s1"
    by (simp add: tracer_threads_fixed stepForwardTracerRK4_fixed)
  have 2: "rk_fixed' ?s1 ?s2" by (rule vortex_tasks_fixed)
  show "rk_vortRadii (rk_stage K N dt step s) = rk_vortRadii s"
    using 1 2 by (simp add: rk_stage_def Let_def rk_fixed_def rk_fixed'_def)
  show "rk_tracerRadii (rk_stage K N dt step s) = rk_tracerRadii s"
    using 1 2 by (simp add: rk_stage_def Let_def rk_fixed_def rk_fixed'_def)
qed

lemma rk_stage_frames:
  assumes "list_all2 body_frame vs (rk_vortices s)" "list_all2 body_frame ts (rk_tracers s)"
  shows "list_all2 body_frame vs (rk_vortices (rk_stage K N dt step s))"
    and "list_all2 body_frame ts (rk_tracers (rk_stage K N dt step s))"
proof -
  let ?s1 = "if THREADCOUNT K > 1
             then fold (tracer_thread_body K N dt step) [0..<nat (THREADCOUNT K)] s
             else stepForwardTracerRK4 K N dt step 0 (NUM_TRACERS K sdiv THREADCOUNT K) 0 s"
  let ?s2 = "fold (stepForwardVortexRK4 K N dt step (NUM_TRACERS K)) [0..<nat N] ?s1"
  have 1: "rk_fixed s ?s1"
    by (simp add: tracer_threads_fixed stepForwardTracerRK4_fixed)
  have 2: "rk_fixed' ?s1 ?s2" by (rule vortex_tasks_fixed)
  have t1: "list_all2 body_frame ts (rk_tracers ?s1)"
    using assms(2) by (simp add: tracer_threads_frames stepForwardTracerRK4_frames)
  have v1: "list_all2 body_frame vs (rk_vortices ?s1)"
    using assms(1) 1 by (simp add: rk_fixed_def)
  have v2: "list_all2 body_frame vs (rk_vortices ?s2)"
    using v1 by (rule vortex_tasks_frames)
  have t2: "list_all2 body_frame ts (rk_tracers ?s2)"
    using t1 2 by (simp add: rk_fixed'_def)
  show "list_all2 body_frame vs (rk_vortices (rk_stage K N dt step s))"
    using v2 by (simp add: rk_stage_def Let_def)
  show "list_all2 body_frame ts (rk_tracers (rk_stage K N dt step s))"
    using t2 by (simp add: rk_stage_def Let_def)
qed

lemma rk_stages_Suc:
  "rk_stages K N dt (Suc n) s = rk_stage K N dt (int (Suc n)) (rk_stages K N dt n s)"
  by (simp add: rk_stages_def)

lemma rk_stages_0 [simp]: "rk_stages K N dt 0 s = s"
  by (simp add: rk_stages_def)

lemma rk_stages_committed [simp]:
  "rk_vortRadii (rk_stages K N dt n s) = rk_vortRadii s"
  "rk_tracerRadii (rk_stages K N dt n s) = rk_tracerRadii s"
  by (induction n) (simp_all add: rk_stages_Suc)

lemma rk_stages_frames:
  assumes "list_all2 body_frame vs (rk_vortices s)" "list_all2 body_frame ts (rk_tracers s)"
  shows "list_all2 body_frame vs (rk_vortices (rk_stages K N dt n s))
       \<and> list_all2 body_frame ts (rk_tracers (rk_stages K N dt n s))"
proof (induction n)
  case 0
  show ?case using assms by simp
next
  case (Suc n)
  then show ?case
    unfolding rk_stages_Suc using rk_stage_frames [of vs "rk_stages K N dt n s" ts] by blast
qed

lemma stepForward_RK4_stages:
  "stepForward_RK4 K N dt vorts vortRads tracerRads trs numTracers
     = rk_commit N dt numTracers (rk_stages K N dt 4 (rk_init N vorts vortRads tracerRads trs numTracers))"
proof -
  have "map int [1..<Suc 4] = [1, 2, 3, 4]" by (simp add: upt_rec [of _ "numeral _"] upt_rec [of _ "Suc _"])
  then show ?thesis by (simp add: stepForward_RK4_def rk_stages_def)
qed

lemma rk_init_frames:
  "list_all2 body_frame vorts (rk_vortices (rk_init N vorts vortRads tracerRads trs numTracers))"
  "list_all2 body_frame trs (rk_tracers (rk_init N vorts vortRads tracerRads trs numTracers))"
  by (simp_all add: rk_init_def Let_def frames_update_each)

text \<open>
  Claim C10. One call of \<open>stepForward_RK4\<close> returns the committed vortex table it was given
  unchanged; the committed tracer table is overwritten, entry by entry up to
  \<open>3 * numDriverVorts * numTracers\<close>, with the intermediate tracer table of the state after the
  fourth stage; and every vortex and every tracer of the arrays differs from the one passed in
  in position and velocity at most (identifier, index, intensity and spawn step are kept).
\<close>

theorem stepForward_RK4_frame:
  "rk_vortRadii (stepForward_RK4 K N dt vorts vortRads tracerRads trs numTracers) = vortRads
   \<and> rk_tracerRadii (stepForward_RK4 K N dt vorts vortRads tracerRads trs numTracers)
       = memcpy tracerRads
           (rk_intermediateTracerRads
              (rk_stages K N dt 4 (rk_init N vorts vortRads tracerRads trs numTracers)))
           (nat (3 * (N * numTracers)))
   \<and> list_all2 body_frame vorts
         (rk_vortices (stepForward_RK4 K N dt vorts vortRads tracerRads trs numTracers))
   \<and> list_all2 body_frame trs
         (rk_tracers (stepForward_RK4 K N dt vorts vortRads tracerRads trs numTracers))"
proof -
  let ?s0 = "rk_init N vorts vortRads tracerRads trs numTracers"
  let ?s4 = "rk_stages K N dt 4 ?s0"
  have c: "rk_vortRadii ?s0 = vortRads" "rk_tracerRadii ?s0 = tracerRads"
    by (simp_all add: rk_init_def Let_def)
  have f: "list_all2 body_frame vorts (rk_vortices ?s4)" "list_all2 body_frame trs (rk_tracers ?s4)"
    using rk_stages_frames [OF rk_init_frames, where K = K and N = N and dt = dt and n = 4]
    by simp_all
  have v: "list_all2 body_frame vorts (update_each (nat N) (advance dt) (rk_vortices ?s4))"
    using f(1) frames_update_each [of "advance dt" "rk_vortices ?s4" "nat N"]
    by (auto intro: frames_trans)
  have t: "list_all2 body_frame trs (update_each (nat numTracers) (advance dt) (rk_tracers ?s4))"
    using f(2) frames_update_each [of "advance dt" "rk_tracers ?s4" "nat numTracers"]
    by (auto intro: frames_trans)
  show ?thesis
    unfolding stepForward_RK4_stages using c v t by (simp add: rk_commit_def)
qed

section \<open>The velocity samples of a stage\<close>

subsection \<open>The vortex pass\<close>

lemma vortex_separation_cong:
  "vIndex vort = vIndex vort' \<Longrightarrow> vIndex src = vIndex src' \<Longrightarrow>
   vortex_separation vort src rads = vortex_separation vort' src' rads"
  by (simp add: vortex_separation_def)

lemma calculateVel_vortex_cong:
  assumes "vIndex vort = vIndex vort'"
    and "\<And>j. j < nat N \<Longrightarrow> vIndex (vs ! j) = vIndex (vs' ! j) \<and> intensity (vs ! j) = intensity (vs' ! j)"
  shows "calculateVel_vortex K N vel vort vs rads = calculateVel_vortex K N vel vort' vs' rads"
proof -
  have same: "image_contribution K False (vortex_separation vort (vs ! j) rads) (intensity (vs ! j)) d
      = image_contribution K False (vortex_separation vort' (vs' ! j) rads) (intensity (vs' ! j)) d"
    if "j < nat N" for j d
    using assms(2) [OF that] vortex_separation_cong [OF assms(1), of "vs ! j" "vs' ! j" rads] by simp
  have x: "(\<Sum>j<nat N. if vIndex vort = int j then 0 else
              \<Sum>d<9. fst (image_contribution K False (vortex_separation vort (vs ! j) rads)
                          (intensity (vs ! j)) d))
         = (\<Sum>j<nat N. if vIndex vort' = int j then 0 else
              \<Sum>d<9. fst (image_contribution K False (vortex_separation vort' (vs' ! j) rads)
                          (intensity (vs' ! j)) d))"
    by (rule sum.cong [OF refl]) (simp add: same assms(1))
  have y: "(\<Sum>j<nat N. if vIndex vort = int j then 0 else
              \<Sum>d<9. snd (image_contribution K False (vortex_separation vort (vs ! j) rads)
                          (intensity (vs ! j)) d))
         = (\<Sum>j<nat N. if vIndex vort' = int j then 0 else
              \<Sum>d<9. snd (image_contribution K False (vortex_separation vort' (vs' ! j) rads)
                          (intensity (vs' ! j)) d))"
    by (rule sum.cong [OF refl]) (simp add: same assms(1))
  show ?thesis unfolding calculateVel_vortex_sum x y ..
qed

lemma stepForwardVortexRK4_vortices:
  "rk_vortices (stepForwardVortexRK4 K N dt step m i s)
     = (rk_vortices s)[i := accumulate step (vortex_sample K N s i) (rk_vortices s ! i)]"
  by (simp add: stepForwardVortexRK4_def Let_def vortex_sample_def accumulate_def)

lemma accumulate_static [simp]:
  "vIndex (accumulate step k v) = vIndex v" "intensity (accumulate step k v) = intensity v"
  "position (accumulate step k b) = position b" "Body.more (accumulate step k b) = Body.more b"
  by (simp_all add: accumulate_def)

lemma vortex_phase:
  assumes "n \<le> length (rk_vortices s)" "n \<le> nat N" "nat N \<le> length (rk_vortices s)"
  shows "rk_vortices (fold (stepForwardVortexRK4 K N dt step m) [0..<n] s)
           = map (\<lambda>j. if j < n then accumulate step (vortex_sample K N s j) (rk_vortices s ! j)
                         else rk_vortices s ! j) [0..<length (rk_vortices s)]"
  using assms(1,2)
proof (induction n)
  case 0
  then show ?case by (simp add: map_nth)
next
  case (Suc n)
  let ?cur = "fold (stepForwardVortexRK4 K N dt step m) [0..<n] s"
  have IH: "rk_vortices ?cur
           = map (\<lambda>j. if j < n then accumulate step (vortex_sample K N s j) (rk_vortices s ! j)
                         else rk_vortices s ! j) [0..<length (rk_vortices s)]"
    using Suc by simp
  have ir: "rk_intermediateRadii ?cur = rk_intermediateRadii s"
    using vortex_tasks_fixed [of s K N dt step m "[0..<n]"] by (simp add: rk_fixed'_def)
  have n: "n < length (rk_vortices s)" using Suc.prems by simp
  have cur_n: "rk_vortices ?cur ! n = rk_vortices s ! n" using n by (simp add: IH)
  have static: "vIndex (rk_vortices ?cur ! j) = vIndex (rk_vortices s ! j)
              \<and> intensity (rk_vortices ?cur ! j) = intensity (rk_vortices s ! j)" if "j < nat N" for j
    using that assms(3) by (simp add: IH)
  have sample: "vortex_sample K N ?cur n = vortex_sample K N s n"
    unfolding vortex_sample_def ir cur_n
    by (rule calculateVel_vortex_cong) (simp_all add: static)
  have "rk_vortices (fold (stepForwardVortexRK4 K N dt step m) [0..<Suc n] s)
      = (rk_vortices ?cur)[n := accumulate step (vortex_sample K N s n) (rk_vortices s ! n)]"
    by (simp add: stepForwardVortexRK4_vortices sample cur_n)
  also have "\<dots> = map (\<lambda>j. if j < Suc n then accumulate step (vortex_sample K N s j) (rk_vortices s ! j)
                         else rk_vortices s ! j) [0..<length (rk_vortices s)]"
    unfolding IH by (rule nth_equalityI) (auto simp: nth_list_update less_Suc_eq)
  finally show ?case .
qed

subsection \<open>The tracer pass\<close>

lemma tracer_displace_store:
  "tracer_displace_body N dt rb tr off x y v rads =
     store_entry rads (rb + calculateTracerRadiiIndex N off (int v))
       (tr ! nat (rb + calculateTracerRadiiIndex N off (int v) + 1) - x * dt)
       (tr ! nat (rb + calculateTracerRadiiIndex N off (int v) + 2) - y * dt)"
  by (simp add: tracer_displace_body_def store_entry_def Let_def)

lemma length_tracer_displace [simp]:
  "length (tracer_displace_body N dt rb tr off x y v rads) = length rads"
  by (simp add: tracer_displace_store)

lemma length_tracer_displace_fold [simp]:
  "length (fold (tracer_displace_body N dt rb tr off x y) vs rads) = length rads"
  by (induction vs arbitrary: rads) simp_all

lemma tracer_displace_fold_frame:
  assumes "\<forall>v < k. p div 3 \<noteq> g * n + v"
  shows "fold (tracer_displace_body (int n) dt 0 tr (int g) x y) [0..<k] rads ! p = rads ! p"
  using assms
proof (induction k)
  case 0
  then show ?case by simp
next
  case (Suc k)
  have "tracer_displace_body (int n) dt 0 tr (int g) x y k r ! p = r ! p" for r
    unfolding tracer_displace_store
    using Suc.prems tracer_index_nat [of n g k]
    by (intro store_entry_frame [of _ "g * n + k"]) simp_all
  then show ?case using Suc by simp
qed

lemma nat_int_offsets:
  "nat (int e) = e" "nat (int e + 1) = e + 1" "nat (int e + 2) = e + 2"
  using nat_int_add [of e 1] nat_int_add [of e 2] by simp_all

lemma tracer_separation_nat:
  "tracer_separation (int n) (int t) j rads
     = (rads ! (3 * (t * n + j)), rads ! (3 * (t * n + j) + 1), rads ! (3 * (t * n + j) + 2))"
  unfolding tracer_separation_def Let_def tracer_index_nat by (simp only: nat_int_offsets)

lemma tracer_separation_cong:
  assumes "\<And>c. c < 3 \<Longrightarrow> rads ! (3 * (t * n + j) + c) = rads' ! (3 * (t * n + j) + c)"
  shows "tracer_separation (int n) (int t) j rads = tracer_separation (int n) (int t) j rads'"
  unfolding tracer_separation_nat using assms [of 0] assms [of 1] assms [of 2] by simp

lemma calculateVel_tracer_cong:
  assumes "\<And>j c. j < n \<Longrightarrow> c < 3 \<Longrightarrow> rads ! (3 * (t * n + j) + c) = rads' ! (3 * (t * n + j) + c)"
  shows "calculateVel_tracer K (int n) vel (int t) rads vs
       = calculateVel_tracer K (int n) vel (int t) rads' vs"
proof -
  have same: "tracer_separation (int n) (int t) j rads = tracer_separation (int n) (int t) j rads'"
    if "j < n" for j
    using assms [OF that] by (rule tracer_separation_cong)
  have x: "(\<Sum>j<nat (int n). \<Sum>d<9. fst (image_contribution K (TEST_CASE K = 6)
                 (tracer_separation (int n) (int t) j rads) (intensity (vs ! j)) d))
         = (\<Sum>j<nat (int n). \<Sum>d<9. fst (image_contribution K (TEST_CASE K = 6)
                 (tracer_separation (int n) (int t) j rads') (intensity (vs ! j)) d))"
    by (rule sum.cong [OF refl]) (simp add: same)
  have y: "(\<Sum>j<nat (int n). \<Sum>d<9. snd (image_contribution K (TEST_CASE K = 6)
                 (tracer_separation (int n) (int t) j rads) (intensity (vs ! j)) d))
         = (\<Sum>j<nat (int n). \<Sum>d<9. snd (image_contribution K (TEST_CASE K = 6)
                 (tracer_separation (int n) (int t) j rads') (intensity (vs ! j)) d))"
    by (rule sum.cong [OF refl]) (simp add: same)
  show ?thesis unfolding calculateVel_tracer_sum x y ..
qed

lemma tracer_task_body_global:
  assumes "tIndex (rk_tracers s ! base) = int base"
    and "tIndex (rk_tracers s ! (base + i)) = int (base + i)"
    and "tIndex (rk_tracers s ! 0) = 0"
    and "3 * (base * n) \<le> length (rk_intermediateTracerRads s)"
  shows "tracer_task_body K (int n) dt step base (int (3 * (base * n))) i s
       = tracer_task_body K (int n) dt step 0 0 (base + i) s"
proof -
  let ?itr = "rk_intermediateTracerRads s"
  have sep: "tracer_separation (int n) (int i) j (drop (3 * (base * n)) ?itr)
           = tracer_separation (int n) (int (base + i)) j ?itr" for j
  proof -
    have "3 * (base * n) + (3 * (i * n + j) + c) = 3 * ((base + i) * n + j) + c" for c
      by (simp add: algebra_simps)
    then show ?thesis
      unfolding tracer_separation_nat using assms(4)
      by (simp add: add.assoc [symmetric])
  qed
  have vel: "calculateVel_tracer K (int n) (0, 0) (int i) (drop (3 * (base * n)) ?itr) (rk_vortices s)
           = calculateVel_tracer K (int n) (0, 0) (int (base + i)) ?itr (rk_vortices s)"
    unfolding calculateVel_tracer_sum sep ..
  have body: "tracer_displace_body (int n) dt (int (3 * (base * n))) tr (int i) x y
            = tracer_displace_body (int n) dt 0 tr (int (base + i)) x y" for tr x y
  proof (rule ext, rule ext)
    fix v rads
    have "int (3 * (base * n)) + calculateTracerRadiiIndex (int n) (int i) (int v)
        = 0 + calculateTracerRadiiIndex (int n) (int (base + i)) (int v)"
      by (simp add: calculateTracerRadiiIndex_def algebra_simps)
    then show "tracer_displace_body (int n) dt (int (3 * (base * n))) tr (int i) x y v rads
            = tracer_displace_body (int n) dt 0 tr (int (base + i)) x y v rads"
      unfolding tracer_displace_body_def by (simp only:)
  qed
  have off: "int (base + i) - int base = int i" by simp
  show ?thesis
    unfolding tracer_task_body_def Let_def
    using assms(1-3) by (simp add: off vel body nat_int_offsets del: of_nat_mult of_nat_add)
qed

lemma tracer_step_fields [simp]:
  "rk_vortices (tracer_step K n dt step t s) = rk_vortices s"
  "rk_tracerRadii (tracer_step K n dt step t s) = rk_tracerRadii s"
  "rk_intermediateRadii (tracer_step K n dt step t s) = rk_intermediateRadii s"
  "length (rk_intermediateTracerRads (tracer_step K n dt step t s)) = length (rk_intermediateTracerRads s)"
  "length (rk_tracers (tracer_step K n dt step t s)) = length (rk_tracers s)"
  by (simp_all add: tracer_step_def tracer_task_body_def Let_def)

lemma tracer_step_tracers:
  assumes "tIndex (rk_tracers s ! t) = int t" "tIndex (rk_tracers s ! 0) = 0"
  shows "rk_tracers (tracer_step K n dt step t s)
       = (rk_tracers s)[t := accumulate step (tracer_sample K (int n) s t) (rk_tracers s ! t)]"
  using assms
  by (simp add: tracer_step_def tracer_task_body_def Let_def tracer_sample_def accumulate_def)

lemma tracer_step_frame:
  assumes "tIndex (rk_tracers s ! t) = int t" "tIndex (rk_tracers s ! 0) = 0"
    and "\<forall>v < n. p div 3 \<noteq> t * n + v"
  shows "rk_intermediateTracerRads (tracer_step K n dt step t s) ! p = rk_intermediateTracerRads s ! p"
  using assms(1,2)
  by (simp add: tracer_step_def tracer_task_body_def Let_def tracer_displace_fold_frame [OF assms(3)])

lemma accumulate_tIndex [simp]: "tIndex (accumulate step k t) = tIndex t"
  by (simp add: accumulate_def)

lemma tracer_phase_global:
  assumes "m \<le> length (rk_tracers s)" "\<forall>t < m. tIndex (rk_tracers s ! t) = int t" "k \<le> m"
  shows "rk_tracers (fold (tracer_step K n dt step) [0..<k] s)
           = map (\<lambda>t. if t < k then accumulate step (tracer_sample K (int n) s t) (rk_tracers s ! t)
                         else rk_tracers s ! t) [0..<length (rk_tracers s)]
       \<and> (\<forall>p. (\<forall>t < k. \<forall>v < n. p div 3 \<noteq> t * n + v) \<longrightarrow>
              rk_intermediateTracerRads (fold (tracer_step K n dt step) [0..<k] s) ! p
                = rk_intermediateTracerRads s ! p)
       \<and> length (rk_intermediateTracerRads (fold (tracer_step K n dt step) [0..<k] s))
           = length (rk_intermediateTracerRads s)
       \<and> rk_vortices (fold (tracer_step K n dt step) [0..<k] s) = rk_vortices s"
  using assms(3)
proof (induction k)
  case 0
  then show ?case by (simp add: map_nth)
next
  case (Suc k)
  let ?cur = "fold (tracer_step K n dt step) [0..<k] s"
  let ?acc = "\<lambda>k t. if t < k then accumulate step (tracer_sample K (int n) s t) (rk_tracers s ! t)
                         else rk_tracers s ! t"
  have IH1: "rk_tracers ?cur = map (?acc k) [0..<length (rk_tracers s)]"
    and IH2: "\<And>p. (\<forall>t < k. \<forall>v < n. p div 3 \<noteq> t * n + v) \<Longrightarrow>
              rk_intermediateTracerRads ?cur ! p = rk_intermediateTracerRads s ! p"
    and IH3: "length (rk_intermediateTracerRads ?cur) = length (rk_intermediateTracerRads s)"
    and IH4: "rk_vortices ?cur = rk_vortices s"
    using Suc by simp_all
  have k: "k < m" "k < length (rk_tracers s)" "0 < length (rk_tracers s)" "0 < m"
    using Suc.prems assms(1) by linarith+
  have cur_k: "rk_tracers ?cur ! k = rk_tracers s ! k" using k by (simp add: IH1)
  have idx_k: "tIndex (rk_tracers ?cur ! k) = int k" using cur_k assms(2) k by simp
  have idx_0: "tIndex (rk_tracers ?cur ! 0) = 0" using k assms(2) by (simp add: IH1)
  have rows: "rk_intermediateTracerRads ?cur ! (3 * (k * n + j) + c)
            = rk_intermediateTracerRads s ! (3 * (k * n + j) + c)" if "j < n" "c < 3" for j c
  proof (rule IH2, intro allI impI)
    fix t v assume "t < k" "v < n"
    have "(3 * (k * n + j) + c) div 3 = k * n + j" using that by simp
    moreover have "k * n + j \<noteq> t * n + v"
      using rect_inj [of j n v k t] that \<open>t < k\<close> \<open>v < n\<close> by auto
    ultimately show "(3 * (k * n + j) + c) div 3 \<noteq> t * n + v" by simp
  qed
  have sample: "tracer_sample K (int n) ?cur k = tracer_sample K (int n) s k"
    unfolding tracer_sample_def IH4 by (rule calculateVel_tracer_cong) (rule rows)
  have step: "fold (tracer_step K n dt step) [0..<Suc k] s = tracer_step K n dt step k ?cur"
    by simp
  have t1: "rk_tracers (tracer_step K n dt step k ?cur) = map (?acc (Suc k)) [0..<length (rk_tracers s)]"
    unfolding tracer_step_tracers [OF idx_k idx_0] sample cur_k IH1
    by (rule nth_equalityI) (auto simp: nth_list_update less_Suc_eq)
  have t2: "rk_intermediateTracerRads (tracer_step K n dt step k ?cur) ! p
          = rk_intermediateTracerRads s ! p"
    if "\<forall>t < Suc k. \<forall>v < n. p div 3 \<noteq> t * n + v" for p
  proof -
    have "rk_intermediateTracerRads (tracer_step K n dt step k ?cur) ! p
        = rk_intermediateTracerRads ?cur ! p"
      using that by (intro tracer_step_frame [OF idx_k idx_0]) simp
    also have "\<dots> = rk_intermediateTracerRads s ! p" using that by (intro IH2) simp
    finally show ?thesis .
  qed
  show ?case unfolding step using t1 t2 IH3 IH4 by simp
qed

lemma sdiv_smod_nat: "int a sdiv int b = int (a div b)" "int a smod int b = int (a mod b)"
  by (simp_all add: signed_divide_int_def signed_modulo_int_def zdiv_int zmod_int sgn_if)

lemma tracer_step_indexed:
  assumes "tracers_indexed m len s" "t < m"
  shows "tracers_indexed m len (tracer_step K n dt step t s)"
proof -
  have i: "tIndex (rk_tracers s ! t) = int t" "tIndex (rk_tracers s ! 0) = 0"
    using assms by (auto simp: tracers_indexed_def)
  show ?thesis
    using assms unfolding tracers_indexed_def tracer_step_tracers [OF i]
    by (auto simp: nth_list_update)
qed

lemma tracer_steps_indexed:
  assumes "tracers_indexed m len s" "\<forall>t \<in> set ts. t < m"
  shows "tracers_indexed m len (fold (tracer_step K n dt step) ts s)"
  using assms by (induction ts arbitrary: s) (simp_all add: tracer_step_indexed)

lemma piece_global:
  assumes "tracers_indexed m (3 * (m * n)) s" "base + cnt \<le> m"
  shows "fold (tracer_task_body K (int n) dt step base (int (3 * (base * n)))) [0..<cnt] s
       = fold (tracer_step K n dt step) [base..<base + cnt] s"
  using assms(2)
proof (induction cnt)
  case 0
  then show ?case by simp
next
  case (Suc cnt)
  let ?cur = "fold (tracer_step K n dt step) [base..<base + cnt] s"
  have IH: "fold (tracer_task_body K (int n) dt step base (int (3 * (base * n)))) [0..<cnt] s = ?cur"
    using Suc by simp
  have "tracers_indexed m (3 * (m * n)) ?cur"
    using assms(1) Suc.prems by (intro tracer_steps_indexed) simp_all
  then have ix: "\<And>t. t < m \<Longrightarrow> tIndex (rk_tracers ?cur ! t) = int t"
    and len: "3 * (m * n) \<le> length (rk_intermediateTracerRads ?cur)"
    by (simp_all add: tracers_indexed_def)
  have "base \<le> m" using Suc.prems by simp
  then have "3 * (base * n) \<le> 3 * (m * n)" by (intro mult_le_mono order_refl)
  then have l: "3 * (base * n) \<le> length (rk_intermediateTracerRads ?cur)" using len by linarith
  have "tracer_task_body K (int n) dt step base (int (3 * (base * n))) cnt ?cur
      = tracer_task_body K (int n) dt step 0 0 (base + cnt) ?cur"
    using Suc.prems l ix [of 0] ix [of base] ix [of "base + cnt"]
    by (intro tracer_task_body_global) simp_all
  then have "tracer_task_body K (int n) dt step base (int (3 * (base * n))) cnt ?cur
      = tracer_step K n dt step (base + cnt) ?cur"
    by (simp only: tracer_step_def)
  then show ?case using IH by simp
qed

lemma thread_piece:
  assumes "THREADCOUNT K = int T" "NUM_TRACERS K = int m" "th < T"
    and "tracers_indexed m (3 * (m * n)) s"
  shows "tracer_thread_body K (int n) dt step th s
       = fold (tracer_step K n dt step)
           [th * (m div T)..<th * (m div T) + (if th = T - 1 then m div T + m mod T else m div T)] s"
proof -
  define P where "P = m div T"
  define cnt where "cnt = (if th = T - 1 then P + m mod T else P)"
  have T: "0 < T" using assms(3) by simp
  have base: "nat (int th * (NUM_TRACERS K sdiv THREADCOUNT K)) = th * P"
    unfolding assms(1,2) sdiv_smod_nat P_def by (simp add: nat_mult_distrib)
  have count: "(if int th = THREADCOUNT K - 1
                then NUM_TRACERS K sdiv THREADCOUNT K + NUM_TRACERS K smod THREADCOUNT K
                else NUM_TRACERS K sdiv THREADCOUNT K) = int cnt"
    unfolding assms(1,2) sdiv_smod_nat cnt_def P_def using T assms(3) by (auto simp: of_nat_diff)
  have run: "tracer_thread_body K (int n) dt step th s
      = fold (tracer_task_body K (int n) dt step (th * P)
          (calculateTracerRadiiIndex (int n) (tIndex (rk_tracers s ! (th * P))) 0)) [0..<cnt] s"
    unfolding tracer_thread_body_def Let_def base count stepForwardTracerRK4_def by simp
  have "Suc th * P \<le> T * P" using assms(3) by (intro mult_le_mono1) simp
  then have le: "th * P + P \<le> T * P" by simp
  have whole: "T * P + m mod T = m" unfolding P_def by simp
  have fit: "th * P + cnt \<le> m"
  proof (cases "th = T - 1")
    case True
    then have "Suc th = T" using T by simp
    then have "Suc th * P = T * P" by simp
    then have "th * P + P = T * P" by simp
    then show ?thesis unfolding cnt_def using True whole by simp
  next
    case False
    then show ?thesis unfolding cnt_def using le whole by simp
  qed
  have "tracer_thread_body K (int n) dt step th s
       = fold (tracer_step K n dt step) [th * P..<th * P + cnt] s"
  proof (cases "cnt = 0")
    case True
    then show ?thesis unfolding run by simp
  next
    case False
    then have "th * P < m" using fit by simp
    then have "tIndex (rk_tracers s ! (th * P)) = int (th * P)"
      using assms(4) by (simp add: tracers_indexed_def)
    then have rb: "calculateTracerRadiiIndex (int n) (tIndex (rk_tracers s ! (th * P))) 0
        = int (3 * (th * P * n))"
      by (simp add: calculateTracerRadiiIndex_def)
    show ?thesis
      unfolding run rb using piece_global [OF assms(4) fit] by simp
  qed
  then show ?thesis by (simp only: cnt_def P_def)
qed

lemma threads_prefix:
  assumes "THREADCOUNT K = int T" "NUM_TRACERS K = int m"
    and "tracers_indexed m (3 * (m * n)) s" "j < T"
  shows "fold (tracer_thread_body K (int n) dt step) [0..<j] s
       = fold (tracer_step K n dt step) [0..<j * (m div T)] s"
  using assms(4)
proof (induction j)
  case 0
  then show ?case by simp
next
  case (Suc j)
  define P where "P = m div T"
  let ?cur = "fold (tracer_step K n dt step) [0..<j * P] s"
  have IH: "fold (tracer_thread_body K (int n) dt step) [0..<j] s = ?cur"
    using Suc by (simp add: P_def)
  have "Suc j * P \<le> T * P" using Suc.prems by (intro mult_le_mono1) simp
  then have "j * P + P \<le> T * P" by simp
  moreover have "T * P \<le> m" unfolding P_def by simp
  ultimately have le: "j * P + P \<le> m" by linarith
  then have le': "j * P \<le> m" by linarith
  have ok: "tracers_indexed m (3 * (m * n)) ?cur"
    using assms(3) le' by (intro tracer_steps_indexed) simp_all
  have "j \<noteq> T - 1" "j < T" using Suc.prems by simp_all
  then have "tracer_thread_body K (int n) dt step j ?cur
      = fold (tracer_step K n dt step) [j * P..<j * P + P] ?cur"
    using thread_piece [OF assms(1,2) _ ok, of j dt step] by (simp add: P_def)
  then have "fold (tracer_thread_body K (int n) dt step) [0..<Suc j] s
      = fold (tracer_step K n dt step) ([0..<j * P] @ [j * P..<j * P + P]) s"
    using IH by simp
  also have "[0..<j * P] @ [j * P..<j * P + P] = [0..<Suc j * P]"
    using upt_add_eq_append [of 0 "j * P" P] by (simp add: add.commute)
  finally show ?case by (simp only: P_def)
qed

lemma threads_global:
  assumes "THREADCOUNT K = int T" "NUM_TRACERS K = int m" "0 < T"
    and "tracers_indexed m (3 * (m * n)) s"
  shows "fold (tracer_thread_body K (int n) dt step) [0..<T] s
       = fold (tracer_step K n dt step) [0..<m] s"
proof -
  define P where "P = m div T"
  define j where "j = T - 1"
  define r where "r = m mod T"
  let ?cur = "fold (tracer_step K n dt step) [0..<j * P] s"
  have T: "T = Suc j" using assms(3) by (simp add: j_def)
  have pre: "fold (tracer_thread_body K (int n) dt step) [0..<j] s = ?cur"
    unfolding P_def using assms T by (intro threads_prefix) simp_all
  have "Suc j * P = T * P" using T by simp
  then have "j * P + P = T * P" by simp
  moreover have "T * P + r = m" unfolding P_def r_def by simp
  ultimately have whole: "j * P + (P + r) = m" by linarith
  then have le: "j * P \<le> m" by linarith
  have ok: "tracers_indexed m (3 * (m * n)) ?cur"
    using assms(4) le by (intro tracer_steps_indexed) simp_all
  have jT: "j < T" "j = T - 1" using assms(3) by (simp_all add: j_def)
  have last: "tracer_thread_body K (int n) dt step j ?cur
      = fold (tracer_step K n dt step) [j * P..<j * P + (P + r)] ?cur"
    using thread_piece [OF assms(1,2) jT(1) ok, of dt step]
    unfolding if_P [OF jT(2)] P_def [symmetric] r_def [symmetric] .
  have "fold (tracer_thread_body K (int n) dt step) [0..<Suc j] s
      = fold (tracer_step K n dt step) ([0..<j * P] @ [j * P..<j * P + (P + r)]) s"
    using pre last by simp
  also have "[0..<j * P] @ [j * P..<j * P + (P + r)] = [0..<j * P + (P + r)]"
    using upt_add_eq_append [of 0 "j * P" "P + r"] by simp
  finally show ?thesis unfolding whole T [symmetric] .
qed

lemma tracer_phase_steps:
  assumes "THREADCOUNT K = int T" "NUM_TRACERS K = int m" "0 < T"
    and "tracers_indexed m (3 * (m * n)) s"
  shows "(if THREADCOUNT K > 1
          then fold (tracer_thread_body K (int n) dt step) [0..<nat (THREADCOUNT K)] s
          else stepForwardTracerRK4 K (int n) dt step 0 (NUM_TRACERS K sdiv THREADCOUNT K) 0 s)
       = fold (tracer_step K n dt step) [0..<m] s"
proof (cases "T = 1")
  case True
  then show ?thesis
    using assms(1,2) by (simp add: stepForwardTracerRK4_def tracer_step_def)
next
  case False
  then have "1 < T" using assms(3) by simp
  then show ?thesis
    using assms(1) threads_global [OF assms] by simp
qed

subsection \<open>One stage\<close>

lemma length_vortex_tracer_body [simp]:
  "length (vortex_tracer_body N dt i x y t rads) = length rads"
  by (simp add: vortex_tracer_body_def Let_def)

lemma length_vortex_tracer_fold [simp]:
  "length (fold (vortex_tracer_body N dt i x y) ts rads) = length rads"
  by (induction ts arbitrary: rads) simp_all

lemma stepForwardVortexRK4_lengths [simp]:
  "length (rk_intermediateTracerRads (stepForwardVortexRK4 K N dt step m i s))
     = length (rk_intermediateTracerRads s)"
  by (simp add: stepForwardVortexRK4_def Let_def)

lemma vortex_tasks_length:
  "length (rk_intermediateTracerRads (fold (stepForwardVortexRK4 K N dt step m) is s))
     = length (rk_intermediateTracerRads s)"
  by (rule fold_preserves) simp_all

lemma tracer_steps_fixed:
  "rk_vortices (fold (tracer_step K n dt step) ts s) = rk_vortices s
   \<and> rk_intermediateRadii (fold (tracer_step K n dt step) ts s) = rk_intermediateRadii s"
  by (rule fold_preserves) simp_all

lemma rk_stage_effect:
  assumes "THREADCOUNT K = int T" "NUM_TRACERS K = int m" "0 < T"
    and "tracers_indexed m (3 * (m * n)) s" "n \<le> length (rk_vortices s)"
  shows "rk_vortices (rk_stage K (int n) dt step s)
           = map (\<lambda>j. if j < n then accumulate step (vortex_sample K (int n) s j) (rk_vortices s ! j)
                         else rk_vortices s ! j) [0..<length (rk_vortices s)]"
    and "rk_tracers (rk_stage K (int n) dt step s)
           = map (\<lambda>t. if t < m then accumulate step (tracer_sample K (int n) s t) (rk_tracers s ! t)
                         else rk_tracers s ! t) [0..<length (rk_tracers s)]"
    and "length (rk_intermediateTracerRads (rk_stage K (int n) dt step s))
           = length (rk_intermediateTracerRads s)"
proof -
  let ?s1 = "fold (tracer_step K n dt step) [0..<m] s"
  let ?s2 = "fold (stepForwardVortexRK4 K (int n) dt step (NUM_TRACERS K)) [0..<nat (int n)] ?s1"
  have m: "m \<le> length (rk_tracers s)" "\<forall>t < m. tIndex (rk_tracers s ! t) = int t"
    using assms(4) by (simp_all add: tracers_indexed_def)
  note tp = tracer_phase_global [OF m order_refl, of K n dt step]
  have s1_v: "rk_vortices ?s1 = rk_vortices s" and s1_i: "rk_intermediateRadii ?s1 = rk_intermediateRadii s"
    using tracer_steps_fixed [of K n dt step "[0..<m]" s] by simp_all
  have sample: "vortex_sample K (int n) ?s1 j = vortex_sample K (int n) s j" for j
    by (simp add: vortex_sample_def s1_v s1_i)
  have stage: "rk_stage K (int n) dt step s
      = (let vortRadLen = (int n * int n - int n) sdiv 2;
             s3 = ?s2\<lparr>rk_intermediateRadii :=
                   memcpy (rk_intermediateRadii ?s2) (rk_workingRadii ?s2) (nat (3 * vortRadLen))\<rparr>
         in s3\<lparr>rk_workingRadii := memcpy (rk_workingRadii s3) (rk_vortRadii s3) (nat (3 * vortRadLen))\<rparr>)"
    unfolding rk_stage_def tracer_phase_steps [OF assms(1-4)] by (simp only: Let_def)
  have v: "rk_vortices ?s2
           = map (\<lambda>j. if j < n then accumulate step (vortex_sample K (int n) ?s1 j) (rk_vortices ?s1 ! j)
                         else rk_vortices ?s1 ! j) [0..<length (rk_vortices ?s1)]"
    using assms(5) vortex_phase [where n = n and s = ?s1 and N = "int n" and K = K and dt = dt
        and step = step and m = "NUM_TRACERS K"]
    by (simp add: s1_v)
  have t: "rk_tracers ?s2 = rk_tracers ?s1"
    using vortex_tasks_fixed [of ?s1 K "int n" dt step "NUM_TRACERS K" "[0..<nat (int n)]"]
    by (simp add: rk_fixed'_def)
  show "rk_vortices (rk_stage K (int n) dt step s)
           = map (\<lambda>j. if j < n then accumulate step (vortex_sample K (int n) s j) (rk_vortices s ! j)
                         else rk_vortices s ! j) [0..<length (rk_vortices s)]"
    unfolding stage Let_def using v by (simp add: sample s1_v)
  show "rk_tracers (rk_stage K (int n) dt step s)
           = map (\<lambda>t. if t < m then accumulate step (tracer_sample K (int n) s t) (rk_tracers s ! t)
                         else rk_tracers s ! t) [0..<length (rk_tracers s)]"
    unfolding stage Let_def using t tp by simp
  show "length (rk_intermediateTracerRads (rk_stage K (int n) dt step s))
           = length (rk_intermediateTracerRads s)"
    unfolding stage Let_def using tp by (simp add: vortex_tasks_length)
qed

lemma rk_stage_indexed:
  assumes "THREADCOUNT K = int T" "NUM_TRACERS K = int m" "0 < T"
    and "tracers_indexed m (3 * (m * n)) s" "n \<le> length (rk_vortices s)"
  shows "tracers_indexed m (3 * (m * n)) (rk_stage K (int n) dt step s)"
    and "length (rk_vortices (rk_stage K (int n) dt step s)) = length (rk_vortices s)"
  using assms(4) unfolding tracers_indexed_def rk_stage_effect [OF assms]
  by simp_all

subsection \<open>Four stages and the commit\<close>

lemma rk_weights:
  "rk_weighted 1 a + rk_weighted 2 b + rk_weighted 3 c + rk_weighted 4 d
     = (a + 2 * b + 2 * c + d) / 6"
  by (simp add: rk_weighted_def add_divide_distrib)

lemma accumulate_velocity:
  "velocity (accumulate step k b)
     = (fst (velocity b) + rk_weighted step (fst k), snd (velocity b) + rk_weighted step (snd k))"
  by (simp add: accumulate_def)

lemma zero_velocity_fields [simp]:
  "velocity (zero_velocity b) = (0, 0)" "position (zero_velocity b) = position b"
  "tIndex (zero_velocity t) = tIndex t"
  by (simp_all add: zero_velocity_def)

lemma advance_fields [simp]:
  "velocity (advance dt b) = velocity b"
  "position (advance dt b) = (fst (position b) + fst (velocity b) * dt,
                              snd (position b) + snd (velocity b) * dt)"
  by (simp_all add: advance_def)

lemma frames_vIndex:
  "list_all2 body_frame vs ws \<Longrightarrow> i < length vs \<Longrightarrow> vIndex (ws ! i) = vIndex (vs ! i)"
proof -
  assume "list_all2 body_frame vs ws" "i < length vs"
  then have "body_frame (vs ! i) (ws ! i)" by (simp add: list_all2_nthD)
  then have "ws ! i = (vs ! i)\<lparr>position := position (ws ! i), velocity := velocity (ws ! i)\<rparr>"
    by (simp only: body_frame_def)
  then have "vIndex (ws ! i)
      = vIndex ((vs ! i)\<lparr>position := position (ws ! i), velocity := velocity (ws ! i)\<rparr>)"
    by (rule arg_cong)
  then show ?thesis by simp
qed

lemma lone_vortex_sample: "vIndex (rk_vortices s ! 0) = 0 \<Longrightarrow> vortex_sample K 1 s 0 = (0, 0)"
  by (simp add: vortex_sample_def calculateVel_vortex_def)

lemma no_vortex_tracer_sample: "tracer_sample K 0 s t = (0, 0)"
  by (simp add: tracer_sample_def calculateVel_tracer_def)

lemma rk4_accumulation_at:
  assumes "0 \<le> N" "nat N \<le> length vorts"
    and "NUM_TRACERS K = numTracers" "0 \<le> numTracers" "nat numTracers \<le> length trs"
    and "1 \<le> THREADCOUNT K"
    and "\<forall>t < nat numTracers. tIndex (trs ! t) = int t"
    and "3 * (N * numTracers) \<le> int (length tracerRads)"
    and "s0 = rk_init N vorts vortRads tracerRads trs numTracers"
    and "s1 = rk_stage K N dt 1 s0" "s2 = rk_stage K N dt 2 s1" "s3 = rk_stage K N dt 3 s2"
    and "final = stepForward_RK4 K N dt vorts vortRads tracerRads trs numTracers"
  shows "i < nat N \<Longrightarrow>
            velocity (rk_vortices s0 ! i) = (0, 0)
            \<and> velocity (rk_vortices final ! i)
                = ((fst (vortex_sample K N s0 i) + 2 * fst (vortex_sample K N s1 i)
                  + 2 * fst (vortex_sample K N s2 i) + fst (vortex_sample K N s3 i)) / 6,
                   (snd (vortex_sample K N s0 i) + 2 * snd (vortex_sample K N s1 i)
                  + 2 * snd (vortex_sample K N s2 i) + snd (vortex_sample K N s3 i)) / 6)
            \<and> position (rk_vortices final ! i)
                = (fst (position (vorts ! i)) + fst (velocity (rk_vortices final ! i)) * dt,
                   snd (position (vorts ! i)) + snd (velocity (rk_vortices final ! i)) * dt)"
    and "t < nat numTracers \<Longrightarrow>
            velocity (rk_tracers s0 ! t) = (0, 0)
            \<and> velocity (rk_tracers final ! t)
                = ((fst (tracer_sample K N s0 t) + 2 * fst (tracer_sample K N s1 t)
                  + 2 * fst (tracer_sample K N s2 t) + fst (tracer_sample K N s3 t)) / 6,
                   (snd (tracer_sample K N s0 t) + 2 * snd (tracer_sample K N s1 t)
                  + 2 * snd (tracer_sample K N s2 t) + snd (tracer_sample K N s3 t)) / 6)
            \<and> position (rk_tracers final ! t)
                = (fst (position (trs ! t)) + fst (velocity (rk_tracers final ! t)) * dt,
                   snd (position (trs ! t)) + snd (velocity (rk_tracers final ! t)) * dt)"
proof -
  define n where "n = nat N"
  define m where "m = nat numTracers"
  define T where "T = nat (THREADCOUNT K)"
  have N: "N = int n" and M: "NUM_TRACERS K = int m" "numTracers = int m"
    and TC: "THREADCOUNT K = int T" "0 < T"
    using assms(1,3,4,6) by (simp_all add: n_def m_def T_def)
  define s4 where "s4 = rk_stage K N dt 4 s3"
  have final: "final = rk_commit N dt numTracers s4"
    unfolding assms(13) stepForward_RK4_def s4_def assms(9-12) by simp
  text \<open>the state after allocation and zeroing\<close>
  have v0: "rk_vortices s0 = update_each n zero_velocity vorts"
    and t0: "rk_tracers s0 = update_each m zero_velocity trs"
    unfolding assms(9) by (simp_all add: rk_init_def Let_def n_def m_def)
  have "nat (3 * (N * numTracers)) = 3 * (m * n)"
    unfolding N M by (simp add: nat_mult_distrib mult.commute)
  moreover have "3 * (m * n) \<le> length tracerRads"
  proof -
    have "int (3 * (m * n)) = 3 * (N * numTracers)" unfolding N M by (simp add: mult.commute)
    with assms(8) have "int (3 * (m * n)) \<le> int (length tracerRads)" by (simp only:)
    thus ?thesis by (simp only: of_nat_le_iff)
  qed
  ultimately have l0: "length (rk_intermediateTracerRads s0) = 3 * (m * n)"
    unfolding assms(9) by (simp add: rk_init_def Let_def)
  have ix0: "tracers_indexed m (3 * (m * n)) s0"
    unfolding tracers_indexed_def t0 l0 using assms(5,7)
    by (simp add: update_each_nth m_def)
  have len0: "n \<le> length (rk_vortices s0)" unfolding v0 using assms(2) by (simp add: n_def)
  text \<open>the four stages\<close>
  have st: "rk_stage K (int n) dt 1 s0 = s1" "rk_stage K (int n) dt 2 s1 = s2"
    "rk_stage K (int n) dt 3 s2 = s3" "rk_stage K (int n) dt 4 s3 = s4"
    unfolding assms(10-12) s4_def N by (rule refl)+
  note e1 = rk_stage_effect [OF TC(1) M(1) TC(2) ix0 len0, of dt 1, unfolded st]
  note w1 = rk_stage_indexed [OF TC(1) M(1) TC(2) ix0 len0, of dt 1, unfolded st]
  have len1: "n \<le> length (rk_vortices s1)" using w1(2) len0 by simp
  note e2 = rk_stage_effect [OF TC(1) M(1) TC(2) w1(1) len1, of dt 2, unfolded st]
  note w2 = rk_stage_indexed [OF TC(1) M(1) TC(2) w1(1) len1, of dt 2, unfolded st]
  have len2: "n \<le> length (rk_vortices s2)" using w2(2) len1 by simp
  note e3 = rk_stage_effect [OF TC(1) M(1) TC(2) w2(1) len2, of dt 3, unfolded st]
  note w3 = rk_stage_indexed [OF TC(1) M(1) TC(2) w2(1) len2, of dt 3, unfolded st]
  have len3: "n \<le> length (rk_vortices s3)" using w3(2) len2 by simp
  note e4 = rk_stage_effect [OF TC(1) M(1) TC(2) w3(1) len3, of dt 4, unfolded st]
  note w4 = rk_stage_indexed [OF TC(1) M(1) TC(2) w3(1) len3, of dt 4, unfolded st]
  have lv: "length (rk_vortices s0) = length vorts" "length (rk_vortices s1) = length vorts"
    "length (rk_vortices s2) = length vorts" "length (rk_vortices s3) = length vorts"
    "length (rk_vortices s4) = length vorts"
    using w1(2) w2(2) w3(2) w4(2) by (simp_all add: v0)
  have lt: "length (rk_tracers s0) = length trs" "length (rk_tracers s1) = length trs"
    "length (rk_tracers s2) = length trs" "length (rk_tracers s3) = length trs"
    "length (rk_tracers s4) = length trs"
    unfolding e4(2) e3(2) e2(2) e1(2) by (simp_all add: t0)
  show "velocity (rk_vortices s0 ! i) = (0, 0)
          \<and> velocity (rk_vortices final ! i)
              = ((fst (vortex_sample K N s0 i) + 2 * fst (vortex_sample K N s1 i)
                + 2 * fst (vortex_sample K N s2 i) + fst (vortex_sample K N s3 i)) / 6,
                 (snd (vortex_sample K N s0 i) + 2 * snd (vortex_sample K N s1 i)
                + 2 * snd (vortex_sample K N s2 i) + snd (vortex_sample K N s3 i)) / 6)
          \<and> position (rk_vortices final ! i)
              = (fst (position (vorts ! i)) + fst (velocity (rk_vortices final ! i)) * dt,
                 snd (position (vorts ! i)) + snd (velocity (rk_vortices final ! i)) * dt)"
    if "i < nat N"
  proof -
    have i: "i < n" "i < length vorts" using that assms(2) by (simp_all add: n_def)
    text \<open>one vortex\<close>
    have a0: "rk_vortices s0 ! i = zero_velocity (vorts ! i)" using i by (simp add: v0 update_each_nth)
    have a1: "rk_vortices s1 ! i = accumulate 1 (vortex_sample K N s0 i) (rk_vortices s0 ! i)"
      using i by (simp add: e1(1) lv N)
    have a2: "rk_vortices s2 ! i = accumulate 2 (vortex_sample K N s1 i) (rk_vortices s1 ! i)"
      using i by (simp add: e2(1) lv N)
    have a3: "rk_vortices s3 ! i = accumulate 3 (vortex_sample K N s2 i) (rk_vortices s2 ! i)"
      using i by (simp add: e3(1) lv N)
    have a4: "rk_vortices s4 ! i = accumulate 4 (vortex_sample K N s3 i) (rk_vortices s3 ! i)"
      using i by (simp add: e4(1) lv N)
    have vel_v: "velocity (rk_vortices s4 ! i)
        = ((fst (vortex_sample K N s0 i) + 2 * fst (vortex_sample K N s1 i) + 2 * fst (vortex_sample K N s2 i) + fst (vortex_sample K N s3 i)) / 6, (snd (vortex_sample K N s0 i) + 2 * snd (vortex_sample K N s1 i) + 2 * snd (vortex_sample K N s2 i) + snd (vortex_sample K N s3 i)) / 6)"
      unfolding a4 a3 a2 a1 a0 accumulate_velocity
      using rk_weights [of "fst (vortex_sample K N s0 i)" "fst (vortex_sample K N s1 i)" "fst (vortex_sample K N s2 i)" "fst (vortex_sample K N s3 i)"]
        rk_weights [of "snd (vortex_sample K N s0 i)" "snd (vortex_sample K N s1 i)" "snd (vortex_sample K N s2 i)" "snd (vortex_sample K N s3 i)"] by simp
    have pos_v: "position (rk_vortices s4 ! i) = position (vorts ! i)"
      unfolding a4 a3 a2 a1 a0 by simp
    have fin_v: "rk_vortices final ! i = advance dt (rk_vortices s4 ! i)"
      unfolding final using i by (simp add: rk_commit_def update_each_nth lv n_def)
    show ?thesis
      unfolding fin_v a0 by (simp add: vel_v pos_v)
  qed
  show "velocity (rk_tracers s0 ! t) = (0, 0)
          \<and> velocity (rk_tracers final ! t)
              = ((fst (tracer_sample K N s0 t) + 2 * fst (tracer_sample K N s1 t)
                + 2 * fst (tracer_sample K N s2 t) + fst (tracer_sample K N s3 t)) / 6,
                 (snd (tracer_sample K N s0 t) + 2 * snd (tracer_sample K N s1 t)
                + 2 * snd (tracer_sample K N s2 t) + snd (tracer_sample K N s3 t)) / 6)
          \<and> position (rk_tracers final ! t)
              = (fst (position (trs ! t)) + fst (velocity (rk_tracers final ! t)) * dt,
                 snd (position (trs ! t)) + snd (velocity (rk_tracers final ! t)) * dt)"
    if "t < nat numTracers"
  proof -
    have t: "t < m" "t < length trs" using that assms(5) by (simp_all add: m_def)
    text \<open>one tracer\<close>
    have b0: "rk_tracers s0 ! t = zero_velocity (trs ! t)" using t by (simp add: t0 update_each_nth)
    have b1: "rk_tracers s1 ! t = accumulate 1 (tracer_sample K N s0 t) (rk_tracers s0 ! t)"
      using t by (simp add: e1(2) lt N)
    have b2: "rk_tracers s2 ! t = accumulate 2 (tracer_sample K N s1 t) (rk_tracers s1 ! t)"
      using t by (simp add: e2(2) lt N)
    have b3: "rk_tracers s3 ! t = accumulate 3 (tracer_sample K N s2 t) (rk_tracers s2 ! t)"
      using t by (simp add: e3(2) lt N)
    have b4: "rk_tracers s4 ! t = accumulate 4 (tracer_sample K N s3 t) (rk_tracers s3 ! t)"
      using t by (simp add: e4(2) lt N)
    have vel_t: "velocity (rk_tracers s4 ! t)
        = ((fst (tracer_sample K N s0 t) + 2 * fst (tracer_sample K N s1 t) + 2 * fst (tracer_sample K N s2 t) + fst (tracer_sample K N s3 t)) / 6, (snd (tracer_sample K N s0 t) + 2 * snd (tracer_sample K N s1 t) + 2 * snd (tracer_sample K N s2 t) + snd (tracer_sample K N s3 t)) / 6)"
      unfolding b4 b3 b2 b1 b0 accumulate_velocity
      using rk_weights [of "fst (tracer_sample K N s0 t)" "fst (tracer_sample K N s1 t)" "fst (tracer_sample K N s2 t)" "fst (tracer_sample K N s3 t)"]
        rk_weights [of "snd (tracer_sample K N s0 t)" "snd (tracer_sample K N s1 t)" "snd (tracer_sample K N s2 t)" "snd (tracer_sample K N s3 t)"] by simp
    have pos_t: "position (rk_tracers s4 ! t) = position (trs ! t)"
      unfolding b4 b3 b2 b1 b0 by simp
    have fin_t: "rk_tracers final ! t = advance dt (rk_tracers s4 ! t)"
      unfolding final using t by (simp add: rk_commit_def update_each_nth lt m_def)
    show ?thesis
      unfolding fin_t b0 by (simp add: vel_t pos_t)
  qed
qed

text \<open>
  Claim C6. In one call of \<open>stepForward_RK4\<close>, with tracers that carry their array position
  as \<open>tIndex\<close> and a tracer table of full length: every vortex starts the stages with velocity
  zero; the velocity it is returned with is \<open>(k1 + 2 * k2 + 2 * k3 + k4) / 6\<close>, where \<open>k1\<close> to
  \<open>k4\<close> are the samples the force evaluator returns for it in the states \<open>s0\<close> to \<open>s3\<close> the
  four stages start from; and the position it is returned with is the position passed in
  plus that velocity times the timestep. The same holds of every tracer. The two parts do not
  depend on each other: the first holds with no tracer, the second with no vortex. The
  hypotheses are those under which the call stays inside its arrays.
\<close>

theorem rk4_velocity_accumulation:
  assumes "0 \<le> N" "nat N \<le> length vorts"
    and "NUM_TRACERS K = numTracers" "0 \<le> numTracers" "nat numTracers \<le> length trs"
    and "1 \<le> THREADCOUNT K"
    and "\<forall>t < nat numTracers. tIndex (trs ! t) = int t"
    and "3 * (N * numTracers) \<le> int (length tracerRads)"
    and "s0 = rk_init N vorts vortRads tracerRads trs numTracers"
    and "s1 = rk_stage K N dt 1 s0" "s2 = rk_stage K N dt 2 s1" "s3 = rk_stage K N dt 3 s2"
    and "final = stepForward_RK4 K N dt vorts vortRads tracerRads trs numTracers"
  shows "(\<forall>i < nat N.
            velocity (rk_vortices s0 ! i) = (0, 0)
          \<and> velocity (rk_vortices final ! i)
              = ((fst (vortex_sample K N s0 i) + 2 * fst (vortex_sample K N s1 i)
                + 2 * fst (vortex_sample K N s2 i) + fst (vortex_sample K N s3 i)) / 6,
                 (snd (vortex_sample K N s0 i) + 2 * snd (vortex_sample K N s1 i)
                + 2 * snd (vortex_sample K N s2 i) + snd (vortex_sample K N s3 i)) / 6)
          \<and> position (rk_vortices final ! i)
              = (fst (position (vorts ! i)) + fst (velocity (rk_vortices final ! i)) * dt,
                 snd (position (vorts ! i)) + snd (velocity (rk_vortices final ! i)) * dt))
       \<and> (\<forall>t < nat numTracers.
            velocity (rk_tracers s0 ! t) = (0, 0)
          \<and> velocity (rk_tracers final ! t)
              = ((fst (tracer_sample K N s0 t) + 2 * fst (tracer_sample K N s1 t)
                + 2 * fst (tracer_sample K N s2 t) + fst (tracer_sample K N s3 t)) / 6,
                 (snd (tracer_sample K N s0 t) + 2 * snd (tracer_sample K N s1 t)
                + 2 * snd (tracer_sample K N s2 t) + snd (tracer_sample K N s3 t)) / 6)
          \<and> position (rk_tracers final ! t)
              = (fst (position (trs ! t)) + fst (velocity (rk_tracers final ! t)) * dt,
                 snd (position (trs ! t)) + snd (velocity (rk_tracers final ! t)) * dt))"
  using rk4_accumulation_at [OF assms] by blast

text \<open>
  Three inputs: the two example vortices with the example tracer; a single vortex with no
  tracer, which has nothing to sample and stays where it is; and a tracer with no vortex,
  which stays where it is as well.
\<close>

theorem rk4_velocity_accumulation_witness:
  "velocity (rk_vortices (rk_example_after 0) ! 1) = (0, 0)
   \<and> velocity (rk_vortices rk_example_final ! 1)
       = ((fst (example_k 0) + 2 * fst (example_k 1) + 2 * fst (example_k 2) + fst (example_k 3)) / 6,
          (snd (example_k 0) + 2 * snd (example_k 1) + 2 * snd (example_k 2) + snd (example_k 3)) / 6)
   \<and> position (rk_vortices rk_example_final ! 1)
       = (fst (position (example_vortices ! 1))
            + fst (velocity (rk_vortices rk_example_final ! 1)) * (1 / 10),
          snd (position (example_vortices ! 1))
            + snd (velocity (rk_vortices rk_example_final ! 1)) * (1 / 10))
   \<and> velocity (rk_tracers (rk_example_after 0) ! 0) = (0, 0)
   \<and> velocity (rk_tracers rk_example_final ! 0)
       = ((fst (example_q 0) + 2 * fst (example_q 1) + 2 * fst (example_q 2) + fst (example_q 3)) / 6,
          (snd (example_q 0) + 2 * snd (example_q 1) + 2 * snd (example_q 2) + snd (example_q 3)) / 6)
   \<and> position (rk_tracers rk_example_final ! 0)
       = (fst (position (example_tracers ! 0))
            + fst (velocity (rk_tracers rk_example_final ! 0)) * (1 / 10),
          snd (position (example_tracers ! 0))
            + snd (velocity (rk_tracers rk_example_final ! 0)) * (1 / 10))
   \<and> velocity (rk_vortices (stepForward_RK4 tracerless_constants 1 (1 / 10)
                   [vortex_at 0 (1, 1) 1] [] [] [] 0) ! 0) = (0, 0)
   \<and> position (rk_vortices (stepForward_RK4 tracerless_constants 1 (1 / 10)
                   [vortex_at 0 (1, 1) 1] [] [] [] 0) ! 0) = (1, 1)
   \<and> velocity (rk_tracers (stepForward_RK4 example_constants 0 (1 / 10)
                   [] [] [] example_tracers 1) ! 0) = (0, 0)
   \<and> position (rk_tracers (stepForward_RK4 example_constants 0 (1 / 10)
                   [] [] [] example_tracers 1) ! 0) = (2, 2)"
proof -
  text \<open>two vortices and a tracer\<close>
  have h: "0 \<le> (2::int)" "nat 2 \<le> length example_vortices"
    "NUM_TRACERS example_constants = 1" "0 \<le> (1::int)" "nat 1 \<le> length example_tracers"
    "1 \<le> THREADCOUNT example_constants"
    "\<forall>t < nat 1. tIndex (example_tracers ! t) = int t"
    "3 * (2 * 1) \<le> int (length example_tracerRadii)"
    by (simp_all add: example_vortices_def example_constants_def example_tracers_def
        example_tracerRadii_def tracer_at_def)
  have s0: "rk_example_after 0
      = rk_init 2 example_vortices example_vortexRadii example_tracerRadii example_tracers 1"
    by (simp add: rk_example_after_def)
  have s1: "rk_example_after 1 = rk_stage example_constants 2 (1 / 10) 1 (rk_example_after 0)"
    by (simp add: rk_example_after_def rk_stages_Suc numeral_2_eq_2 numeral_3_eq_3)
  have s2: "rk_example_after 2 = rk_stage example_constants 2 (1 / 10) 2 (rk_example_after 1)"
    by (simp add: rk_example_after_def rk_stages_Suc numeral_2_eq_2 numeral_3_eq_3)
  have s3: "rk_example_after 3 = rk_stage example_constants 2 (1 / 10) 3 (rk_example_after 2)"
    by (simp add: rk_example_after_def rk_stages_Suc numeral_2_eq_2 numeral_3_eq_3)
  note two = rk4_velocity_accumulation [OF h s0 s1 s2 s3 rk_example_final_def]
  have "(1::nat) < nat 2" "(0::nat) < nat 1" by simp_all
  note A = two [THEN conjunct1, rule_format, OF this(1), folded example_k_def]
    two [THEN conjunct2, rule_format, OF this(2), folded example_q_def]
  text \<open>a vortex and no tracer\<close>
  let ?K = tracerless_constants
  let ?v = "[vortex_at 0 (1, 1) 1]"
  let ?a0 = "rk_init 1 ?v [] [] [] 0"
  let ?a1 = "rk_stage ?K 1 (1 / 10) 1 ?a0"
  let ?a2 = "rk_stage ?K 1 (1 / 10) 2 ?a1"
  let ?a3 = "rk_stage ?K 1 (1 / 10) 3 ?a2"
  have g: "0 \<le> (1::int)" "nat 1 \<le> length ?v"
    "NUM_TRACERS ?K = 0" "0 \<le> (0::int)" "nat 0 \<le> length ([]::Tracer list)"
    "1 \<le> THREADCOUNT ?K"
    "\<forall>t < nat 0. tIndex (([]::Tracer list) ! t) = int t"
    "3 * (1 * 0) \<le> int (length ([]::real list))"
    by (simp_all add: tracerless_constants_def example_constants_def)
  have "(0::nat) < nat 1" by simp
  note B = rk4_velocity_accumulation [where dt = "1 / 10" and vortRads = "[]",
      OF g refl refl refl refl refl, THEN conjunct1, rule_format, OF this]
  have f0: "list_all2 body_frame ?v (rk_vortices ?a0)" "list_all2 body_frame [] (rk_tracers ?a0)"
    by (rule rk_init_frames)+
  note f1 = rk_stage_frames [OF f0, of ?K 1 "1 / 10" 1]
  note f2 = rk_stage_frames [OF f1, of ?K 1 "1 / 10" 2]
  note f3 = rk_stage_frames [OF f2, of ?K 1 "1 / 10" 3]
  have k: "vortex_sample ?K 1 ?a0 0 = (0, 0)" "vortex_sample ?K 1 ?a1 0 = (0, 0)"
    "vortex_sample ?K 1 ?a2 0 = (0, 0)" "vortex_sample ?K 1 ?a3 0 = (0, 0)"
    using f0(1) f1(1) f2(1) f3(1)
    by (simp_all add: lone_vortex_sample frames_vIndex vortex_at_def)
  have B': "velocity (rk_vortices (stepForward_RK4 ?K 1 (1 / 10) ?v [] [] [] 0) ! 0) = (0, 0)"
    "position (rk_vortices (stepForward_RK4 ?K 1 (1 / 10) ?v [] [] [] 0) ! 0) = (1, 1)"
    using B unfolding k by (simp_all add: vortex_at_def)
  text \<open>a tracer and no vortex\<close>
  have e: "0 \<le> (0::int)" "nat 0 \<le> length ([]::Vortex list)"
    "NUM_TRACERS example_constants = 1" "0 \<le> (1::int)" "nat 1 \<le> length example_tracers"
    "1 \<le> THREADCOUNT example_constants"
    "\<forall>t < nat 1. tIndex (example_tracers ! t) = int t"
    "3 * (0 * 1) \<le> int (length ([]::real list))"
    by (simp_all add: example_constants_def example_tracers_def tracer_at_def)
  have "(0::nat) < nat 1" by simp
  note C = rk4_velocity_accumulation [where dt = "1 / 10" and vortRads = "[]",
      OF e refl refl refl refl refl, THEN conjunct2, rule_format, OF this]
  have C': "velocity (rk_tracers (stepForward_RK4 example_constants 0 (1 / 10)
                   [] [] [] example_tracers 1) ! 0) = (0, 0)"
    "position (rk_tracers (stepForward_RK4 example_constants 0 (1 / 10)
                   [] [] [] example_tracers 1) ! 0) = (2, 2)"
    using C by (simp_all add: no_vortex_tracer_sample example_tracers_def tracer_at_def)
  from A B' C' show ?thesis by blast
qed

end
